theory Spec2Isabelle
  imports Complex_Main
begin

section \<open>Host outcomes\<close>

text \<open>
  Every modelled method returns an outcome. \<open>Done\<close> is a normal Python return.
  \<open>HostException\<close> is a Python exception that no handler of the program catches (the
  string is the exception class). \<open>OutOfFuel\<close> is returned by the recursive functions
  when their recursion budget is used up. \<open>Unmodelled\<close> marks the places where the
  program leaves this model: arithmetic on host floats, console input/output, and
  operands of a dynamic type that the operation at hand does not expect.
\<close>

datatype 'a outcome = Done 'a | HostException string | OutOfFuel | Unmodelled string

section \<open>Positions, errors and tokens\<close>

datatype Position =
  Position (theindex: int) (linenum: int) (column: int) (filename: string) (filetext: string)

definition Position_advance :: "Position \<Rightarrow> char option \<Rightarrow> Position" where
  "Position_advance p current_char =
     (if current_char = Some (CHR 0x0A)
      then Position (theindex p + 1) (linenum p + 1) 0 (filename p) (filetext p)
      else Position (theindex p + 1) (linenum p) (column p + 1) (filename p) (filetext p))"

datatype Error =
  Error (err_pos_start: Position) (err_pos_end: Position) (error_name: string) (details: string)

definition IllegalCharError :: "Position \<Rightarrow> Position \<Rightarrow> string \<Rightarrow> Error" where
  "IllegalCharError ps pe d = Error ps pe ''Illegal Character'' d"

definition ExpectedCharError :: "Position \<Rightarrow> Position \<Rightarrow> string \<Rightarrow> Error" where
  "ExpectedCharError ps pe d = Error ps pe ''Expected Character'' d"

definition InvalidSyntaxError :: "Position \<Rightarrow> Position \<Rightarrow> string \<Rightarrow> Error" where
  "InvalidSyntaxError ps pe d = Error ps pe ''Invalid Syntax'' d"

datatype token_type =
    TOKEN_TYPE_INT | TOKEN_TYPE_FLOAT | TOKEN_TYPE_STRING | TOKEN_TYPE_IDENTIFIER
  | TOKEN_TYPE_KEYWORD | TOKEN_TYPE_PLUS | TOKEN_TYPE_MINUS | TOKEN_TYPE_MULTIPLY
  | TOKEN_TYPE_DIVIDE | TOKEN_TYPE_MODULUS | TOKEN_TYPE_POWER | TOKEN_TYPE_ASSIGN
  | TOKEN_TYPE_LPAREN | TOKEN_TYPE_RPAREN | TOKEN_TYPE_LSQUARE | TOKEN_TYPE_RSQUARE
  | TOKEN_TYPE_EQUAL_TO | TOKEN_TYPE_NOT_EQUAL_TO | TOKEN_TYPE_LESS_THAN
  | TOKEN_TYPE_GREATER_THAN | TOKEN_TYPE_LESS_THAN_EQUAL_TO
  | TOKEN_TYPE_GREATER_THAN_EQUAL_TO | TOKEN_TYPE_COMMA | TOKEN_TYPE_ARROW
  | TOKEN_TYPE_NEWLINE | TOKEN_TYPE_EOF

definition COMPARISONS_TOKEN :: "token_type list" where
  "COMPARISONS_TOKEN =
     [TOKEN_TYPE_EQUAL_TO, TOKEN_TYPE_NOT_EQUAL_TO, TOKEN_TYPE_LESS_THAN,
      TOKEN_TYPE_GREATER_THAN, TOKEN_TYPE_LESS_THAN_EQUAL_TO,
      TOKEN_TYPE_GREATER_THAN_EQUAL_TO]"

definition KEYWORDS :: "string list" where
  "KEYWORDS =
     [''VAR'', ''AND'', ''OR'', ''NOT'', ''IF'', ''ELIF'', ''ELSE'', ''FOR'', ''TO'',
      ''STEP'', ''WHILE'', ''FUN'', ''THEN'', ''END'', ''RETURN'', ''CONTINUE'',
      ''BREAK'', ''IMPORT'']"

text \<open>
  A host float is either infinite or finite. A finite float is kept as the exact rational
  it was converted from: the rounding to 53 bits is not modelled, only the two ends of
  the range, where the host returns infinity or zero.
\<close>

datatype pyfloat = FInf | FFinite rat

text \<open>The payload of a token: \<open>None\<close>, a Python \<open>str\<close>, \<open>int\<close> or \<open>float\<close>.\<close>

datatype tokval = StrVal string | IntVal int | FloatVal pyfloat

datatype Token =
  Token (ttype: token_type) (tvalue: "tokval option") (pos_start: Position) (pos_end: Position)

text \<open>
  \<open>Token.__init__\<close>: the end position defaults to one step after the start position.
\<close>

definition new_Token ::
  "token_type \<Rightarrow> tokval option \<Rightarrow> Position \<Rightarrow> Position option \<Rightarrow> Token" where
  "new_Token tt v ps pe =
     Token tt v ps (case pe of None \<Rightarrow> Position_advance ps None | Some p \<Rightarrow> p)"

definition matches :: "Token \<Rightarrow> token_type \<Rightarrow> string \<Rightarrow> bool" where
  "matches tok tt v \<longleftrightarrow> ttype tok = tt \<and> tvalue tok = Some (StrVal v)"

section \<open>The constants module\<close>

text \<open>
  Modelled from the spec: the module \<open>constants\<close> (imported as \<open>c\<close>) is not among the
  sources. The spec names its contents: character classes, and human-readable error
  messages. The character classes follow the lexer rules of the spec (digits; letters;
  digits, one dot and an exponent mark for numbers; two hexadecimal digits after
  \<open>\x\<close>). A message \<open>c.ERRORS[key]\<close> is represented by its key.
\<close>

definition DIGITS :: string where
  "DIGITS = ''0123456789''"

definition LETTERS :: string where
  "LETTERS = ''abcdefghijklmnopqrstuvwxyzABCDEFGHIJKLMNOPQRSTUVWXYZ''"

definition LETTERS_DIGITS :: string where
  "LETTERS_DIGITS = LETTERS @ DIGITS"

definition NUMBER_CHARS :: string where
  "NUMBER_CHARS = DIGITS @ ''.eE''"

definition HEX_CHARS :: string where
  "HEX_CHARS = ''0123456789abcdefABCDEF''"

definition ESCAPE_CHARACTERS :: "char \<Rightarrow> char option" where
  "ESCAPE_CHARACTERS ch =
     (if ch = CHR ''n'' then Some (CHR 0x0A)
      else if ch = CHR ''t'' then Some (CHR 0x09) else None)"

definition ERRORS :: "string \<Rightarrow> string" where
  "ERRORS key = key"

section \<open>Host conversions used by the lexer\<close>

text \<open>\<open>int(s)\<close> for a string of decimal digits.\<close>

definition int_of_digits :: "string \<Rightarrow> int" where
  "int_of_digits s = foldl (\<lambda>a ch. a * 10 + (of_char ch - 48)) 0 s"

text \<open>
  The exact value of a decimal string \<open>digits[.digits]\<close>, and the host conversion
  \<open>float(...)\<close> of a non-negative exact value: values from \<open>2^1024 - 2^970\<close> on become
  infinity, values up to \<open>2^-1075\<close> become zero (round to nearest, ties to even).
\<close>

definition decimal_value :: "string \<Rightarrow> rat" where
  "decimal_value s =
     (let ip = takeWhile (\<lambda>ch. ch \<noteq> CHR ''.'') s;
          fp = drop 1 (dropWhile (\<lambda>ch. ch \<noteq> CHR ''.'') s)
      in of_int (int_of_digits (ip @ fp)) / 10 ^ length fp)"

definition float_of_rat :: "rat \<Rightarrow> pyfloat" where
  "float_of_rat v =
     (if 2 ^ 1024 - 2 ^ 970 \<le> v then FInf
      else if v \<le> 1 / 2 ^ 1075 then FFinite 0
      else FFinite v)"

text \<open>
  \<open>float(num_str + "e" + sign_str + exponent_str)\<close>; \<open>None\<close> is the \<open>ValueError\<close> of a
  string without exponent digits.
\<close>

definition float_of_exponent_str :: "string \<Rightarrow> string \<Rightarrow> string \<Rightarrow> pyfloat option" where
  "float_of_exponent_str num_str sign_str exponent_str =
     (if exponent_str = [] then None
      else if sign_str = ''-''
        then Some (float_of_rat (decimal_value num_str / 10 ^ nat (int_of_digits exponent_str)))
        else Some (float_of_rat (decimal_value num_str * 10 ^ nat (int_of_digits exponent_str))))"

text \<open>
  \<open>math.log10(x) >= 308\<close> and \<open>math.log10(x) <= -308\<close> for a finite positive float,
  read on the exact value.
\<close>

definition log10_ge_308 :: "rat \<Rightarrow> bool" where
  "log10_ge_308 x \<longleftrightarrow> 10 ^ 308 \<le> x"

definition log10_le_minus_308 :: "rat \<Rightarrow> bool" where
  "log10_le_minus_308 x \<longleftrightarrow> x \<le> 1 / 10 ^ 308"

section \<open>Lexer\<close>

record Lexer =
  text_lx :: string
  pos :: Position
  current_char :: "char option"

definition Lexer_advance :: "Lexer \<Rightarrow> Lexer" where
  "Lexer_advance lx =
     (let p = Position_advance (pos lx) (current_char lx)
      in lx\<lparr>pos := p,
            current_char :=
              (if theindex p < int (length (text_lx lx))
               then Some (text_lx lx ! nat (theindex p)) else None)\<rparr>)"

definition Lexer_init :: "string \<Rightarrow> string \<Rightarrow> Lexer" where
  "Lexer_init fn txt =
     Lexer_advance \<lparr>text_lx = txt, pos = Position (- 1) 0 (- 1) fn txt, current_char = None\<rparr>"

text \<open>
  The loops of the lexer advance by one character in every round, so their recursion
  budget is the length of the text (plus one for the final test).
\<close>

definition lexer_fuel :: "Lexer \<Rightarrow> nat" where
  "lexer_fuel lx = Suc (Suc (length (text_lx lx)))"

fun exponent_digits_loop :: "nat \<Rightarrow> Lexer \<Rightarrow> string \<Rightarrow> (string \<times> Lexer) outcome" where
  "exponent_digits_loop 0 lx exponent_str = OutOfFuel"
| "exponent_digits_loop (Suc k) lx exponent_str =
     (case current_char lx of
        None \<Rightarrow> Done (exponent_str, lx)
      | Some ch \<Rightarrow>
          if ch \<in> set DIGITS
          then exponent_digits_loop k (Lexer_advance lx) (exponent_str @ [ch])
          else Done (exponent_str, lx))"

text \<open>
  \<open>make_exponent_number\<close>. The local \<open>thelog10\<close> is assigned by the walrus expression
  only when \<open>thenumber != 0\<close> holds and \<open>math.isinf(thenumber)\<close> is false; the \<open>elif\<close>
  reads it in every case where the first test is false.
\<close>

definition make_exponent_number ::
  "Lexer \<Rightarrow> string \<Rightarrow> Position \<Rightarrow> ((Error + Token) \<times> Lexer) outcome" where
  "make_exponent_number lx num_str pos_start0 =
     (let (sign_str, lx1) =
            (if current_char lx = Some (CHR ''+'') \<or> current_char lx = Some (CHR ''-'')
             then ([the (current_char lx)], Lexer_advance lx) else ([], lx))
      in case exponent_digits_loop (lexer_fuel lx1) lx1 [] of
           Done (exponent_str, lx2) \<Rightarrow>
             (case float_of_exponent_str num_str sign_str exponent_str of
                None \<Rightarrow>
                  Done (Inl (InvalidSyntaxError pos_start0 (pos lx2) (ERRORS ''exponent_error'')), lx2)
              | Some FInf \<Rightarrow>
                  Done (Inl (InvalidSyntaxError pos_start0 (pos lx2) (ERRORS ''exponent_overflow'')), lx2)
              | Some (FFinite x) \<Rightarrow>
                  if x \<noteq> 0 \<and> log10_ge_308 x
                  then Done (Inl (InvalidSyntaxError pos_start0 (pos lx2)
                                    (ERRORS ''exponent_overflow'')), lx2)
                  else if x = 0 then HostException ''UnboundLocalError''
                  else if log10_le_minus_308 x
                  then Done (Inl (InvalidSyntaxError pos_start0 (pos lx2)
                                    (ERRORS ''exponent_underflow'')), lx2)
                  else Done (Inr (new_Token TOKEN_TYPE_FLOAT (Some (FloatVal (FFinite x)))
                                    pos_start0 (Some (pos lx2))), lx2))
         | HostException e \<Rightarrow> HostException e
         | OutOfFuel \<Rightarrow> OutOfFuel
         | Unmodelled e \<Rightarrow> Unmodelled e)"

text \<open>
  The loop of \<open>make_number\<close>. The flag of the result tells whether the loop was left at an
  \<open>e\<close> or \<open>E\<close> (which has then been passed).
\<close>

fun make_number_loop ::
  "nat \<Rightarrow> Lexer \<Rightarrow> string \<Rightarrow> nat \<Rightarrow> (bool \<times> Lexer \<times> string \<times> nat) outcome" where
  "make_number_loop 0 lx num_str dot_count = OutOfFuel"
| "make_number_loop (Suc k) lx num_str dot_count =
     (case current_char lx of
        None \<Rightarrow> Done (False, lx, num_str, dot_count)
      | Some ch \<Rightarrow>
          if ch \<notin> set NUMBER_CHARS then Done (False, lx, num_str, dot_count)
          else if ch = CHR ''.'' then
            (if dot_count = 1 then Done (False, lx, num_str, dot_count)
             else make_number_loop k (Lexer_advance lx) (num_str @ [ch]) (dot_count + 1))
          else if ch = CHR ''e'' \<or> ch = CHR ''E'' then
            Done (True, Lexer_advance lx, num_str, dot_count)
          else make_number_loop k (Lexer_advance lx) (num_str @ [ch]) dot_count)"

text \<open>
  \<open>make_number\<close>. The overflow test of the source is
  \<open>thenumber != 0 and (math.isinf(thenumber) or math.log10(thenumber)) >= 308\<close>:
  the comparison applies to the value of the \<open>or\<close>. For an \<open>int\<close> too large for a float
  \<open>math.isinf\<close> raises \<open>OverflowError\<close>, which the handler turns into the overflow error.
  For an infinite float the \<open>or\<close> yields \<open>True\<close>, and \<open>True >= 308\<close> is false.
\<close>

definition make_number :: "Lexer \<Rightarrow> ((Error + Token) \<times> Lexer) outcome" where
  "make_number lx =
     (let pos_start0 = pos lx
      in case make_number_loop (lexer_fuel lx) lx [] 0 of
           Done (True, lx1, num_str, dot_count) \<Rightarrow> make_exponent_number lx1 num_str pos_start0
         | Done (False, lx1, num_str, dot_count) \<Rightarrow>
             (if dot_count = 0 then
                (let thenumber = int_of_digits num_str
                 in if thenumber \<noteq> 0 \<and>
                       (2 ^ 1024 - 2 ^ 970 \<le> (of_int thenumber :: rat)
                        \<or> log10_ge_308 (of_int thenumber))
                    then Done (Inl (InvalidSyntaxError pos_start0 (pos lx1)
                                      (ERRORS ''number_overflow'')), lx1)
                    else Done (Inr (new_Token TOKEN_TYPE_INT (Some (IntVal thenumber))
                                      pos_start0 (Some (pos lx1))), lx1))
              else
                (case float_of_rat (decimal_value num_str) of
                   FInf \<Rightarrow>
                     Done (Inr (new_Token TOKEN_TYPE_FLOAT (Some (FloatVal FInf))
                                  pos_start0 (Some (pos lx1))), lx1)
                 | FFinite x \<Rightarrow>
                     if x \<noteq> 0 \<and> log10_ge_308 x
                     then Done (Inl (InvalidSyntaxError pos_start0 (pos lx1)
                                       (ERRORS ''number_overflow'')), lx1)
                     else Done (Inr (new_Token TOKEN_TYPE_FLOAT (Some (FloatVal (FFinite x)))
                                       pos_start0 (Some (pos lx1))), lx1)))
         | HostException e \<Rightarrow> HostException e
         | OutOfFuel \<Rightarrow> OutOfFuel
         | Unmodelled e \<Rightarrow> Unmodelled e)"

text \<open>\<open>int(ch, 16)\<close> for one hexadecimal digit.\<close>

definition hex_value :: "char \<Rightarrow> nat" where
  "hex_value ch =
     (if ch \<in> set DIGITS then of_char ch - 48
      else if ch \<in> set ''abcdef'' then of_char ch - 87
      else of_char ch - 55)"

definition check_the_char :: "Lexer \<Rightarrow> Position \<Rightarrow> (Error + char) \<times> Lexer" where
  "check_the_char lx pos_start0 =
     (case current_char lx of
        None \<Rightarrow>
          (Inl (InvalidSyntaxError pos_start0 (pos lx) (ERRORS ''unterminated_string'')), lx)
      | Some ch \<Rightarrow>
          if ch \<notin> set HEX_CHARS
          then (let lx1 = Lexer_advance lx
                in (Inl (InvalidSyntaxError pos_start0 (pos lx1) (ERRORS ''illegal_hex_char'')), lx1))
          else (Inr ch, lx))"

definition handle_hex_value :: "Lexer \<Rightarrow> Position \<Rightarrow> (Error + char) \<times> Lexer" where
  "handle_hex_value lx pos_start0 =
     (case check_the_char lx pos_start0 of
        (Inl e, lx1) \<Rightarrow> (Inl e, lx1)
      | (Inr char1, lx1) \<Rightarrow>
          (case check_the_char (Lexer_advance lx1) pos_start0 of
             (Inl e, lx2) \<Rightarrow> (Inl e, lx2)
           | (Inr char2, lx2) \<Rightarrow>
               (Inr (char_of (hex_value char1 * 16 + hex_value char2)), Lexer_advance lx2)))"

fun make_string_loop ::
  "nat \<Rightarrow> Lexer \<Rightarrow> Position \<Rightarrow> string \<Rightarrow> bool \<Rightarrow> ((Error + string) \<times> Lexer) outcome" where
  "make_string_loop 0 lx pos_start0 str escape_character_flag = OutOfFuel"
| "make_string_loop (Suc k) lx pos_start0 str escape_character_flag =
     (case current_char lx of
        None \<Rightarrow> Done (Inr str, lx)
      | Some ch \<Rightarrow>
          if ch = CHR 0x22 \<and> \<not> escape_character_flag then Done (Inr str, lx)
          else if escape_character_flag \<and> ch = CHR ''x'' then
            (case handle_hex_value (Lexer_advance lx) pos_start0 of
               (Inl e, lx1) \<Rightarrow> Done (Inl e, lx1)
             | (Inr r, lx1) \<Rightarrow> make_string_loop k lx1 pos_start0 (str @ [r]) False)
          else if escape_character_flag then
            make_string_loop k (Lexer_advance lx) pos_start0
              (str @ [case ESCAPE_CHARACTERS ch of None \<Rightarrow> ch | Some r \<Rightarrow> r]) False
          else if ch = CHR 0x5C then
            make_string_loop k (Lexer_advance lx) pos_start0 str True
          else make_string_loop k (Lexer_advance lx) pos_start0 (str @ [ch]) False)"

definition make_string :: "Lexer \<Rightarrow> ((Error + Token) \<times> Lexer) outcome" where
  "make_string lx =
     (let pos_start0 = pos lx
      in case make_string_loop (lexer_fuel lx) (Lexer_advance lx) pos_start0 [] False of
           Done (Inl e, lx1) \<Rightarrow> Done (Inl e, lx1)
         | Done (Inr str, lx1) \<Rightarrow>
             (if current_char lx1 = None
              then Done (Inl (InvalidSyntaxError pos_start0 (pos lx1)
                                (ERRORS ''unterminated_string'')), lx1)
              else (let lx2 = Lexer_advance lx1
                    in Done (Inr (new_Token TOKEN_TYPE_STRING (Some (StrVal str))
                                    pos_start0 (Some (pos lx2))), lx2)))
         | HostException e \<Rightarrow> HostException e
         | OutOfFuel \<Rightarrow> OutOfFuel
         | Unmodelled e \<Rightarrow> Unmodelled e)"

fun make_identifier_loop :: "nat \<Rightarrow> Lexer \<Rightarrow> string \<Rightarrow> (string \<times> Lexer) outcome" where
  "make_identifier_loop 0 lx id_str = OutOfFuel"
| "make_identifier_loop (Suc k) lx id_str =
     (case current_char lx of
        None \<Rightarrow> Done (id_str, lx)
      | Some ch \<Rightarrow>
          if ch \<in> set (LETTERS_DIGITS @ ''_'')
          then make_identifier_loop k (Lexer_advance lx) (id_str @ [ch])
          else Done (id_str, lx))"

definition make_identifier :: "Lexer \<Rightarrow> (Token \<times> Lexer) outcome" where
  "make_identifier lx =
     (let pos_start0 = pos lx
      in case make_identifier_loop (lexer_fuel lx) lx [] of
           Done (id_str, lx1) \<Rightarrow>
             (let tok_type = (if id_str \<in> set KEYWORDS
                              then TOKEN_TYPE_KEYWORD else TOKEN_TYPE_IDENTIFIER)
              in Done (new_Token tok_type (Some (StrVal id_str)) pos_start0 (Some (pos lx1)), lx1))
         | HostException e \<Rightarrow> HostException e
         | OutOfFuel \<Rightarrow> OutOfFuel
         | Unmodelled e \<Rightarrow> Unmodelled e)"

text \<open>
  \<open>make_minus_or_arrow\<close>, \<open>make_equals\<close>, \<open>make_less_than\<close> and \<open>make_greater_than\<close>
  have one shape: pass the first character, and pass the second one when it is the
  expected character.
\<close>

definition make_two_char ::
  "Lexer \<Rightarrow> char \<Rightarrow> token_type \<Rightarrow> token_type \<Rightarrow> Token \<times> Lexer" where
  "make_two_char lx second tt1 tt2 =
     (let pos_start0 = pos lx; lx1 = Lexer_advance lx
      in if current_char lx1 = Some second
         then (let lx2 = Lexer_advance lx1
               in (new_Token tt2 None pos_start0 (Some (pos lx2)), lx2))
         else (new_Token tt1 None pos_start0 (Some (pos lx1)), lx1))"

definition make_minus_or_arrow :: "Lexer \<Rightarrow> Token \<times> Lexer" where
  "make_minus_or_arrow lx = make_two_char lx (CHR ''>'') TOKEN_TYPE_MINUS TOKEN_TYPE_ARROW"

definition make_equals :: "Lexer \<Rightarrow> Token \<times> Lexer" where
  "make_equals lx = make_two_char lx (CHR ''='') TOKEN_TYPE_ASSIGN TOKEN_TYPE_EQUAL_TO"

definition make_less_than :: "Lexer \<Rightarrow> Token \<times> Lexer" where
  "make_less_than lx =
     make_two_char lx (CHR ''='') TOKEN_TYPE_LESS_THAN TOKEN_TYPE_LESS_THAN_EQUAL_TO"

definition make_greater_than :: "Lexer \<Rightarrow> Token \<times> Lexer" where
  "make_greater_than lx =
     make_two_char lx (CHR ''='') TOKEN_TYPE_GREATER_THAN TOKEN_TYPE_GREATER_THAN_EQUAL_TO"

definition make_not_equals :: "Lexer \<Rightarrow> (Error + Token) \<times> Lexer" where
  "make_not_equals lx =
     (let pos_start0 = pos lx; lx1 = Lexer_advance lx
      in if current_char lx1 = Some (CHR ''='')
         then (let lx2 = Lexer_advance lx1
               in (Inr (new_Token TOKEN_TYPE_NOT_EQUAL_TO None pos_start0 (Some (pos lx2))), lx2))
         else (let lx2 = Lexer_advance lx1
               in (Inl (ExpectedCharError pos_start0 (pos lx2)
                          ([CHR 0x27] @ ''='' @ [CHR 0x27] @ '' (after ''
                           @ [CHR 0x27] @ ''!'' @ [CHR 0x27] @ '')'')), lx2)))"

fun skip_comment_loop :: "nat \<Rightarrow> Lexer \<Rightarrow> bool \<Rightarrow> (Error option \<times> Lexer) outcome" where
  "skip_comment_loop 0 lx multi_line_comment = OutOfFuel"
| "skip_comment_loop (Suc k) lx multi_line_comment =
     (if current_char lx = Some (CHR ''*'') \<and> multi_line_comment then
        (let lx1 = Lexer_advance lx
         in if current_char lx1 \<noteq> Some (CHR ''#'')
            then skip_comment_loop k lx1 multi_line_comment
            else Done (None, lx1))
      else if \<not> multi_line_comment
              \<and> (current_char lx = Some (CHR 0x0A) \<or> current_char lx = None)
      then Done (None, lx)
      else if current_char lx = None then
        (let p = pos lx;
             pos_start0 = (if linenum p \<noteq> 0
                           then Position (theindex p) (linenum p - 1) (column p)
                                  (filename p) (filetext p)
                           else p)
         in Done (Some (InvalidSyntaxError pos_start0 (pos lx)
                          (ERRORS ''unterminated_ML_comment'')), lx))
      else skip_comment_loop k (Lexer_advance lx) multi_line_comment)"

definition skip_comment :: "Lexer \<Rightarrow> (Error option \<times> Lexer) outcome" where
  "skip_comment lx =
     (let lx1 = Lexer_advance lx;
          multi_line_comment = (current_char lx1 = Some (CHR ''*''))
      in case skip_comment_loop (lexer_fuel lx1) lx1 multi_line_comment of
           Done (None, lx2) \<Rightarrow> Done (None, Lexer_advance lx2)
         | Done (Some e, lx2) \<Rightarrow> Done (Some e, lx2)
         | HostException e \<Rightarrow> HostException e
         | OutOfFuel \<Rightarrow> OutOfFuel
         | Unmodelled e \<Rightarrow> Unmodelled e)"

text \<open>The one-character tokens: a token at the current position, then one step.\<close>

definition one_char_token :: "Lexer \<Rightarrow> token_type \<Rightarrow> Token \<times> Lexer" where
  "one_char_token lx tt = (new_Token tt None (pos lx) None, Lexer_advance lx)"

definition single_char_type :: "char \<Rightarrow> token_type option" where
  "single_char_type ch =
     (if ch = CHR ''+'' then Some TOKEN_TYPE_PLUS
      else if ch = CHR ''*'' then Some TOKEN_TYPE_MULTIPLY
      else if ch = CHR ''/'' then Some TOKEN_TYPE_DIVIDE
      else if ch = CHR ''%'' then Some TOKEN_TYPE_MODULUS
      else if ch = CHR ''^'' then Some TOKEN_TYPE_POWER
      else if ch = CHR ''('' then Some TOKEN_TYPE_LPAREN
      else if ch = CHR '')'' then Some TOKEN_TYPE_RPAREN
      else if ch = CHR ''['' then Some TOKEN_TYPE_LSQUARE
      else if ch = CHR '']'' then Some TOKEN_TYPE_RSQUARE
      else if ch = CHR '','' then Some TOKEN_TYPE_COMMA
      else None)"

text \<open>
  The loop of \<open>make_tokens\<close>. \<open>Inl\<close> is the return \<open>[], error\<close>, \<open>Inr\<close> the return
  \<open>tokens, None\<close>. The order of the tests is the order of the source, except that the
  one-character tokens, which exclude each other, are looked up last in one table.
\<close>

fun make_tokens_loop :: "nat \<Rightarrow> Lexer \<Rightarrow> Token list \<Rightarrow> (Error + Token list) outcome" where
  "make_tokens_loop 0 lx tokens = OutOfFuel"
| "make_tokens_loop (Suc k) lx tokens =
     (case current_char lx of
        None \<Rightarrow> Done (Inr (tokens @ [new_Token TOKEN_TYPE_EOF None (pos lx) None]))
      | Some ch \<Rightarrow>
          if ch = CHR '' '' \<or> ch = CHR 0x09 then make_tokens_loop k (Lexer_advance lx) tokens
          else if ch = CHR ''#'' then
            (case skip_comment lx of
               Done (Some e, lx1) \<Rightarrow> Done (Inl e)
             | Done (None, lx1) \<Rightarrow> make_tokens_loop k lx1 tokens
             | HostException e \<Rightarrow> HostException e
             | OutOfFuel \<Rightarrow> OutOfFuel
             | Unmodelled e \<Rightarrow> Unmodelled e)
          else if ch = CHR '';'' \<or> ch = CHR 0x0A then
            (case one_char_token lx TOKEN_TYPE_NEWLINE of
               (tok, lx1) \<Rightarrow> make_tokens_loop k lx1 (tokens @ [tok]))
          else if ch \<in> set DIGITS then
            (case make_number lx of
               Done (Inl e, lx1) \<Rightarrow> Done (Inl e)
             | Done (Inr tok, lx1) \<Rightarrow> make_tokens_loop k lx1 (tokens @ [tok])
             | HostException e \<Rightarrow> HostException e
             | OutOfFuel \<Rightarrow> OutOfFuel
             | Unmodelled e \<Rightarrow> Unmodelled e)
          else if ch \<in> set LETTERS then
            (case make_identifier lx of
               Done (tok, lx1) \<Rightarrow> make_tokens_loop k lx1 (tokens @ [tok])
             | HostException e \<Rightarrow> HostException e
             | OutOfFuel \<Rightarrow> OutOfFuel
             | Unmodelled e \<Rightarrow> Unmodelled e)
          else if ch = CHR 0x22 then
            (case make_string lx of
               Done (Inl e, lx1) \<Rightarrow> Done (Inl e)
             | Done (Inr tok, lx1) \<Rightarrow> make_tokens_loop k lx1 (tokens @ [tok])
             | HostException e \<Rightarrow> HostException e
             | OutOfFuel \<Rightarrow> OutOfFuel
             | Unmodelled e \<Rightarrow> Unmodelled e)
          else if ch = CHR ''-'' then
            (case make_minus_or_arrow lx of
               (tok, lx1) \<Rightarrow> make_tokens_loop k lx1 (tokens @ [tok]))
          else if ch = CHR ''!'' then
            (case make_not_equals lx of
               (Inl e, lx1) \<Rightarrow> Done (Inl e)
             | (Inr tok, lx1) \<Rightarrow> make_tokens_loop k lx1 (tokens @ [tok]))
          else if ch = CHR ''='' then
            (case make_equals lx of
               (tok, lx1) \<Rightarrow> make_tokens_loop k lx1 (tokens @ [tok]))
          else if ch = CHR ''<'' then
            (case make_less_than lx of
               (tok, lx1) \<Rightarrow> make_tokens_loop k lx1 (tokens @ [tok]))
          else if ch = CHR ''>'' then
            (case make_greater_than lx of
               (tok, lx1) \<Rightarrow> make_tokens_loop k lx1 (tokens @ [tok]))
          else
            (case single_char_type ch of
               Some tt \<Rightarrow>
                 (case one_char_token lx tt of
                    (tok, lx1) \<Rightarrow> make_tokens_loop k lx1 (tokens @ [tok]))
             | None \<Rightarrow>
                 (let pos_start0 = pos lx; lx1 = Lexer_advance lx
                  in Done (Inl (IllegalCharError pos_start0 (pos lx1)
                                  ([CHR 0x27] @ [ch] @ [CHR 0x27]))))))"

definition make_tokens :: "Lexer \<Rightarrow> (Error + Token list) outcome" where
  "make_tokens lx = make_tokens_loop (lexer_fuel lx) lx []"

section \<open>Sequencing of outcomes\<close>

definition obind :: "'a outcome \<Rightarrow> ('a \<Rightarrow> 'b outcome) \<Rightarrow> 'b outcome" where
  "obind m f =
     (case m of
        Done x \<Rightarrow> f x
      | HostException e \<Rightarrow> HostException e
      | OutOfFuel \<Rightarrow> OutOfFuel
      | Unmodelled e \<Rightarrow> Unmodelled e)"

section \<open>Nodes\<close>

text \<open>
  The node classes. The spans that a constructor copies from its children are not
  stored; the spans that the parser passes to a constructor are.
  A case of an \<open>IfNode\<close> is the triple \<open>(condition, body, should_return_none)\<close>, its
  else-case the pair \<open>(body, should_return_none)\<close>.
\<close>

datatype node =
    NumberNode Token
  | StringNode Token
  | ListNode "node list" Position Position
  | VarAccessNode Token
  | VarAssignNode Token node
  | BinOpNode node Token node
  | UnaryOpNode Token node
  | IfNode "(node \<times> node \<times> bool) list" "(node \<times> bool) option"
  | ForNode Token node node "node option" node bool
  | WhileNode node node bool
  | FuncDefNode "Token option" "Token list" node bool
  | CallNode node "node list"
  | ReturnNode "node option" Position Position
  | ContinueNode Position Position
  | BreakNode Position Position
  | ImportNode node Position Position

section \<open>ParseResult\<close>

text \<open>
  What the field \<open>node\<close> of a \<open>ParseResult\<close> holds: a node, the pair
  \<open>(cases, else_case)\<close> of the \<open>IF\<close> productions, or an else-case alone. The value
  \<open>None\<close> of the field is \<open>None\<close> of the option type.
\<close>

datatype pnode =
    PNode node
  | PCases "(node \<times> node \<times> bool) list" "(node \<times> bool) option"
  | PElse "node \<times> bool"

record ParseResult =
  error_pr :: "Error option"
  node_pr :: "pnode option"
  last_registered_advance_count :: int
  advance_count :: int
  to_reverse_count :: int

definition ParseResult_init :: ParseResult where
  "ParseResult_init =
     \<lparr>error_pr = None, node_pr = None, last_registered_advance_count = 0,
      advance_count = 0, to_reverse_count = 0\<rparr>"

definition register_advancement :: "ParseResult \<Rightarrow> ParseResult" where
  "register_advancement r =
     r\<lparr>last_registered_advance_count := 1, advance_count := advance_count r + 1\<rparr>"

definition register :: "ParseResult \<Rightarrow> ParseResult \<Rightarrow> pnode option \<times> ParseResult" where
  "register r res =
     (node_pr res,
      r\<lparr>last_registered_advance_count := advance_count res,
        advance_count := advance_count r + advance_count res,
        error_pr := (if error_pr res \<noteq> None then error_pr res else error_pr r)\<rparr>)"

definition try_register :: "ParseResult \<Rightarrow> ParseResult \<Rightarrow> pnode option \<times> ParseResult" where
  "try_register r res =
     (if error_pr res \<noteq> None
      then (None, r\<lparr>to_reverse_count := advance_count res\<rparr>)
      else register r res)"

definition success :: "ParseResult \<Rightarrow> pnode option \<Rightarrow> ParseResult" where
  "success r n = r\<lparr>node_pr := n\<rparr>"

definition failure :: "ParseResult \<Rightarrow> Error \<Rightarrow> ParseResult" where
  "failure r e =
     (if error_pr r = None \<or> last_registered_advance_count r = 0
      then r\<lparr>error_pr := Some e\<rparr> else r)"

section \<open>Parser\<close>

record Parser =
  tokens :: "Token list"
  token_index :: int
  current_token :: Token

definition update_current_tok :: "Parser \<Rightarrow> Parser" where
  "update_current_tok ps =
     (if 0 \<le> token_index ps \<and> token_index ps < int (length (tokens ps))
      then ps\<lparr>current_token := tokens ps ! nat (token_index ps)\<rparr>
      else ps)"

definition Parser_advance :: "Parser \<Rightarrow> Parser" where
  "Parser_advance ps = update_current_tok (ps\<lparr>token_index := token_index ps + 1\<rparr>)"

definition reverse :: "Parser \<Rightarrow> int \<Rightarrow> Parser" where
  "reverse ps amount = update_current_tok (ps\<lparr>token_index := token_index ps - amount\<rparr>)"

text \<open>
  \<open>Parser.__init__\<close>. With an empty token list the attribute \<open>current_token\<close> is never
  assigned, and the first read of it raises; the lexer always ends its list with an
  \<open>EOF\<close> token.
\<close>

definition Parser_init :: "Token list \<Rightarrow> Parser option" where
  "Parser_init toks =
     (case toks of
        [] \<Rightarrow> None
      | t # ts \<Rightarrow> Some \<lparr>tokens = toks, token_index = 0, current_token = t\<rparr>)"

text \<open>
  The methods of the parser call each other through \<open>self\<close>. Each method is a definition
  that takes the methods it calls as one parameter \<open>P\<close>, indexed by the name of the
  method; the function \<open>parse_nt\<close> below closes the recursion.
\<close>

datatype nonterm =
    NT_statements | NT_statement | NT_expr | NT_comp_expr | NT_arith_expr | NT_term
  | NT_factor | NT_power | NT_call | NT_atom | NT_list_expr | NT_if_expr | NT_if_expr_b
  | NT_if_expr_c | NT_if_expr_b_or_c | NT_if_expr_cases string | NT_for_expr
  | NT_while_expr | NT_func_def

type_synonym parser_fun =
  "nonterm \<Rightarrow> bool \<Rightarrow> bool \<Rightarrow> Parser \<Rightarrow> (ParseResult \<times> Parser) outcome"

text \<open>The recurring pair \<open>result.register_advancement(); self.advance()\<close>.\<close>

definition advance_past :: "ParseResult \<Rightarrow> Parser \<Rightarrow> ParseResult \<times> Parser" where
  "advance_past r ps = (register_advancement r, Parser_advance ps)"

text \<open>
  The recurring \<open>result.failure(InvalidSyntaxError(self.current_token.pos_start,
  self.current_token.pos_end, details))\<close>.
\<close>

definition fail_here :: "ParseResult \<Rightarrow> Parser \<Rightarrow> string \<Rightarrow> ParseResult" where
  "fail_here r ps d =
     failure r (InvalidSyntaxError (pos_start (current_token ps)) (pos_end (current_token ps)) d)"

definition parser_fuel :: "Parser \<Rightarrow> nat" where
  "parser_fuel ps = Suc (Suc (length (tokens ps)))"

text \<open>
  The loop \<open>while self.current_token.type == TOKEN_TYPE_NEWLINE\<close> of \<open>statements\<close> and of
  \<open>parse_any_additional_statements\<close>; the last component counts the rounds.
\<close>

fun newlines_loop ::
  "nat \<Rightarrow> ParseResult \<Rightarrow> Parser \<Rightarrow> int \<Rightarrow> (ParseResult \<times> Parser \<times> int) outcome" where
  "newlines_loop 0 r ps newline_count = OutOfFuel"
| "newlines_loop (Suc k) r ps newline_count =
     (if ttype (current_token ps) = TOKEN_TYPE_NEWLINE
      then newlines_loop k (register_advancement r) (Parser_advance ps) (newline_count + 1)
      else Done (r, ps, newline_count))"

text \<open>
  \<open>parse_any_additional_statements\<close>. \<open>try_register\<close> keeps no error of the attempted
  statement; the parser goes back by \<open>to_reverse_count\<close> tokens and the loop ends after
  one more round.
\<close>

fun parse_any_additional_statements_loop ::
  "nat \<Rightarrow> parser_fun \<Rightarrow> bool \<Rightarrow> bool \<Rightarrow> bool \<Rightarrow> node list \<Rightarrow> ParseResult \<Rightarrow> Parser
     \<Rightarrow> (node list \<times> ParseResult \<times> Parser) outcome" where
  "parse_any_additional_statements_loop 0 P in_a_function in_a_loop more_statements
     stmts r ps = OutOfFuel"
| "parse_any_additional_statements_loop (Suc k) P in_a_function in_a_loop more_statements
     stmts r ps =
     obind (newlines_loop (parser_fuel ps) r ps 0) (\<lambda>(r1, ps1, newline_count).
       if newline_count \<noteq> 0 \<and> more_statements then
         obind (P NT_statement in_a_function in_a_loop ps1) (\<lambda>(res, ps2).
           case try_register r1 res of
             (None, r2) \<Rightarrow>
               parse_any_additional_statements_loop k P in_a_function in_a_loop False
                 stmts r2 (reverse ps2 (to_reverse_count r2))
           | (Some (PNode statement), r2) \<Rightarrow>
               parse_any_additional_statements_loop k P in_a_function in_a_loop more_statements
                 (stmts @ [statement]) r2 ps2
           | (Some _, r2) \<Rightarrow> Unmodelled ''statement that is not a node'')
       else Done (stmts, r1, ps1))"

definition parse_any_additional_statements ::
  "parser_fun \<Rightarrow> bool \<Rightarrow> bool \<Rightarrow> node list \<Rightarrow> ParseResult \<Rightarrow> Parser
     \<Rightarrow> (node list \<times> ParseResult \<times> Parser) outcome" where
  "parse_any_additional_statements P in_a_function in_a_loop stmts r ps =
     parse_any_additional_statements_loop (parser_fuel ps) P in_a_function in_a_loop True
       stmts r ps"

definition statements :: "parser_fun \<Rightarrow> bool \<Rightarrow> bool \<Rightarrow> Parser \<Rightarrow> (ParseResult \<times> Parser) outcome" where
  "statements P in_a_function in_a_loop ps =
     (let pos_start0 = pos_start (current_token ps)
      in obind (newlines_loop (parser_fuel ps) ParseResult_init ps 0) (\<lambda>(r1, ps1, _).
           obind (P NT_statement in_a_function in_a_loop ps1) (\<lambda>(res, ps2).
             case register r1 res of (statement, r2) \<Rightarrow>
               if error_pr r2 \<noteq> None then Done (r2, ps2)
               else (case statement of
                 Some (PNode st) \<Rightarrow>
                   obind (parse_any_additional_statements P in_a_function in_a_loop [st] r2 ps2)
                     (\<lambda>(stmts, r3, ps3).
                        Done (success r3 (Some (PNode (ListNode stmts pos_start0
                                (pos_end (current_token ps3))))), ps3))
               | _ \<Rightarrow> Unmodelled ''statement that is not a node''))))"

text \<open>A registered node that is stored in a new node as an optional child.\<close>

definition parse_return ::
  "parser_fun \<Rightarrow> bool \<Rightarrow> bool \<Rightarrow> ParseResult \<Rightarrow> Position \<Rightarrow> Parser
     \<Rightarrow> (ParseResult \<times> Parser) outcome" where
  "parse_return P in_a_function in_a_loop r pos_start0 ps =
     (case advance_past r ps of (r1, ps1) \<Rightarrow>
        if \<not> in_a_function then Done (fail_here r1 ps1 (ERRORS ''bad_return''), ps1)
        else obind (P NT_expr in_a_function in_a_loop ps1) (\<lambda>(res, ps2).
          case try_register r1 res of
            (None, r2) \<Rightarrow>
              (let ps3 = reverse ps2 (to_reverse_count r2)
               in Done (success r2 (Some (PNode (ReturnNode None pos_start0
                          (pos_start (current_token ps3))))), ps3))
          | (Some (PNode expression), r2) \<Rightarrow>
              Done (success r2 (Some (PNode (ReturnNode (Some expression) pos_start0
                      (pos_start (current_token ps2))))), ps2)
          | (Some _, r2) \<Rightarrow> Unmodelled ''expression that is not a node''))"

definition parse_continue ::
  "bool \<Rightarrow> ParseResult \<Rightarrow> Position \<Rightarrow> Parser \<Rightarrow> (ParseResult \<times> Parser) outcome" where
  "parse_continue in_a_loop r pos_start0 ps =
     (case advance_past r ps of (r1, ps1) \<Rightarrow>
        if \<not> in_a_loop then Done (fail_here r1 ps1 (ERRORS ''bad_continue''), ps1)
        else Done (success r1 (Some (PNode (ContinueNode pos_start0
                     (pos_start (current_token ps1))))), ps1))"

definition parse_break ::
  "bool \<Rightarrow> ParseResult \<Rightarrow> Position \<Rightarrow> Parser \<Rightarrow> (ParseResult \<times> Parser) outcome" where
  "parse_break in_a_loop r pos_start0 ps =
     (case advance_past r ps of (r1, ps1) \<Rightarrow>
        if \<not> in_a_loop then Done (fail_here r1 ps1 (ERRORS ''bad_break''), ps1)
        else Done (success r1 (Some (PNode (BreakNode pos_start0
                     (pos_start (current_token ps1))))), ps1))"

definition parse_import ::
  "parser_fun \<Rightarrow> bool \<Rightarrow> bool \<Rightarrow> ParseResult \<Rightarrow> Position \<Rightarrow> Parser
     \<Rightarrow> (ParseResult \<times> Parser) outcome" where
  "parse_import P in_a_function in_a_loop r pos_start0 ps =
     (case advance_past r ps of (r1, ps1) \<Rightarrow>
        if ttype (current_token ps1) \<noteq> TOKEN_TYPE_STRING
        then Done (fail_here r1 ps1 (ERRORS ''string_expected''), ps1)
        else obind (P NT_atom in_a_function in_a_loop ps1) (\<lambda>(res, ps2).
          case register r1 res of
            (Some (PNode str), r2) \<Rightarrow>
              Done (success r2 (Some (PNode (ImportNode str pos_start0
                      (pos_start (current_token ps2))))), ps2)
          | (_, r2) \<Rightarrow> Unmodelled ''import target that is not a node''))"

definition statement :: "parser_fun \<Rightarrow> bool \<Rightarrow> bool \<Rightarrow> Parser \<Rightarrow> (ParseResult \<times> Parser) outcome" where
  "statement P in_a_function in_a_loop ps =
     (let r = ParseResult_init; pos_start0 = pos_start (current_token ps)
      in if matches (current_token ps) TOKEN_TYPE_KEYWORD ''RETURN''
         then parse_return P in_a_function in_a_loop r pos_start0 ps
         else if matches (current_token ps) TOKEN_TYPE_KEYWORD ''CONTINUE''
         then parse_continue in_a_loop r pos_start0 ps
         else if matches (current_token ps) TOKEN_TYPE_KEYWORD ''BREAK''
         then parse_break in_a_loop r pos_start0 ps
         else if matches (current_token ps) TOKEN_TYPE_KEYWORD ''IMPORT''
         then parse_import P in_a_function in_a_loop r pos_start0 ps
         else obind (P NT_expr in_a_function in_a_loop ps) (\<lambda>(res, ps1).
           case register r res of (expression, r1) \<Rightarrow>
             if error_pr r1 \<noteq> None
             then Done (fail_here r1 ps1 (ERRORS ''statement_syntax_error''), ps1)
             else Done (success r1 expression, ps1)))"

text \<open>
  The operators of \<open>bin_op\<close>: a tuple of token types, or a tuple of pairs of a token type
  and a value. The test is
  \<open>self.current_token.type in ops or (self.current_token.type, self.current_token.value) in ops\<close>.
\<close>

datatype ops = TypeOps "token_type list" | PairOps "(token_type \<times> string) list"

definition token_in_ops :: "Token \<Rightarrow> ops \<Rightarrow> bool" where
  "token_in_ops tok os =
     (case os of
        TypeOps ts \<Rightarrow> ttype tok \<in> set ts
      | PairOps prs \<Rightarrow>
          (case tvalue tok of
             Some (StrVal v) \<Rightarrow> (ttype tok, v) \<in> set prs
           | _ \<Rightarrow> False))"

text \<open>
  A constructor that reads the span of a child raises \<open>AttributeError\<close> when the child is
  \<open>None\<close> or a tuple.
\<close>

fun bin_op_loop ::
  "nat \<Rightarrow> parser_fun \<Rightarrow> bool \<Rightarrow> bool \<Rightarrow> ops \<Rightarrow> nonterm \<Rightarrow> pnode option \<Rightarrow> ParseResult
     \<Rightarrow> Parser \<Rightarrow> (ParseResult \<times> Parser) outcome" where
  "bin_op_loop 0 P in_a_function in_a_loop os func_b left r ps = OutOfFuel"
| "bin_op_loop (Suc k) P in_a_function in_a_loop os func_b left r ps =
     (if token_in_ops (current_token ps) os then
        (let operator_token = current_token ps
         in case advance_past r ps of (r1, ps1) \<Rightarrow>
              obind (P func_b in_a_function in_a_loop ps1) (\<lambda>(res, ps2).
                case register r1 res of (right, r2) \<Rightarrow>
                  if error_pr r2 \<noteq> None then Done (r2, ps2)
                  else (case (left, right) of
                    (Some (PNode l), Some (PNode rn)) \<Rightarrow>
                      bin_op_loop k P in_a_function in_a_loop os func_b
                        (Some (PNode (BinOpNode l operator_token rn))) r2 ps2
                  | _ \<Rightarrow> HostException ''AttributeError'')))
      else Done (success r left, ps))"

definition bin_op ::
  "parser_fun \<Rightarrow> bool \<Rightarrow> bool \<Rightarrow> nonterm \<Rightarrow> ops \<Rightarrow> nonterm option \<Rightarrow> Parser
     \<Rightarrow> (ParseResult \<times> Parser) outcome" where
  "bin_op P in_a_function in_a_loop func_a os func_b0 ps =
     (let func_b = (case func_b0 of None \<Rightarrow> func_a | Some f \<Rightarrow> f)
      in obind (P func_a in_a_function in_a_loop ps) (\<lambda>(res, ps1).
           case register ParseResult_init res of (left, r1) \<Rightarrow>
             if error_pr r1 \<noteq> None then Done (r1, ps1)
             else bin_op_loop (parser_fuel ps1) P in_a_function in_a_loop os func_b left r1 ps1))"

definition parse_variable_assignment ::
  "parser_fun \<Rightarrow> bool \<Rightarrow> bool \<Rightarrow> ParseResult \<Rightarrow> Parser \<Rightarrow> (ParseResult \<times> Parser) outcome" where
  "parse_variable_assignment P in_a_function in_a_loop r ps =
     (case advance_past r ps of (r1, ps1) \<Rightarrow>
        if ttype (current_token ps1) \<noteq> TOKEN_TYPE_IDENTIFIER
        then Done (fail_here r1 ps1 (ERRORS ''identifier_expected''), ps1)
        else (let var_name = current_token ps1
          in case advance_past r1 ps1 of (r2, ps2) \<Rightarrow>
            if ttype (current_token ps2) \<noteq> TOKEN_TYPE_ASSIGN
            then Done (fail_here r2 ps2 (ERRORS ''equal_expected''), ps2)
            else (case advance_past r2 ps2 of (r3, ps3) \<Rightarrow>
              obind (P NT_expr in_a_function in_a_loop ps3) (\<lambda>(res, ps4).
                case register r3 res of (expression, r4) \<Rightarrow>
                  if error_pr r4 \<noteq> None then Done (r4, ps4)
                  else (case expression of
                    Some (PNode e) \<Rightarrow> Done (success r4 (Some (PNode (VarAssignNode var_name e))), ps4)
                  | _ \<Rightarrow> HostException ''AttributeError'')))))"

definition expr :: "parser_fun \<Rightarrow> bool \<Rightarrow> bool \<Rightarrow> Parser \<Rightarrow> (ParseResult \<times> Parser) outcome" where
  "expr P in_a_function in_a_loop ps =
     (if matches (current_token ps) TOKEN_TYPE_KEYWORD ''VAR''
      then parse_variable_assignment P in_a_function in_a_loop ParseResult_init ps
      else obind (bin_op P in_a_function in_a_loop NT_comp_expr
                    (PairOps [(TOKEN_TYPE_KEYWORD, ''AND''), (TOKEN_TYPE_KEYWORD, ''OR'')])
                    None ps) (\<lambda>(res, ps1).
        case register ParseResult_init res of (n, r1) \<Rightarrow>
          if error_pr r1 \<noteq> None
          then Done (fail_here r1 ps1 (ERRORS ''expr_syntax_error''), ps1)
          else Done (success r1 n, ps1)))"

definition comp_expr :: "parser_fun \<Rightarrow> bool \<Rightarrow> bool \<Rightarrow> Parser \<Rightarrow> (ParseResult \<times> Parser) outcome" where
  "comp_expr P in_a_function in_a_loop ps =
     (if matches (current_token ps) TOKEN_TYPE_KEYWORD ''NOT'' then
        (let operator_token = current_token ps
         in case advance_past ParseResult_init ps of (r1, ps1) \<Rightarrow>
              obind (P NT_comp_expr in_a_function in_a_loop ps1) (\<lambda>(res, ps2).
                case register r1 res of (n, r2) \<Rightarrow>
                  if error_pr r2 \<noteq> None then Done (r2, ps2)
                  else (case n of
                    Some (PNode e) \<Rightarrow>
                      Done (success r2 (Some (PNode (UnaryOpNode operator_token e))), ps2)
                  | _ \<Rightarrow> HostException ''AttributeError'')))
      else obind (bin_op P in_a_function in_a_loop NT_arith_expr (TypeOps COMPARISONS_TOKEN)
                    None ps) (\<lambda>(res, ps1).
        case register ParseResult_init res of (n, r1) \<Rightarrow>
          if error_pr r1 \<noteq> None
          then Done (fail_here r1 ps1 (ERRORS ''comp_syntax_error''), ps1)
          else Done (success r1 n, ps1)))"

definition arith_expr :: "parser_fun \<Rightarrow> bool \<Rightarrow> bool \<Rightarrow> Parser \<Rightarrow> (ParseResult \<times> Parser) outcome" where
  "arith_expr P in_a_function in_a_loop ps =
     bin_op P in_a_function in_a_loop NT_term (TypeOps [TOKEN_TYPE_PLUS, TOKEN_TYPE_MINUS]) None ps"

definition term_p :: "parser_fun \<Rightarrow> bool \<Rightarrow> bool \<Rightarrow> Parser \<Rightarrow> (ParseResult \<times> Parser) outcome" where
  "term_p P in_a_function in_a_loop ps =
     bin_op P in_a_function in_a_loop NT_factor
       (TypeOps [TOKEN_TYPE_MULTIPLY, TOKEN_TYPE_DIVIDE, TOKEN_TYPE_MODULUS]) None ps"

definition factor :: "parser_fun \<Rightarrow> bool \<Rightarrow> bool \<Rightarrow> Parser \<Rightarrow> (ParseResult \<times> Parser) outcome" where
  "factor P in_a_function in_a_loop ps =
     (let tok = current_token ps
      in if ttype tok = TOKEN_TYPE_PLUS \<or> ttype tok = TOKEN_TYPE_MINUS then
           (case advance_past ParseResult_init ps of (r1, ps1) \<Rightarrow>
              obind (P NT_factor in_a_function in_a_loop ps1) (\<lambda>(res, ps2).
                case register r1 res of (n, r2) \<Rightarrow>
                  if error_pr r2 \<noteq> None then Done (r2, ps2)
                  else (case n of
                    Some (PNode e) \<Rightarrow> Done (success r2 (Some (PNode (UnaryOpNode tok e))), ps2)
                  | _ \<Rightarrow> HostException ''AttributeError'')))
         else P NT_power in_a_function in_a_loop ps)"

definition power_p :: "parser_fun \<Rightarrow> bool \<Rightarrow> bool \<Rightarrow> Parser \<Rightarrow> (ParseResult \<times> Parser) outcome" where
  "power_p P in_a_function in_a_loop ps =
     bin_op P in_a_function in_a_loop NT_call (TypeOps [TOKEN_TYPE_POWER]) (Some NT_factor) ps"

text \<open>
  The loop \<open>while self.current_token.type == TOKEN_TYPE_COMMA\<close> of \<open>call\<close> and of
  \<open>list_expr\<close>, which is the same in both: \<open>Inl\<close> is the \<open>return result\<close> inside the
  loop, \<open>Inr\<close> the end of the loop.
\<close>

fun more_exprs_loop ::
  "nat \<Rightarrow> parser_fun \<Rightarrow> bool \<Rightarrow> bool \<Rightarrow> node list \<Rightarrow> ParseResult \<Rightarrow> Parser
     \<Rightarrow> ((ParseResult + node list \<times> ParseResult) \<times> Parser) outcome" where
  "more_exprs_loop 0 P in_a_function in_a_loop nodes r ps = OutOfFuel"
| "more_exprs_loop (Suc k) P in_a_function in_a_loop nodes r ps =
     (if ttype (current_token ps) = TOKEN_TYPE_COMMA then
        (case advance_past r ps of (r1, ps1) \<Rightarrow>
           obind (P NT_expr in_a_function in_a_loop ps1) (\<lambda>(res, ps2).
             case register r1 res of (n, r2) \<Rightarrow>
               if error_pr r2 \<noteq> None then Done (Inl r2, ps2)
               else (case n of
                 Some (PNode e) \<Rightarrow>
                   more_exprs_loop k P in_a_function in_a_loop (nodes @ [e]) r2 ps2
               | _ \<Rightarrow> Unmodelled ''expression that is not a node'')))
      else Done (Inr (nodes, r), ps))"

definition call :: "parser_fun \<Rightarrow> bool \<Rightarrow> bool \<Rightarrow> Parser \<Rightarrow> (ParseResult \<times> Parser) outcome" where
  "call P in_a_function in_a_loop ps =
     obind (P NT_atom in_a_function in_a_loop ps) (\<lambda>(res, ps1).
       case register ParseResult_init res of (atom0, r1) \<Rightarrow>
         if error_pr r1 \<noteq> None then Done (r1, ps1)
         else if ttype (current_token ps1) \<noteq> TOKEN_TYPE_LPAREN
         then Done (success r1 atom0, ps1)
         else (case advance_past r1 ps1 of (r2, ps2) \<Rightarrow>
           if ttype (current_token ps2) = TOKEN_TYPE_RPAREN then
             (case advance_past r2 ps2 of (r3, ps3) \<Rightarrow>
                (case atom0 of
                   Some (PNode a) \<Rightarrow> Done (success r3 (Some (PNode (CallNode a []))), ps3)
                 | _ \<Rightarrow> HostException ''AttributeError''))
           else obind (P NT_expr in_a_function in_a_loop ps2) (\<lambda>(res1, ps3).
             case register r2 res1 of (the_arg, r3) \<Rightarrow>
               if error_pr r3 \<noteq> None
               then Done (fail_here r3 ps3 (ERRORS ''arg1_syntax_error''), ps3)
               else (case the_arg of
                 Some (PNode a1) \<Rightarrow>
                   obind (more_exprs_loop (parser_fuel ps3) P in_a_function in_a_loop [a1] r3 ps3)
                     (\<lambda>(lp, ps4).
                        case lp of
                          Inl r4 \<Rightarrow> Done (r4, ps4)
                        | Inr (arg_nodes, r4) \<Rightarrow>
                            if ttype (current_token ps4) \<noteq> TOKEN_TYPE_RPAREN
                            then Done (fail_here r4 ps4 (ERRORS ''comma_rparen_expected''), ps4)
                            else (case advance_past r4 ps4 of (r5, ps5) \<Rightarrow>
                              (case atom0 of
                                 Some (PNode a) \<Rightarrow>
                                   Done (success r5 (Some (PNode (CallNode a arg_nodes))), ps5)
                               | _ \<Rightarrow> HostException ''AttributeError'')))
               | _ \<Rightarrow> Unmodelled ''expression that is not a node''))))"

text \<open>
  The branches of \<open>atom\<close> for \<open>[\<close>, \<open>IF\<close>, \<open>FOR\<close>, \<open>WHILE\<close> and \<open>FUN\<close> have one shape:
  register the result of the production, return at an error, else return its node.
\<close>

definition atom_sub ::
  "parser_fun \<Rightarrow> nonterm \<Rightarrow> bool \<Rightarrow> bool \<Rightarrow> Parser \<Rightarrow> (ParseResult \<times> Parser) outcome" where
  "atom_sub P nt in_a_function in_a_loop ps =
     obind (P nt in_a_function in_a_loop ps) (\<lambda>(res, ps1).
       case register ParseResult_init res of (n, r1) \<Rightarrow>
         if error_pr r1 \<noteq> None then Done (r1, ps1) else Done (success r1 n, ps1))"

definition atom :: "parser_fun \<Rightarrow> bool \<Rightarrow> bool \<Rightarrow> Parser \<Rightarrow> (ParseResult \<times> Parser) outcome" where
  "atom P in_a_function in_a_loop ps =
     (let tok = current_token ps
      in if ttype tok = TOKEN_TYPE_INT \<or> ttype tok = TOKEN_TYPE_FLOAT then
           (case advance_past ParseResult_init ps of (r1, ps1) \<Rightarrow>
              Done (success r1 (Some (PNode (NumberNode tok))), ps1))
         else if ttype tok = TOKEN_TYPE_STRING then
           (case advance_past ParseResult_init ps of (r1, ps1) \<Rightarrow>
              Done (success r1 (Some (PNode (StringNode tok))), ps1))
         else if ttype tok = TOKEN_TYPE_IDENTIFIER then
           (case advance_past ParseResult_init ps of (r1, ps1) \<Rightarrow>
              Done (success r1 (Some (PNode (VarAccessNode tok))), ps1))
         else if ttype tok = TOKEN_TYPE_LPAREN then
           (case advance_past ParseResult_init ps of (r1, ps1) \<Rightarrow>
              obind (P NT_expr in_a_function in_a_loop ps1) (\<lambda>(res, ps2).
                case register r1 res of (e, r2) \<Rightarrow>
                  if error_pr r2 \<noteq> None then Done (r2, ps2)
                  else if ttype (current_token ps2) = TOKEN_TYPE_RPAREN then
                    (case advance_past r2 ps2 of (r3, ps3) \<Rightarrow> Done (success r3 e, ps3))
                  else Done (fail_here r2 ps2 (ERRORS ''rparen_expected''), ps2)))
         else if ttype tok = TOKEN_TYPE_LSQUARE then
           atom_sub P NT_list_expr in_a_function in_a_loop ps
         else if matches tok TOKEN_TYPE_KEYWORD ''IF'' then
           atom_sub P NT_if_expr in_a_function in_a_loop ps
         else if matches tok TOKEN_TYPE_KEYWORD ''FOR'' then
           atom_sub P NT_for_expr in_a_function True ps
         else if matches tok TOKEN_TYPE_KEYWORD ''WHILE'' then
           atom_sub P NT_while_expr in_a_function True ps
         else if matches tok TOKEN_TYPE_KEYWORD ''FUN'' then
           atom_sub P NT_func_def True in_a_loop ps
         else Done (failure ParseResult_init
                      (InvalidSyntaxError (pos_start tok) (pos_end tok)
                         (ERRORS ''atom_syntax_error'')), ps))"

definition list_expr :: "parser_fun \<Rightarrow> bool \<Rightarrow> bool \<Rightarrow> Parser \<Rightarrow> (ParseResult \<times> Parser) outcome" where
  "list_expr P in_a_function in_a_loop ps =
     (let r = ParseResult_init; pos_start0 = pos_start (current_token ps)
      in if ttype (current_token ps) \<noteq> TOKEN_TYPE_LSQUARE
         then Done (fail_here r ps (ERRORS ''lbracket_expected''), ps)
         else (case advance_past r ps of (r1, ps1) \<Rightarrow>
           if ttype (current_token ps1) = TOKEN_TYPE_RSQUARE then
             (case advance_past r1 ps1 of (r2, ps2) \<Rightarrow>
                Done (success r2 (Some (PNode (ListNode [] pos_start0
                        (pos_end (current_token ps2))))), ps2))
           else obind (P NT_expr in_a_function in_a_loop ps1) (\<lambda>(res, ps2).
             case register r1 res of (expression, r2) \<Rightarrow>
               if error_pr r2 \<noteq> None
               then Done (fail_here r2 ps2 (ERRORS ''list_element_expected''), ps2)
               else (case expression of
                 Some (PNode e1) \<Rightarrow>
                   obind (more_exprs_loop (parser_fuel ps2) P in_a_function in_a_loop [e1] r2 ps2)
                     (\<lambda>(lp, ps3).
                        case lp of
                          Inl r3 \<Rightarrow> Done (r3, ps3)
                        | Inr (element_nodes, r3) \<Rightarrow>
                            if ttype (current_token ps3) \<noteq> TOKEN_TYPE_RSQUARE
                            then Done (fail_here r3 ps3 (ERRORS ''comma_rbracket_expected''), ps3)
                            else (case advance_past r3 ps3 of (r4, ps4) \<Rightarrow>
                              Done (success r4 (Some (PNode (ListNode element_nodes pos_start0
                                      (pos_end (current_token ps4))))), ps4)))
               | _ \<Rightarrow> Unmodelled ''expression that is not a node''))))"

text \<open>
  \<open>if_expr\<close> unpacks the pair \<open>(cases, else_case)\<close>; \<open>IfNode.__init__\<close> reads
  \<open>cases[0]\<close>.
\<close>

definition if_expr :: "parser_fun \<Rightarrow> bool \<Rightarrow> bool \<Rightarrow> Parser \<Rightarrow> (ParseResult \<times> Parser) outcome" where
  "if_expr P in_a_function in_a_loop ps =
     obind (P (NT_if_expr_cases ''IF'') in_a_function in_a_loop ps) (\<lambda>(res, ps1).
       case register ParseResult_init res of (all_cases, r1) \<Rightarrow>
         if error_pr r1 \<noteq> None then Done (r1, ps1)
         else (case all_cases of
           Some (PCases cases else_case) \<Rightarrow>
             (if cases = [] then HostException ''IndexError''
              else Done (success r1 (Some (PNode (IfNode cases else_case))), ps1))
         | _ \<Rightarrow> HostException ''TypeError''))"

definition if_expr_b :: "parser_fun \<Rightarrow> bool \<Rightarrow> bool \<Rightarrow> Parser \<Rightarrow> (ParseResult \<times> Parser) outcome" where
  "if_expr_b P in_a_function in_a_loop ps = P (NT_if_expr_cases ''ELIF'') in_a_function in_a_loop ps"

text \<open>
  \<open>parse_multiline_else\<close> has three returns: the bare \<open>result\<close> when the statements
  fail (\<open>Inl\<close>), the pair \<open>(None, result.failure(...))\<close> when \<open>END\<close> is missing, and the
  pair \<open>(else_case, None)\<close>. The last component of \<open>Inr\<close> is the caller's \<open>result\<close>,
  which the method updates in place.
\<close>

definition parse_multiline_else ::
  "parser_fun \<Rightarrow> bool \<Rightarrow> bool \<Rightarrow> ParseResult \<Rightarrow> Parser
     \<Rightarrow> ((ParseResult + (node \<times> bool) option \<times> ParseResult option \<times> ParseResult) \<times> Parser)
          outcome" where
  "parse_multiline_else P in_a_function in_a_loop r ps =
     (case advance_past r ps of (r1, ps1) \<Rightarrow>
        obind (P NT_statements in_a_function in_a_loop ps1) (\<lambda>(res, ps2).
          case register r1 res of (stmts, r2) \<Rightarrow>
            if error_pr r2 \<noteq> None then Done (Inl r2, ps2)
            else (case stmts of
              Some (PNode body) \<Rightarrow>
                if matches (current_token ps2) TOKEN_TYPE_KEYWORD ''END'' then
                  (case advance_past r2 ps2 of (r3, ps3) \<Rightarrow>
                     Done (Inr (Some (body, True), None, r3), ps3))
                else (let r3 = fail_here r2 ps2 (ERRORS ''end_expected'')
                      in Done (Inr (None, Some r3, r3), ps2))
            | _ \<Rightarrow> Unmodelled ''statements that are not a node'')))"

text \<open>
  \<open>if_expr_c\<close> unpacks the return of \<open>parse_multiline_else\<close> into two names; the bare
  \<open>ParseResult\<close> cannot be unpacked.
\<close>

definition if_expr_c :: "parser_fun \<Rightarrow> bool \<Rightarrow> bool \<Rightarrow> Parser \<Rightarrow> (ParseResult \<times> Parser) outcome" where
  "if_expr_c P in_a_function in_a_loop ps =
     (if matches (current_token ps) TOKEN_TYPE_KEYWORD ''ELSE'' then
        (case advance_past ParseResult_init ps of (r1, ps1) \<Rightarrow>
           if ttype (current_token ps1) = TOKEN_TYPE_NEWLINE then
             obind (parse_multiline_else P in_a_function in_a_loop r1 ps1) (\<lambda>(ret, ps2).
               case ret of
                 Inl _ \<Rightarrow> HostException ''TypeError''
               | Inr (else_case, Some err, _) \<Rightarrow> Done (err, ps2)
               | Inr (else_case, None, r2) \<Rightarrow> Done (success r2 (map_option PElse else_case), ps2))
           else obind (P NT_statement in_a_function in_a_loop ps1) (\<lambda>(res, ps2).
             case register r1 res of (e, r2) \<Rightarrow>
               if error_pr r2 \<noteq> None then Done (r2, ps2)
               else (case e of
                 Some (PNode en) \<Rightarrow> Done (success r2 (Some (PElse (en, False))), ps2)
               | _ \<Rightarrow> Unmodelled ''statement that is not a node'')))
      else Done (success ParseResult_init None, ps))"

definition if_expr_b_or_c ::
  "parser_fun \<Rightarrow> bool \<Rightarrow> bool \<Rightarrow> Parser \<Rightarrow> (ParseResult \<times> Parser) outcome" where
  "if_expr_b_or_c P in_a_function in_a_loop ps =
     (if matches (current_token ps) TOKEN_TYPE_KEYWORD ''ELIF'' then
        obind (P NT_if_expr_b in_a_function in_a_loop ps) (\<lambda>(res, ps1).
          case register ParseResult_init res of (all_cases, r1) \<Rightarrow>
            if error_pr r1 \<noteq> None then Done (r1, ps1)
            else (case all_cases of
              Some (PCases cases else_case) \<Rightarrow>
                Done (success r1 (Some (PCases cases else_case)), ps1)
            | _ \<Rightarrow> HostException ''TypeError''))
      else
        obind (P NT_if_expr_c in_a_function in_a_loop ps) (\<lambda>(res, ps1).
          case register ParseResult_init res of (else_case, r1) \<Rightarrow>
            if error_pr r1 \<noteq> None then Done (r1, ps1)
            else (case else_case of
              None \<Rightarrow> Done (success r1 (Some (PCases [] None)), ps1)
            | Some (PElse ec) \<Rightarrow> Done (success r1 (Some (PCases [] (Some ec))), ps1)
            | Some _ \<Rightarrow> Unmodelled ''else-case that is not a pair'')))"

text \<open>
  \<open>parse_multiline_then\<close>: \<open>Inl\<close> is the return \<open>(None, None, result)\<close>, \<open>Inr\<close> the
  return \<open>(cases, else_case, None)\<close> together with the updated \<open>result\<close>.
\<close>

definition parse_multiline_then ::
  "parser_fun \<Rightarrow> bool \<Rightarrow> bool \<Rightarrow> node \<Rightarrow> ParseResult \<Rightarrow> Parser
     \<Rightarrow> ((ParseResult + (node \<times> node \<times> bool) list \<times> (node \<times> bool) option \<times> ParseResult)
          \<times> Parser) outcome" where
  "parse_multiline_then P in_a_function in_a_loop condition r ps =
     (case advance_past r ps of (r1, ps1) \<Rightarrow>
        obind (P NT_statements in_a_function in_a_loop ps1) (\<lambda>(res, ps2).
          case register r1 res of (stmts, r2) \<Rightarrow>
            if error_pr r2 \<noteq> None then Done (Inl r2, ps2)
            else (case stmts of
              Some (PNode body) \<Rightarrow>
                if matches (current_token ps2) TOKEN_TYPE_KEYWORD ''END'' then
                  (case advance_past r2 ps2 of (r3, ps3) \<Rightarrow>
                     Done (Inr ([(condition, body, True)], None, r3), ps3))
                else
                  obind (P NT_if_expr_b_or_c in_a_function in_a_loop ps2) (\<lambda>(res1, ps3).
                    case register r2 res1 of (all_cases, r3) \<Rightarrow>
                      if error_pr r3 \<noteq> None then Done (Inl r3, ps3)
                      else (case all_cases of
                        Some (PCases new_cases else_case) \<Rightarrow>
                          Done (Inr ((condition, body, True) # new_cases, else_case, r3), ps3)
                      | _ \<Rightarrow> HostException ''TypeError''))
            | _ \<Rightarrow> Unmodelled ''statements that are not a node'')))"

definition if_expr_cases ::
  "parser_fun \<Rightarrow> string \<Rightarrow> bool \<Rightarrow> bool \<Rightarrow> Parser \<Rightarrow> (ParseResult \<times> Parser) outcome" where
  "if_expr_cases P case_keyword in_a_function in_a_loop ps =
     (if \<not> matches (current_token ps) TOKEN_TYPE_KEYWORD case_keyword
      then Done (fail_here ParseResult_init ps
                   (''Expected '' @ [CHR 0x27] @ case_keyword @ [CHR 0x27]), ps)
      else (case advance_past ParseResult_init ps of (r1, ps1) \<Rightarrow>
        obind (P NT_expr in_a_function in_a_loop ps1) (\<lambda>(res, ps2).
          case register r1 res of (condition, r2) \<Rightarrow>
            if error_pr r2 \<noteq> None then Done (r2, ps2)
            else if \<not> matches (current_token ps2) TOKEN_TYPE_KEYWORD ''THEN''
            then Done (fail_here r2 ps2 (ERRORS ''then_expected''), ps2)
            else (case advance_past r2 ps2 of (r3, ps3) \<Rightarrow>
              (case condition of
                 Some (PNode cond) \<Rightarrow>
                   if ttype (current_token ps3) = TOKEN_TYPE_NEWLINE then
                     obind (parse_multiline_then P in_a_function in_a_loop cond r3 ps3)
                       (\<lambda>(ret, ps4).
                          case ret of
                            Inl err \<Rightarrow> Done (err, ps4)
                          | Inr (cases, else_case, r4) \<Rightarrow>
                              Done (success r4 (Some (PCases cases else_case)), ps4))
                   else
                     obind (P NT_statement in_a_function in_a_loop ps3) (\<lambda>(res1, ps4).
                       case register r3 res1 of (e, r4) \<Rightarrow>
                         if error_pr r4 \<noteq> None then Done (r4, ps4)
                         else (case e of
                           Some (PNode en) \<Rightarrow>
                             obind (P NT_if_expr_b_or_c in_a_function in_a_loop ps4)
                               (\<lambda>(res2, ps5).
                                  case register r4 res2 of (all_cases, r5) \<Rightarrow>
                                    if error_pr r5 \<noteq> None then Done (r5, ps5)
                                    else (case all_cases of
                                      Some (PCases new_cases else_case) \<Rightarrow>
                                        Done (success r5 (Some (PCases
                                                ((cond, en, False) # new_cases) else_case)), ps5)
                                    | _ \<Rightarrow> HostException ''TypeError''))
                         | _ \<Rightarrow> Unmodelled ''statement that is not a node''))
               | _ \<Rightarrow> Unmodelled ''condition that is not a node'')))))"

text \<open>
  The tail that \<open>for_expr\<close> and \<open>while_expr\<close> share after \<open>THEN\<close>: one statement on
  the same line, or a newline, statements and \<open>END\<close>. The parameter \<open>mk\<close> builds the
  node from the body and the flag \<open>should_return_none\<close>.
\<close>

definition loop_body ::
  "parser_fun \<Rightarrow> bool \<Rightarrow> bool \<Rightarrow> (node \<Rightarrow> bool \<Rightarrow> node) \<Rightarrow> ParseResult \<Rightarrow> Parser
     \<Rightarrow> (ParseResult \<times> Parser) outcome" where
  "loop_body P in_a_function in_a_loop mk r ps =
     (if ttype (current_token ps) \<noteq> TOKEN_TYPE_NEWLINE then
        obind (P NT_statement in_a_function in_a_loop ps) (\<lambda>(res, ps1).
          case register r res of (body, r1) \<Rightarrow>
            if error_pr r1 \<noteq> None then Done (r1, ps1)
            else (case body of
              Some (PNode b) \<Rightarrow> Done (success r1 (Some (PNode (mk b False))), ps1)
            | _ \<Rightarrow> HostException ''AttributeError''))
      else (case advance_past r ps of (r1, ps1) \<Rightarrow>
        obind (P NT_statements in_a_function in_a_loop ps1) (\<lambda>(res, ps2).
          case register r1 res of (body, r2) \<Rightarrow>
            if error_pr r2 \<noteq> None then Done (r2, ps2)
            else if \<not> matches (current_token ps2) TOKEN_TYPE_KEYWORD ''END''
            then Done (fail_here r2 ps2 (ERRORS ''end_expected''), ps2)
            else (case advance_past r2 ps2 of (r3, ps3) \<Rightarrow>
              (case body of
                 Some (PNode b) \<Rightarrow> Done (success r3 (Some (PNode (mk b True))), ps3)
               | _ \<Rightarrow> HostException ''AttributeError'')))))"

definition for_expr :: "parser_fun \<Rightarrow> bool \<Rightarrow> bool \<Rightarrow> Parser \<Rightarrow> (ParseResult \<times> Parser) outcome" where
  "for_expr P in_a_function in_a_loop ps =
     (if \<not> matches (current_token ps) TOKEN_TYPE_KEYWORD ''FOR''
      then Done (fail_here ParseResult_init ps (ERRORS ''for_expected''), ps)
      else (case advance_past ParseResult_init ps of (r1, ps1) \<Rightarrow>
        if ttype (current_token ps1) \<noteq> TOKEN_TYPE_IDENTIFIER
        then Done (fail_here r1 ps1 (ERRORS ''identifier_expected''), ps1)
        else (let var_name = current_token ps1
          in case advance_past r1 ps1 of (r2, ps2) \<Rightarrow>
            if ttype (current_token ps2) \<noteq> TOKEN_TYPE_ASSIGN
            then Done (fail_here r2 ps2 (ERRORS ''equal_expected''), ps2)
            else (case advance_past r2 ps2 of (r3, ps3) \<Rightarrow>
              obind (P NT_expr in_a_function in_a_loop ps3) (\<lambda>(res, ps4).
                case register r3 res of (start_value, r4) \<Rightarrow>
                  if error_pr r4 \<noteq> None then Done (r4, ps4)
                  else if \<not> matches (current_token ps4) TOKEN_TYPE_KEYWORD ''TO''
                  then Done (fail_here r4 ps4 (ERRORS ''to_expected''), ps4)
                  else (case advance_past r4 ps4 of (r5, ps5) \<Rightarrow>
                    obind (P NT_expr in_a_function in_a_loop ps5) (\<lambda>(res1, ps6).
                      case register r5 res1 of (end_value, r6) \<Rightarrow>
                        if error_pr r6 \<noteq> None then Done (r6, ps6)
                        else (case (start_value, end_value) of
                          (Some (PNode sv), Some (PNode ev)) \<Rightarrow>
                            if matches (current_token ps6) TOKEN_TYPE_KEYWORD ''STEP'' then
                              (case advance_past r6 ps6 of (r7, ps7) \<Rightarrow>
                                 obind (P NT_expr in_a_function in_a_loop ps7) (\<lambda>(res2, ps8).
                                   case register r7 res2 of (step_value, r8) \<Rightarrow>
                                     if error_pr r8 \<noteq> None then Done (r8, ps8)
                                     else (case step_value of
                                       Some (PNode stv) \<Rightarrow>
                                         if \<not> matches (current_token ps8) TOKEN_TYPE_KEYWORD ''THEN''
                                         then Done (fail_here r8 ps8 (ERRORS ''then_expected''), ps8)
                                         else (case advance_past r8 ps8 of (r9, ps9) \<Rightarrow>
                                           loop_body P in_a_function in_a_loop
                                             (ForNode var_name sv ev (Some stv)) r9 ps9)
                                     | _ \<Rightarrow> Unmodelled ''expression that is not a node'')))
                            else if \<not> matches (current_token ps6) TOKEN_TYPE_KEYWORD ''THEN''
                            then Done (fail_here r6 ps6 (ERRORS ''then_expected''), ps6)
                            else (case advance_past r6 ps6 of (r7, ps7) \<Rightarrow>
                              loop_body P in_a_function in_a_loop
                                (ForNode var_name sv ev None) r7 ps7)
                        | _ \<Rightarrow> Unmodelled ''expression that is not a node''))))))))"

definition while_expr :: "parser_fun \<Rightarrow> bool \<Rightarrow> bool \<Rightarrow> Parser \<Rightarrow> (ParseResult \<times> Parser) outcome" where
  "while_expr P in_a_function in_a_loop ps =
     (if \<not> matches (current_token ps) TOKEN_TYPE_KEYWORD ''WHILE''
      then Done (fail_here ParseResult_init ps (ERRORS ''while_expected''), ps)
      else (case advance_past ParseResult_init ps of (r1, ps1) \<Rightarrow>
        obind (P NT_expr in_a_function in_a_loop ps1) (\<lambda>(res, ps2).
          case register r1 res of (condition, r2) \<Rightarrow>
            if error_pr r2 \<noteq> None then Done (r2, ps2)
            else if \<not> matches (current_token ps2) TOKEN_TYPE_KEYWORD ''THEN''
            then Done (fail_here r2 ps2 (ERRORS ''then_expected''), ps2)
            else (case advance_past r2 ps2 of (r3, ps3) \<Rightarrow>
              (case condition of
                 Some (PNode cond) \<Rightarrow>
                   loop_body P in_a_function in_a_loop (WhileNode cond) r3 ps3
               | _ \<Rightarrow> HostException ''AttributeError'')))))"

text \<open>
  Function definitions. The helpers return the 4-tuple
  \<open>(parsed_arrow, result, param_name_tokens, error)\<close> of the source.
\<close>

type_synonym arrow_ret =
  "ParseResult option \<times> ParseResult option \<times> Token list \<times> ParseResult option"

text \<open>The text of a token value inside a message; the name tokens carry strings.\<close>

definition str_of_tokval :: "tokval option \<Rightarrow> string" where
  "str_of_tokval v = (case v of Some (StrVal s) \<Rightarrow> s | _ \<Rightarrow> ''None'')"

definition duplicate_function_name ::
  "tokval option \<Rightarrow> tokval option list \<Rightarrow> ParseResult \<Rightarrow> Parser \<Rightarrow> arrow_ret option" where
  "duplicate_function_name function_name names_list r ps =
     (if function_name \<in> set names_list
      then Some (None, None, [],
             Some (fail_here r ps
                (''Duplicate parameter '' @ [CHR 0x27] @ str_of_tokval function_name
                 @ [CHR 0x27] @ ''. A parameter cannot share the same name as the function name'')))
      else None)"

definition checkfor_parse_arrow ::
  "parser_fun \<Rightarrow> ParseResult \<Rightarrow> Token option \<Rightarrow> Token list \<Rightarrow> Parser
     \<Rightarrow> (arrow_ret \<times> Parser) outcome" where
  "checkfor_parse_arrow P r var_name_token param_name_tokens ps =
     (case advance_past r ps of (r1, ps1) \<Rightarrow>
        if ttype (current_token ps1) \<noteq> TOKEN_TYPE_ARROW
        then Done ((None, Some r1, param_name_tokens, None), ps1)
        else (case advance_past r1 ps1 of (r2, ps2) \<Rightarrow>
          obind (P NT_expr True False ps2) (\<lambda>(res, ps3).
            case register r2 res of (body, r3) \<Rightarrow>
              if error_pr r3 \<noteq> None then Done ((None, None, [], Some r3), ps3)
              else (case body of
                Some (PNode b) \<Rightarrow>
                  (let parsed_arrow =
                         success r3 (Some (PNode (FuncDefNode var_name_token
                                                    param_name_tokens b True)))
                   in Done ((Some parsed_arrow, Some parsed_arrow, param_name_tokens, None), ps3))
              | _ \<Rightarrow> HostException ''AttributeError''))))"

text \<open>
  The loop over \<open>, identifier\<close> of \<open>parse_params_and_arrow\<close>: \<open>Inl\<close> is a return
  inside the loop, \<open>Inr\<close> the end of the loop.
\<close>

fun params_loop ::
  "nat \<Rightarrow> tokval option \<Rightarrow> Token list \<Rightarrow> tokval option list \<Rightarrow> ParseResult \<Rightarrow> Parser
     \<Rightarrow> ((arrow_ret + Token list \<times> ParseResult) \<times> Parser) outcome" where
  "params_loop 0 function_name param_name_tokens names_list r ps = OutOfFuel"
| "params_loop (Suc k) function_name param_name_tokens names_list r ps =
     (if ttype (current_token ps) = TOKEN_TYPE_COMMA then
        (case advance_past r ps of (r1, ps1) \<Rightarrow>
           if ttype (current_token ps1) \<noteq> TOKEN_TYPE_IDENTIFIER
           then Done (Inl (None, None, [],
                  Some (fail_here r1 ps1 (ERRORS ''identifier_expected''))), ps1)
           else if tvalue (current_token ps1) \<in> set names_list
           then Done (Inl (None, None, [],
                  Some (fail_here r1 ps1
                     (''Duplicate parameter '' @ [CHR 0x27]
                      @ str_of_tokval (tvalue (current_token ps1)) @ [CHR 0x27]
                      @ '' in function definition''))), ps1)
           else (let param_name_tokens1 = param_name_tokens @ [current_token ps1];
                     names_list1 = names_list @ [tvalue (current_token ps1)]
                 in case duplicate_function_name function_name names_list1 r1 ps1 of
                      Some ret \<Rightarrow> Done (Inl ret, ps1)
                    | None \<Rightarrow>
                        (case advance_past r1 ps1 of (r2, ps2) \<Rightarrow>
                           params_loop k function_name param_name_tokens1 names_list1 r2 ps2)))
      else Done (Inr (param_name_tokens, r), ps))"

text \<open>
  \<open>parse_params_and_arrow\<close>. When the current token is not \<open>)\<close>, the method first reads
  \<open>var_name_token.value\<close>; for an anonymous function \<open>func_def\<close> passes
  \<open>var_name_token = None\<close>, and the read raises \<open>AttributeError\<close>.
\<close>

definition parse_params_and_arrow ::
  "parser_fun \<Rightarrow> ParseResult \<Rightarrow> Token option \<Rightarrow> Token list \<Rightarrow> Parser
     \<Rightarrow> (arrow_ret \<times> Parser) outcome" where
  "parse_params_and_arrow P r var_name_token param_name_tokens ps =
     (if ttype (current_token ps) = TOKEN_TYPE_RPAREN
      then checkfor_parse_arrow P r var_name_token param_name_tokens ps
      else (case var_name_token of
        None \<Rightarrow> HostException ''AttributeError''
      | Some name_tok \<Rightarrow>
          (let function_name = tvalue name_tok;
               param_name_tokens1 = param_name_tokens @ [current_token ps];
               names_list = [tvalue (current_token ps)]
           in case duplicate_function_name function_name names_list r ps of
                Some ret \<Rightarrow> Done (ret, ps)
              | None \<Rightarrow>
                  (case advance_past r ps of (r1, ps1) \<Rightarrow>
                     obind (params_loop (parser_fuel ps1) function_name param_name_tokens1
                              names_list r1 ps1) (\<lambda>(lp, ps2).
                       case lp of
                         Inl ret \<Rightarrow> Done (ret, ps2)
                       | Inr (param_name_tokens2, r2) \<Rightarrow>
                           if ttype (current_token ps2) \<noteq> TOKEN_TYPE_RPAREN
                           then Done ((None, None, [],
                                  Some (fail_here r2 ps2 (ERRORS ''comma_rparen_expected''))), ps2)
                           else checkfor_parse_arrow P r2 var_name_token
                                  param_name_tokens2 ps2)))))"

text \<open>
  The part of \<open>func_def\<close> after the name: the opening parenthesis, the parameters, and
  either the arrow form or the block form.
\<close>

definition func_def_params ::
  "parser_fun \<Rightarrow> ParseResult \<Rightarrow> Token option \<Rightarrow> Parser \<Rightarrow> (ParseResult \<times> Parser) outcome" where
  "func_def_params P r var_name_token ps =
     (case advance_past r ps of (r1, ps1) \<Rightarrow>
        if ttype (current_token ps1) \<noteq> TOKEN_TYPE_IDENTIFIER
           \<and> ttype (current_token ps1) \<noteq> TOKEN_TYPE_RPAREN
        then Done (fail_here r1 ps1 (ERRORS ''identifier_rparen_expected''), ps1)
        else obind (parse_params_and_arrow P r1 var_name_token [] ps1) (\<lambda>(ret, ps2).
          case ret of
            (_, _, _, Some err) \<Rightarrow> Done (err, ps2)
          | (Some parsed_arrow, _, _, None) \<Rightarrow> Done (parsed_arrow, ps2)
          | (None, None, _, None) \<Rightarrow> HostException ''AttributeError''
          | (None, Some r2, param_name_tokens, None) \<Rightarrow>
              if ttype (current_token ps2) \<noteq> TOKEN_TYPE_NEWLINE
              then Done (fail_here r2 ps2 (ERRORS ''arrow_NL_expected''), ps2)
              else (case advance_past r2 ps2 of (r3, ps3) \<Rightarrow>
                obind (P NT_statements True False ps3) (\<lambda>(res, ps4).
                  case register r3 res of (body, r4) \<Rightarrow>
                    if error_pr r4 \<noteq> None then Done (r4, ps4)
                    else if \<not> matches (current_token ps4) TOKEN_TYPE_KEYWORD ''END''
                    then Done (fail_here r4 ps4 (ERRORS ''end_expected''), ps4)
                    else (case advance_past r4 ps4 of (r5, ps5) \<Rightarrow>
                      (case body of
                         Some (PNode b) \<Rightarrow>
                           Done (success r5 (Some (PNode (FuncDefNode var_name_token
                                   param_name_tokens b False))), ps5)
                       | _ \<Rightarrow> HostException ''AttributeError''))))))"

definition func_def :: "parser_fun \<Rightarrow> bool \<Rightarrow> bool \<Rightarrow> Parser \<Rightarrow> (ParseResult \<times> Parser) outcome" where
  "func_def P in_a_function in_a_loop ps =
     (if \<not> matches (current_token ps) TOKEN_TYPE_KEYWORD ''FUN''
      then Done (fail_here ParseResult_init ps (ERRORS ''fun_expected''), ps)
      else (case advance_past ParseResult_init ps of (r1, ps1) \<Rightarrow>
        if ttype (current_token ps1) = TOKEN_TYPE_IDENTIFIER then
          (let var_name_token = current_token ps1
           in case advance_past r1 ps1 of (r2, ps2) \<Rightarrow>
                if ttype (current_token ps2) \<noteq> TOKEN_TYPE_LPAREN
                then Done (fail_here r2 ps2 (ERRORS ''lparen_expected''), ps2)
                else func_def_params P r2 (Some var_name_token) ps2)
        else if ttype (current_token ps1) \<noteq> TOKEN_TYPE_LPAREN
        then Done (fail_here r1 ps1 (ERRORS ''identifier_lparen_expected''), ps1)
        else func_def_params P r1 None ps1))"

text \<open>
  The recursion of the parser, closed by a budget of nested calls: \<open>parse_nt n\<close> allows
  \<open>n\<close> nested method calls.
\<close>

primrec parse_nt :: "nat \<Rightarrow> parser_fun" where
  "parse_nt 0 = (\<lambda>nt in_a_function in_a_loop ps. OutOfFuel)"
| "parse_nt (Suc n) = (\<lambda>nt in_a_function in_a_loop ps.
     case nt of
       NT_statements \<Rightarrow> statements (parse_nt n) in_a_function in_a_loop ps
     | NT_statement \<Rightarrow> statement (parse_nt n) in_a_function in_a_loop ps
     | NT_expr \<Rightarrow> expr (parse_nt n) in_a_function in_a_loop ps
     | NT_comp_expr \<Rightarrow> comp_expr (parse_nt n) in_a_function in_a_loop ps
     | NT_arith_expr \<Rightarrow> arith_expr (parse_nt n) in_a_function in_a_loop ps
     | NT_term \<Rightarrow> term_p (parse_nt n) in_a_function in_a_loop ps
     | NT_factor \<Rightarrow> factor (parse_nt n) in_a_function in_a_loop ps
     | NT_power \<Rightarrow> power_p (parse_nt n) in_a_function in_a_loop ps
     | NT_call \<Rightarrow> call (parse_nt n) in_a_function in_a_loop ps
     | NT_atom \<Rightarrow> atom (parse_nt n) in_a_function in_a_loop ps
     | NT_list_expr \<Rightarrow> list_expr (parse_nt n) in_a_function in_a_loop ps
     | NT_if_expr \<Rightarrow> if_expr (parse_nt n) in_a_function in_a_loop ps
     | NT_if_expr_b \<Rightarrow> if_expr_b (parse_nt n) in_a_function in_a_loop ps
     | NT_if_expr_c \<Rightarrow> if_expr_c (parse_nt n) in_a_function in_a_loop ps
     | NT_if_expr_b_or_c \<Rightarrow> if_expr_b_or_c (parse_nt n) in_a_function in_a_loop ps
     | NT_if_expr_cases kw \<Rightarrow> if_expr_cases (parse_nt n) kw in_a_function in_a_loop ps
     | NT_for_expr \<Rightarrow> for_expr (parse_nt n) in_a_function in_a_loop ps
     | NT_while_expr \<Rightarrow> while_expr (parse_nt n) in_a_function in_a_loop ps
     | NT_func_def \<Rightarrow> func_def (parse_nt n) in_a_function in_a_loop ps)"

text \<open>\<open>Parser.parse\<close>, over the methods \<open>P\<close>, and with a budget from a token list.\<close>

definition parse :: "parser_fun \<Rightarrow> Parser \<Rightarrow> (ParseResult \<times> Parser) outcome" where
  "parse P ps =
     obind (P NT_statements False False ps) (\<lambda>(r, ps1).
       if error_pr r = None \<and> ttype (current_token ps1) \<noteq> TOKEN_TYPE_EOF
       then Done (fail_here r ps1 (ERRORS ''tokens_out_of_place''), ps1)
       else Done (r, ps1))"

definition Parser_parse :: "nat \<Rightarrow> Token list \<Rightarrow> (ParseResult \<times> Parser) outcome" where
  "Parser_parse n toks =
     (case Parser_init toks of
        None \<Rightarrow> HostException ''AttributeError''
      | Some ps \<Rightarrow> parse (parse_nt n) ps)"

section \<open>From source text to tokens\<close>

text \<open>The token list of a source text that lexes without error (else the empty list).\<close>

definition tokens_of :: "string \<Rightarrow> string \<Rightarrow> Token list" where
  "tokens_of fn src = (case make_tokens (Lexer_init fn src) of Done (Inr toks) \<Rightarrow> toks | _ \<Rightarrow> [])"

section \<open>Notions used in the statements about the parser\<close>

text \<open>
  The parser state at a position of a token list; two example sources; the shapes of the
  \<open>ParseResult\<close> of a one-token expression and of a failed production; classes of tokens.
\<close>

definition state_at :: "Token list \<Rightarrow> nat \<Rightarrow> Parser" where
  "state_at toks i = \<lparr>tokens = toks, token_index = int i, current_token = toks ! i\<rparr>"

definition two_lines_src :: string where
  "two_lines_src = ''1'' @ [CHR 0x0A] @ ''1 +''"

definition two_lines_tokens :: "Token list" where
  "two_lines_tokens = tokens_of ''f'' two_lines_src"

definition leaf_result :: "node \<Rightarrow> ParseResult" where
  "leaf_result n =
     \<lparr>error_pr = None, node_pr = Some (PNode n), last_registered_advance_count = 1,
      advance_count = 1, to_reverse_count = 0\<rparr>"

definition failed_result :: "Error \<Rightarrow> int \<Rightarrow> ParseResult" where
  "failed_result e n =
     \<lparr>error_pr = Some e, node_pr = None, last_registered_advance_count = n,
      advance_count = n, to_reverse_count = 0\<rparr>"

definition atom_error :: "Token \<Rightarrow> Error" where
  "atom_error tok = InvalidSyntaxError (pos_start tok) (pos_end tok) (ERRORS ''atom_syntax_error'')"

text \<open>The tokens after which an operand of \<open>term\<close>, and a whole expression, is complete.\<close>

definition ends_term :: "Token \<Rightarrow> bool" where
  "ends_term tok \<longleftrightarrow>
     ttype tok \<notin> set [TOKEN_TYPE_LPAREN, TOKEN_TYPE_POWER, TOKEN_TYPE_MULTIPLY,
                       TOKEN_TYPE_DIVIDE, TOKEN_TYPE_MODULUS]"

definition ends_expr :: "Token \<Rightarrow> bool" where
  "ends_expr tok \<longleftrightarrow>
     ends_term tok \<and> ttype tok \<notin> set ([TOKEN_TYPE_PLUS, TOKEN_TYPE_MINUS] @ COMPARISONS_TOKEN)
     \<and> \<not> matches tok TOKEN_TYPE_KEYWORD ''AND'' \<and> \<not> matches tok TOKEN_TYPE_KEYWORD ''OR''"

definition no_atom :: "Token \<Rightarrow> bool" where
  "no_atom tok \<longleftrightarrow>
     ttype tok \<notin> set [TOKEN_TYPE_INT, TOKEN_TYPE_FLOAT, TOKEN_TYPE_STRING, TOKEN_TYPE_IDENTIFIER,
                       TOKEN_TYPE_LPAREN, TOKEN_TYPE_LSQUARE, TOKEN_TYPE_KEYWORD,
                       TOKEN_TYPE_PLUS, TOKEN_TYPE_MINUS]"

definition is_leaf :: "Token \<Rightarrow> bool" where
  "is_leaf tok \<longleftrightarrow> ttype tok = TOKEN_TYPE_INT \<or> ttype tok = TOKEN_TYPE_IDENTIFIER"

definition leaf_node :: "Token \<Rightarrow> node" where
  "leaf_node tok = (if ttype tok = TOKEN_TYPE_INT then NumberNode tok else VarAccessNode tok)"

section \<open>Values, contexts and the store\<close>

text \<open>
  A \<open>SymbolTable\<close> gets its parent in the constructor and never changes it. A reference
  to a symbol table is therefore represented by the list of table identifiers from the
  table itself up to the root; the entries of each table live in the store. A \<open>Context\<close>
  holds the display name, the parent context and the reference to its symbol table
  (\<open>parent_entry_pos\<close> is a span, see below).

  The spans of values (\<open>set_pos\<close>) and of runtime errors serve the rendering of error
  messages only and are not part of the model.
\<close>

datatype Context =
  Context (display_name: string) (parent: "Context option") (symbol_table: "nat list")

text \<open>The payload of a \<open>Number\<close>: a Python \<open>int\<close> or a host float.\<close>

datatype pynum = PInt int | PFloat pyfloat

text \<open>
  The value classes, each with its \<open>context\<close>. A \<open>List\<close> holds a reference to its
  backing sequence \<open>elements\<close>, which lives in the store. A \<open>Function\<close> holds its
  name, body, parameter names and the flag \<open>should_auto_return\<close>.
\<close>

datatype Value =
    Number "Context option" pynum
  | String "Context option" string
  | List "Context option" nat
  | Function "Context option" string node "string list" bool
  | BuiltInFunction "Context option" string

fun context_of :: "Value \<Rightarrow> Context option" where
  "context_of (Number c n) = c"
| "context_of (String c s) = c"
| "context_of (List c r) = c"
| "context_of (Function c name body arg_names auto) = c"
| "context_of (BuiltInFunction c name) = c"

text \<open>
  The class \<open>RTError\<close>, with its details and its context. The details of the error that
  \<open>visit_ImportNode\<close> builds from a lexical or syntax error of the imported file are
  \<open>Failed to IMPORT script "<filename>"\<close>, a line feed and \<open>error.as_string()\<close>; that
  text comes from the renderer of source excerpts, so this error is kept as the file
  name and the error themselves.
\<close>

datatype RTError =
    RTError string "Context option"
  | RTError_import string Error "Context option"

text \<open>
  The store: the entries of the symbol tables, the backing sequences of the lists (with
  the next free identifier of each), and the files that \<open>IMPORT\<close> can open.
\<close>

record Store =
  tables :: "nat \<Rightarrow> (string \<Rightarrow> Value option)"
  ntables :: nat
  seqs :: "nat \<Rightarrow> Value list"
  nseqs :: nat
  files :: "string \<Rightarrow> string option"

text \<open>\<open>SymbolTable.get\<close>, \<open>SymbolTable.set\<close> and the constructor \<open>SymbolTable(parent)\<close>.\<close>

fun SymbolTable_get :: "Store \<Rightarrow> nat list \<Rightarrow> string \<Rightarrow> Value option" where
  "SymbolTable_get s [] name = None"
| "SymbolTable_get s (t # ancestors) name =
     (case tables s t name of
        Some v \<Rightarrow> Some v
      | None \<Rightarrow> SymbolTable_get s ancestors name)"

definition SymbolTable_set :: "Store \<Rightarrow> nat list \<Rightarrow> string \<Rightarrow> Value \<Rightarrow> Store" where
  "SymbolTable_set s st name v =
     (case st of
        [] \<Rightarrow> s
      | t # ancestors \<Rightarrow> s\<lparr>tables := (tables s)(t := (tables s t)(name \<mapsto> v))\<rparr>)"

definition SymbolTable_new :: "Store \<Rightarrow> nat list \<Rightarrow> nat list \<times> Store" where
  "SymbolTable_new s parent_table =
     (ntables s # parent_table,
      s\<lparr>tables := (tables s)(ntables s := Map.empty), ntables := Suc (ntables s)\<rparr>)"

text \<open>The constructor \<open>List(elements)\<close> for a new Python list \<open>elements\<close>.\<close>

definition new_seq :: "Store \<Rightarrow> Value list \<Rightarrow> nat \<times> Store" where
  "new_seq s elements =
     (nseqs s, s\<lparr>seqs := (seqs s)(nseqs s := elements), nseqs := Suc (nseqs s)\<rparr>)"

text \<open>
  \<open>Value.set_context\<close>, and its override \<open>BaseFunction.set_context\<close>, which returns at
  once when the function already has a context.
\<close>

fun set_context :: "Value \<Rightarrow> Context option \<Rightarrow> Value" where
  "set_context (Number c n) c' = Number c' n"
| "set_context (String c s) c' = String c' s"
| "set_context (List c r) c' = List c' r"
| "set_context (Function c name body arg_names auto) c' =
     (case c of
        Some d \<Rightarrow> Function c name body arg_names auto
      | None \<Rightarrow> Function c' name body arg_names auto)"
| "set_context (BuiltInFunction c name) c' =
     (case c of
        Some d \<Rightarrow> BuiltInFunction c name
      | None \<Rightarrow> BuiltInFunction c' name)"

text \<open>
  \<open>copy\<close>: a new object of the same class (whose constructor sets the context to
  \<open>None\<close>), then \<open>set_context(self.context)\<close>. The copy of a \<open>List\<close> is built from the
  same \<open>elements\<close> object.
\<close>

fun copy :: "Value \<Rightarrow> Value" where
  "copy (Number c n) = set_context (Number None n) c"
| "copy (String c s) = set_context (String None s) c"
| "copy (List c r) = set_context (List None r) c"
| "copy (Function c name body arg_names auto) =
     set_context (Function None name body arg_names auto) c"
| "copy (BuiltInFunction c name) = set_context (BuiltInFunction None name) c"

fun is_true :: "Value \<Rightarrow> bool" where
  "is_true (Number c (PInt i)) = (i \<noteq> 0)"
| "is_true (Number c (PFloat FInf)) = True"
| "is_true (Number c (PFloat (FFinite x))) = (x \<noteq> 0)"
| "is_true (String c s) = (0 < length s)"
| "is_true (List c r) = False"
| "is_true (Function c name body arg_names auto) = False"
| "is_true (BuiltInFunction c name) = False"

definition illegal_operation :: "Value \<Rightarrow> RTError" where
  "illegal_operation self = RTError ''Illegal operation'' (context_of self)"

text \<open>The singletons \<open>Number.none\<close>, \<open>Number.false\<close>, \<open>Number.true\<close>, \<open>Number.math_PI\<close>.\<close>

definition Number_none :: Value where
  "Number_none = Number None (PInt 0)"

definition Number_false :: Value where
  "Number_false = Number None (PInt 0)"

definition Number_true :: Value where
  "Number_true = Number None (PInt 1)"

definition Number_math_PI :: Value where
  "Number_math_PI = Number None (PFloat (FFinite (884279719003555 / 281474976710656)))"

section \<open>Operators of the values\<close>

text \<open>
  The binary operators that \<open>visit_BinOpNode\<close> dispatches to. The result of an operator
  is the pair \<open>(value, None)\<close> (\<open>Inr\<close>) or \<open>(None, error)\<close> (\<open>Inl\<close>).
\<close>

datatype binop =
    Op_added_to | Op_subtracted_by | Op_multiplied_by | Op_divided_by | Op_modulused_by
  | Op_powered_by | Op_eq | Op_ne | Op_lt | Op_gt | Op_lte | Op_gte | Op_anded_by | Op_ored_by

definition is_zero :: "pynum \<Rightarrow> bool" where
  "is_zero n = (case n of PInt i \<Rightarrow> i = 0 | PFloat FInf \<Rightarrow> False | PFloat (FFinite x) \<Rightarrow> x = 0)"

definition of_bool_int :: "bool \<Rightarrow> int" where
  "of_bool_int b = (if b then 1 else 0)"

text \<open>
  The methods of \<open>Number\<close> on two \<open>int\<close> payloads. True division and a negative power
  give a host float. \<open>int(a and b)\<close> is \<open>a\<close> when \<open>a\<close> is zero and \<open>b\<close> otherwise;
  \<open>int(a or b)\<close> is \<open>a\<close> when \<open>a\<close> is not zero and \<open>b\<close> otherwise.
\<close>

definition int_op :: "binop \<Rightarrow> int \<Rightarrow> int \<Rightarrow> int outcome" where
  "int_op op a b =
     (case op of
        Op_added_to \<Rightarrow> Done (a + b)
      | Op_subtracted_by \<Rightarrow> Done (a - b)
      | Op_multiplied_by \<Rightarrow> Done (a * b)
      | Op_divided_by \<Rightarrow> Unmodelled ''float arithmetic''
      | Op_modulused_by \<Rightarrow> Done (a mod b)
      | Op_powered_by \<Rightarrow>
          (if 0 \<le> b then Done (a ^ nat b)
           else if a = 0 then HostException ''ZeroDivisionError''
           else Unmodelled ''float arithmetic'')
      | Op_eq \<Rightarrow> Done (of_bool_int (a = b))
      | Op_ne \<Rightarrow> Done (of_bool_int (a \<noteq> b))
      | Op_lt \<Rightarrow> Done (of_bool_int (a < b))
      | Op_gt \<Rightarrow> Done (of_bool_int (a > b))
      | Op_lte \<Rightarrow> Done (of_bool_int (a \<le> b))
      | Op_gte \<Rightarrow> Done (of_bool_int (a \<ge> b))
      | Op_anded_by \<Rightarrow> Done (if a = 0 then a else b)
      | Op_ored_by \<Rightarrow> Done (if a = 0 then b else a))"

text \<open>
  The operators of \<open>Number\<close>: an illegal operation unless the other operand is a
  \<open>Number\<close>; division and modulus test \<open>other.value == 0\<close> first.
\<close>

definition Number_op ::
  "binop \<Rightarrow> Context option \<Rightarrow> pynum \<Rightarrow> Value \<Rightarrow> (RTError + Value) outcome" where
  "Number_op op c n other =
     (case other of
        Number c2 n2 \<Rightarrow>
          if op = Op_divided_by \<and> is_zero n2
          then Done (Inl (RTError (ERRORS ''division_by_zero'') c))
          else if op = Op_modulused_by \<and> is_zero n2
          then Done (Inl (RTError (ERRORS ''modulus_by_zero'') c))
          else (case (n, n2) of
            (PInt a, PInt b) \<Rightarrow>
              (case int_op op a b of
                 Done r \<Rightarrow> Done (Inr (Number c (PInt r)))
               | HostException e \<Rightarrow> HostException e
               | OutOfFuel \<Rightarrow> OutOfFuel
               | Unmodelled e \<Rightarrow> Unmodelled e)
          | _ \<Rightarrow> Unmodelled ''float arithmetic'')
      | _ \<Rightarrow> Done (Inl (illegal_operation (Number c n))))"

text \<open>
  \<open>String\<close> overrides \<open>added_to\<close>. Its method for repetition is spelled
  \<open>multplied_by\<close>; \<open>visit_BinOpNode\<close> calls \<open>multiplied_by\<close>, which for a \<open>String\<close> is
  the inherited \<open>Value.multiplied_by\<close>. The method \<open>multplied_by\<close> is modelled here as
  it is written; nothing calls it.
\<close>

definition String_multplied_by ::
  "Context option \<Rightarrow> string \<Rightarrow> Value \<Rightarrow> (RTError + Value) outcome" where
  "String_multplied_by c s other =
     (case other of
        Number c2 (PInt i) \<Rightarrow> Done (Inr (String c (concat (replicate (nat i) s))))
      | Number c2 (PFloat f) \<Rightarrow> HostException ''TypeError''
      | _ \<Rightarrow> Done (Inl (illegal_operation (String c s))))"

definition String_op ::
  "binop \<Rightarrow> Context option \<Rightarrow> string \<Rightarrow> Value \<Rightarrow> (RTError + Value) outcome" where
  "String_op op c s other =
     (case (op, other) of
        (Op_added_to, String c2 s2) \<Rightarrow> Done (Inr (String c (s @ s2)))
      | _ \<Rightarrow> Done (Inl (illegal_operation (String c s))))"

text \<open>
  Python indexing of a list of length \<open>n\<close> with an \<open>int\<close>: a negative index counts
  from the end; \<open>None\<close> is the \<open>IndexError\<close>.
\<close>

definition py_index :: "nat \<Rightarrow> int \<Rightarrow> nat option" where
  "py_index n i =
     (if 0 \<le> i \<and> i < int n then Some (nat i)
      else if i < 0 \<and> - int n \<le> i then Some (nat (int n + i))
      else None)"

text \<open>
  The operators of \<open>List\<close>. \<open>added_to\<close>, \<open>subtracted_by\<close> and \<open>multiplied_by\<close> work
  on \<open>self.copy()\<close>, whose \<open>elements\<close> is the object of \<open>self\<close>: \<open>append\<close>, \<open>pop\<close>
  and \<open>extend\<close> change the backing sequence in the store, and the new wrapper refers to
  it. \<open>divided_by\<close> returns the element itself.
\<close>

definition List_op ::
  "binop \<Rightarrow> Context option \<Rightarrow> nat \<Rightarrow> Value \<Rightarrow> Store \<Rightarrow> ((RTError + Value) \<times> Store) outcome" where
  "List_op op c r other s =
     (case op of
        Op_added_to \<Rightarrow>
          Done (Inr (copy (List c r)), s\<lparr>seqs := (seqs s)(r := seqs s r @ [other])\<rparr>)
      | Op_subtracted_by \<Rightarrow>
          (case other of
             Number c2 (PInt i) \<Rightarrow>
               (case py_index (length (seqs s r)) i of
                  Some k \<Rightarrow>
                    Done (Inr (copy (List c r)),
                          s\<lparr>seqs := (seqs s)(r := take k (seqs s r) @ drop (Suc k) (seqs s r))\<rparr>)
                | None \<Rightarrow> Done (Inl (RTError (ERRORS ''list_index_error'') c), s))
           | Number c2 (PFloat f) \<Rightarrow> HostException ''TypeError''
           | _ \<Rightarrow> Done (Inl (illegal_operation (List c r)), s))
      | Op_multiplied_by \<Rightarrow>
          (case other of
             List c2 r2 \<Rightarrow>
               Done (Inr (copy (List c r)), s\<lparr>seqs := (seqs s)(r := seqs s r @ seqs s r2)\<rparr>)
           | _ \<Rightarrow> Done (Inl (illegal_operation (List c r)), s))
      | Op_divided_by \<Rightarrow>
          (case other of
             Number c2 (PInt i) \<Rightarrow>
               (case py_index (length (seqs s r)) i of
                  Some k \<Rightarrow> Done (Inr (seqs s r ! k), s)
                | None \<Rightarrow> Done (Inl (RTError (ERRORS ''fetch_index_error'') c), s))
           | Number c2 (PFloat f) \<Rightarrow> HostException ''TypeError''
           | _ \<Rightarrow> Done (Inl (illegal_operation (List c r)), s))
      | _ \<Rightarrow> Done (Inl (illegal_operation (List c r)), s))"

text \<open>The dispatch on the class of the left operand.\<close>

definition apply_binop ::
  "binop \<Rightarrow> Value \<Rightarrow> Value \<Rightarrow> Store \<Rightarrow> ((RTError + Value) \<times> Store) outcome" where
  "apply_binop op left right s =
     (case left of
        Number c n \<Rightarrow> obind (Number_op op c n right) (\<lambda>r. Done (r, s))
      | String c str \<Rightarrow> obind (String_op op c str right) (\<lambda>r. Done (r, s))
      | List c r \<Rightarrow> List_op op c r right s
      | _ \<Rightarrow> Done (Inl (illegal_operation left), s))"

text \<open>\<open>notted\<close>: defined for \<open>Number\<close> only.\<close>

definition notted :: "Value \<Rightarrow> (RTError + Value) outcome" where
  "notted v =
     (case v of
        Number c n \<Rightarrow> Done (Inr (Number c (PInt (if is_zero n then 1 else 0))))
      | _ \<Rightarrow> Done (Inl (illegal_operation v)))"

section \<open>RTResult\<close>

record RTResult =
  value_rt :: "Value option"
  error_rt :: "RTError option"
  func_return_value :: "Value option"
  loop_should_continue :: bool
  loop_should_break :: bool

text \<open>\<open>RTResult()\<close>, that is \<open>reset\<close>.\<close>

definition RTResult_init :: RTResult where
  "RTResult_init =
     \<lparr>value_rt = None, error_rt = None, func_return_value = None,
      loop_should_continue = False, loop_should_break = False\<rparr>"

definition RT_register :: "RTResult \<Rightarrow> RTResult \<Rightarrow> Value option \<times> RTResult" where
  "RT_register r res =
     (value_rt res,
      r\<lparr>error_rt := error_rt res, func_return_value := func_return_value res,
        loop_should_continue := loop_should_continue res,
        loop_should_break := loop_should_break res\<rparr>)"

definition RT_success :: "Value option \<Rightarrow> RTResult" where
  "RT_success v = RTResult_init\<lparr>value_rt := v\<rparr>"

definition RT_success_return :: "Value option \<Rightarrow> RTResult" where
  "RT_success_return v = RTResult_init\<lparr>func_return_value := v\<rparr>"

definition RT_success_continue :: RTResult where
  "RT_success_continue = RTResult_init\<lparr>loop_should_continue := True\<rparr>"

definition RT_success_break :: RTResult where
  "RT_success_break = RTResult_init\<lparr>loop_should_break := True\<rparr>"

definition RT_failure :: "RTError \<Rightarrow> RTResult" where
  "RT_failure e = RTResult_init\<lparr>error_rt := Some e\<rparr>"

definition should_return :: "RTResult \<Rightarrow> bool" where
  "should_return r =
     (if error_rt r = None
      then (if func_return_value r = None
            then loop_should_continue r \<or> loop_should_break r
            else True)
      else True)"

text \<open>
  The signal of a result: its error, its return value and its two loop flags (all of
  an \<open>RTResult\<close> but the value).
\<close>

definition signal_of :: "RTResult \<Rightarrow> RTError option \<times> Value option \<times> bool \<times> bool" where
  "signal_of r =
     (error_rt r, func_return_value r, loop_should_continue r, loop_should_break r)"

type_synonym visitor = "node \<Rightarrow> Context \<Rightarrow> Store \<Rightarrow> (RTResult \<times> Store) outcome"

section \<open>Calling functions\<close>

text \<open>The decimal digits of a natural number, for the messages that print a count.\<close>

fun string_of_nat :: "nat \<Rightarrow> string" where
  "string_of_nat n =
     (if n < 10 then [char_of (48 + n)]
      else string_of_nat (n div 10) @ [char_of (48 + n mod 10)])"

fun name_of :: "Value \<Rightarrow> string" where
  "name_of (Function c name body arg_names auto) = name"
| "name_of (BuiltInFunction c name) = name"
| "name_of _ = []"

text \<open>\<open>__repr__\<close> of the two function classes, as used in the messages of \<open>check_params\<close>.\<close>

fun repr_function :: "Value \<Rightarrow> string" where
  "repr_function (BuiltInFunction c name) = ''<built-in function '' @ name @ ''>''"
| "repr_function v = ''<function '' @ name_of v @ ''>''"

text \<open>
  \<open>generate_new_context\<close>: the new context has the context of the function value as its
  parent, and a new symbol table whose parent is the symbol table of that context. A
  function value without a context has no \<open>new_context.parent.symbol_table\<close>.
\<close>

definition generate_new_context :: "Value \<Rightarrow> Store \<Rightarrow> (Context \<times> Store) outcome" where
  "generate_new_context self s =
     (case context_of self of
        None \<Rightarrow> HostException ''AttributeError''
      | Some c \<Rightarrow>
          (case SymbolTable_new s (symbol_table c) of
             (st, s1) \<Rightarrow> Done (Context (name_of self) (Some c) st, s1)))"

definition check_params :: "Value \<Rightarrow> string list \<Rightarrow> Value list \<Rightarrow> RTResult" where
  "check_params self param_names args =
     (if length args > length param_names
      then RT_failure (RTError
             (string_of_nat (length args - length param_names)
              @ '' too many args passed into '' @ repr_function self) (context_of self))
      else if length args < length param_names
      then RT_failure (RTError
             (string_of_nat (length param_names - length args)
              @ '' too few args passed into '' @ repr_function self) (context_of self))
      else RT_success None)"

fun populate_params :: "string list \<Rightarrow> Value list \<Rightarrow> Context \<Rightarrow> Store \<Rightarrow> Store" where
  "populate_params (p # param_names) (a # args) execution_context s =
     populate_params param_names args execution_context
       (SymbolTable_set s (symbol_table execution_context) p
          (set_context a (Some execution_context)))"
| "populate_params _ _ execution_context s = s"

definition check_and_populate_params ::
  "Value \<Rightarrow> string list \<Rightarrow> Value list \<Rightarrow> Context \<Rightarrow> Store \<Rightarrow> RTResult \<times> Store" where
  "check_and_populate_params self param_names args execution_context s =
     (case RT_register RTResult_init (check_params self param_names args) of
        (_, r1) \<Rightarrow>
          if should_return r1 then (r1, s)
          else (RT_success None, populate_params param_names args execution_context s))"

text \<open>
  \<open>Function.execute\<close>. The return value is
  \<open>(thevalue if self.should_auto_return else None) or result.func_return_value or Number.none\<close>.
\<close>

definition Function_execute :: "visitor \<Rightarrow> Value \<Rightarrow> Value list \<Rightarrow> Store \<Rightarrow> (RTResult \<times> Store) outcome" where
  "Function_execute vis self args s =
     (case self of
        Function c name body_node arg_names should_auto_return \<Rightarrow>
          obind (generate_new_context self s) (\<lambda>(execution_context, s1).
            case check_and_populate_params self arg_names args execution_context s1 of
              (res, s2) \<Rightarrow>
                (case RT_register RTResult_init res of
                   (_, r1) \<Rightarrow>
                     if should_return r1 then Done (r1, s2)
                     else obind (vis body_node execution_context s2) (\<lambda>(bres, s3).
                       case RT_register r1 bres of
                         (thevalue, r2) \<Rightarrow>
                           if should_return r2 \<and> func_return_value r2 = None
                           then Done (r2, s3)
                           else Done (RT_success (Some
                                  (case (if should_auto_return then thevalue else None) of
                                     Some v \<Rightarrow> v
                                   | None \<Rightarrow>
                                       (case func_return_value r2 of
                                          Some v \<Rightarrow> v
                                        | None \<Rightarrow> Number_none))), s3))))
      | _ \<Rightarrow> Unmodelled ''not a Function'')"

text \<open>
  The built-in functions. \<open>arg_names\<close> of each method; a name without a method has no
  \<open>arg_names\<close>. The methods that write to or read from the console, that render a value
  as text, or that run a file are outside the model.
\<close>

definition builtin_arg_names :: "string \<Rightarrow> string list option" where
  "builtin_arg_names name =
     (if name \<in> set [''print'', ''print_ret'', ''is_number'', ''is_string'', ''is_list'',
                     ''is_function''] then Some [''value'']
      else if name \<in> set [''input'', ''input_int'', ''clear''] then Some []
      else if name = ''append'' then Some [''list'', ''value'']
      else if name = ''pop'' then Some [''list'', ''index'']
      else if name = ''extend'' then Some [''listA'', ''listB'']
      else if name = ''len'' then Some [''list'']
      else if name = ''run'' then Some [''filename'']
      else None)"

fun is_Number :: "Value option \<Rightarrow> bool" where
  "is_Number (Some (Number c n)) = True"
| "is_Number _ = False"

fun is_String :: "Value option \<Rightarrow> bool" where
  "is_String (Some (String c s)) = True"
| "is_String _ = False"

fun is_List :: "Value option \<Rightarrow> bool" where
  "is_List (Some (List c r)) = True"
| "is_List _ = False"

fun is_BaseFunction :: "Value option \<Rightarrow> bool" where
  "is_BaseFunction (Some (Function c name body arg_names auto)) = True"
| "is_BaseFunction (Some (BuiltInFunction c name)) = True"
| "is_BaseFunction _ = False"

definition execute_builtin ::
  "Value \<Rightarrow> string \<Rightarrow> Context \<Rightarrow> Store \<Rightarrow> (RTResult \<times> Store) outcome" where
  "execute_builtin self name execution_context s =
     (let get = SymbolTable_get s (symbol_table execution_context);
          truth = (\<lambda>b. Done (RT_success (Some (if b then Number_true else Number_false)), s));
          fail = (\<lambda>key. Done (RT_failure (RTError (ERRORS key) (Some execution_context)), s))
      in if name = ''is_number'' then truth (is_Number (get ''value''))
         else if name = ''is_string'' then truth (is_String (get ''value''))
         else if name = ''is_list'' then truth (is_List (get ''value''))
         else if name = ''is_function'' then truth (is_BaseFunction (get ''value''))
         else if name = ''append'' then
           (case (get ''list'', get ''value'') of
              (Some (List c r), Some v) \<Rightarrow>
                Done (RT_success (Some Number_none),
                      s\<lparr>seqs := (seqs s)(r := seqs s r @ [v])\<rparr>)
            | (Some (List c r), None) \<Rightarrow> Unmodelled ''None as an element''
            | _ \<Rightarrow> fail ''arg1_list_expected'')
         else if name = ''pop'' then
           (case get ''list'' of
              Some (List c r) \<Rightarrow>
                (case get ''index'' of
                   Some (Number c2 (PInt i)) \<Rightarrow>
                     (case py_index (length (seqs s r)) i of
                        Some k \<Rightarrow>
                          Done (RT_success (Some (seqs s r ! k)),
                                s\<lparr>seqs := (seqs s)
                                    (r := take k (seqs s r) @ drop (Suc k) (seqs s r))\<rparr>)
                      | None \<Rightarrow> fail ''list_index_error'')
                 | Some (Number c2 (PFloat f)) \<Rightarrow> HostException ''TypeError''
                 | _ \<Rightarrow> fail ''arg2_number_expected'')
            | _ \<Rightarrow> fail ''arg1_list_expected'')
         else if name = ''extend'' then
           (case get ''listA'' of
              Some (List c r) \<Rightarrow>
                (case get ''listB'' of
                   Some (List c2 r2) \<Rightarrow>
                     Done (RT_success (Some Number_none),
                           s\<lparr>seqs := (seqs s)(r := seqs s r @ seqs s r2)\<rparr>)
                 | _ \<Rightarrow> fail ''arg2_list_expected'')
            | _ \<Rightarrow> fail ''arg1_list_expected'')
         else if name = ''len'' then
           (case get ''list'' of
              Some (List c r) \<Rightarrow>
                Done (RT_success (Some (Number None (PInt (int (length (seqs s r)))))), s)
            | _ \<Rightarrow> fail ''arg_list_expected'')
         else Unmodelled ''console, text rendering or file'')"

definition BuiltInFunction_execute :: "Value \<Rightarrow> Value list \<Rightarrow> Store \<Rightarrow> (RTResult \<times> Store) outcome" where
  "BuiltInFunction_execute self args s =
     obind (generate_new_context self s) (\<lambda>(execution_context, s1).
       case builtin_arg_names (name_of self) of
         None \<Rightarrow> HostException ''AttributeError''
       | Some arg_names \<Rightarrow>
           (case check_and_populate_params self arg_names args execution_context s1 of
              (res, s2) \<Rightarrow>
                (case RT_register RTResult_init res of
                   (_, r1) \<Rightarrow>
                     if should_return r1 then Done (r1, s2)
                     else obind (execute_builtin self (name_of self) execution_context s2)
                       (\<lambda>(mres, s3).
                          case RT_register r1 mres of
                            (return_value, r2) \<Rightarrow>
                              if should_return r2 then Done (r2, s3)
                              else Done (RT_success return_value, s3)))))"

text \<open>\<open>execute\<close> by the class of the value; \<open>Value.execute\<close> is an illegal operation.\<close>

definition execute :: "visitor \<Rightarrow> Value \<Rightarrow> Value list \<Rightarrow> Store \<Rightarrow> (RTResult \<times> Store) outcome" where
  "execute vis self args s =
     (case self of
        Function c name body_node arg_names auto \<Rightarrow> Function_execute vis self args s
      | BuiltInFunction c name \<Rightarrow> BuiltInFunction_execute self args s
      | _ \<Rightarrow> Done (RT_failure (illegal_operation self), s))"

section \<open>The interpreter\<close>

text \<open>
  Every \<open>visit_\<close> method takes the visitor \<open>vis\<close> that stands for \<open>self.visit\<close> on the
  children; \<open>visit\<close> below ties the knot. The values are immutable here, so the one
  aliasing that is not modelled is that of the wrapper objects themselves (the
  singleton \<open>Number.none\<close> can have its context set by \<open>populate_params\<close>); the backing
  sequences of the lists are shared through the store.
\<close>

definition number_of_token :: "Token \<Rightarrow> pynum option" where
  "number_of_token tok =
     (case tvalue tok of
        Some (IntVal i) \<Rightarrow> Some (PInt i)
      | Some (FloatVal f) \<Rightarrow> Some (PFloat f)
      | _ \<Rightarrow> None)"

definition var_name_of :: "Token \<Rightarrow> string option" where
  "var_name_of tok = (case tvalue tok of Some (StrVal name) \<Rightarrow> Some name | _ \<Rightarrow> None)"

definition visit_NumberNode :: "Token \<Rightarrow> Context \<Rightarrow> Store \<Rightarrow> (RTResult \<times> Store) outcome" where
  "visit_NumberNode token ctx s =
     (case number_of_token token of
        Some n \<Rightarrow> Done (RT_success (Some (Number (Some ctx) n)), s)
      | None \<Rightarrow> Unmodelled ''NumberNode without a number'')"

definition visit_StringNode :: "Token \<Rightarrow> Context \<Rightarrow> Store \<Rightarrow> (RTResult \<times> Store) outcome" where
  "visit_StringNode token ctx s =
     (case var_name_of token of
        Some str \<Rightarrow> Done (RT_success (Some (String (Some ctx) str)), s)
      | None \<Rightarrow> Unmodelled ''StringNode without a string'')"

text \<open>
  The loop \<open>for element_node in ...: elements.append(result.register(self.visit(...)))\<close>
  of \<open>visit_ListNode\<close> and of \<open>visit_CallNode\<close>: \<open>Inl\<close> is \<open>return result\<close>.
\<close>

fun visit_elements ::
  "visitor \<Rightarrow> node list \<Rightarrow> Context \<Rightarrow> RTResult \<Rightarrow> Value list \<Rightarrow> Store
     \<Rightarrow> ((RTResult + Value list \<times> RTResult) \<times> Store) outcome" where
  "visit_elements vis [] ctx r elements s = Done (Inr (elements, r), s)"
| "visit_elements vis (element_node # element_nodes) ctx r elements s =
     obind (vis element_node ctx s) (\<lambda>(res, s1).
       case RT_register r res of
         (v, r1) \<Rightarrow>
           if should_return r1 then Done (Inl r1, s1)
           else (case v of
                   Some x \<Rightarrow> visit_elements vis element_nodes ctx r1 (elements @ [x]) s1
                 | None \<Rightarrow> Unmodelled ''None as an element''))"

definition visit_ListNode :: "visitor \<Rightarrow> node list \<Rightarrow> Context \<Rightarrow> Store \<Rightarrow> (RTResult \<times> Store) outcome" where
  "visit_ListNode vis element_nodes ctx s =
     obind (visit_elements vis element_nodes ctx RTResult_init [] s) (\<lambda>(x, s1).
       case x of
         Inl r \<Rightarrow> Done (r, s1)
       | Inr (elements, r) \<Rightarrow>
           (case new_seq s1 elements of
              (ref, s2) \<Rightarrow> Done (RT_success (Some (List (Some ctx) ref)), s2)))"

definition visit_VarAccessNode :: "Token \<Rightarrow> Context \<Rightarrow> Store \<Rightarrow> (RTResult \<times> Store) outcome" where
  "visit_VarAccessNode var_name_token ctx s =
     (case var_name_of var_name_token of
        None \<Rightarrow> Unmodelled ''name that is not a string''
      | Some var_name \<Rightarrow>
          (case SymbolTable_get s (symbol_table ctx) var_name of
             None \<Rightarrow>
               Done (RT_failure (RTError
                      ([CHR 0x27] @ var_name @ [CHR 0x27] @ '' is not defined'') (Some ctx)), s)
           | Some v \<Rightarrow> Done (RT_success (Some (set_context (copy v) (Some ctx))), s)))"

definition visit_VarAssignNode ::
  "visitor \<Rightarrow> Token \<Rightarrow> node \<Rightarrow> Context \<Rightarrow> Store \<Rightarrow> (RTResult \<times> Store) outcome" where
  "visit_VarAssignNode vis var_name_token value_node ctx s =
     obind (vis value_node ctx s) (\<lambda>(res, s1).
       case RT_register RTResult_init res of
         (v, r1) \<Rightarrow>
           if should_return r1 then Done (r1, s1)
           else (case (var_name_of var_name_token, v) of
                   (Some var_name, Some x) \<Rightarrow>
                     Done (RT_success (Some x),
                           SymbolTable_set s1 (symbol_table ctx) var_name x)
                 | _ \<Rightarrow> Unmodelled ''None as a name or as a value''))"

text \<open>
  The chain of tests on the operator token in \<open>visit_BinOpNode\<close>; with no branch taken,
  \<open>error\<close> is unbound when it is read.
\<close>

definition binop_of_token :: "Token \<Rightarrow> binop option" where
  "binop_of_token tok =
     (if ttype tok = TOKEN_TYPE_PLUS then Some Op_added_to
      else if ttype tok = TOKEN_TYPE_MINUS then Some Op_subtracted_by
      else if ttype tok = TOKEN_TYPE_MULTIPLY then Some Op_multiplied_by
      else if ttype tok = TOKEN_TYPE_DIVIDE then Some Op_divided_by
      else if ttype tok = TOKEN_TYPE_MODULUS then Some Op_modulused_by
      else if ttype tok = TOKEN_TYPE_POWER then Some Op_powered_by
      else if ttype tok = TOKEN_TYPE_EQUAL_TO then Some Op_eq
      else if ttype tok = TOKEN_TYPE_NOT_EQUAL_TO then Some Op_ne
      else if ttype tok = TOKEN_TYPE_LESS_THAN then Some Op_lt
      else if ttype tok = TOKEN_TYPE_GREATER_THAN then Some Op_gt
      else if ttype tok = TOKEN_TYPE_LESS_THAN_EQUAL_TO then Some Op_lte
      else if ttype tok = TOKEN_TYPE_GREATER_THAN_EQUAL_TO then Some Op_gte
      else if matches tok TOKEN_TYPE_KEYWORD ''AND'' then Some Op_anded_by
      else if matches tok TOKEN_TYPE_KEYWORD ''OR'' then Some Op_ored_by
      else None)"

definition visit_BinOpNode ::
  "visitor \<Rightarrow> node \<Rightarrow> Token \<Rightarrow> node \<Rightarrow> Context \<Rightarrow> Store \<Rightarrow> (RTResult \<times> Store) outcome" where
  "visit_BinOpNode vis left_node operator_token right_node ctx s =
     obind (vis left_node ctx s) (\<lambda>(res, s1).
       case RT_register RTResult_init res of
         (left, r1) \<Rightarrow>
           if should_return r1 then Done (r1, s1)
           else obind (vis right_node ctx s1) (\<lambda>(res2, s2).
             case RT_register r1 res2 of
               (right, r2) \<Rightarrow>
                 if should_return r2 then Done (r2, s2)
                 else (case binop_of_token operator_token of
                         None \<Rightarrow> HostException ''UnboundLocalError''
                       | Some op \<Rightarrow>
                           (case (left, right) of
                              (Some l, Some r) \<Rightarrow>
                                obind (apply_binop op l r s2) (\<lambda>(x, s3).
                                  case x of
                                    Inl error \<Rightarrow> Done (RT_failure error, s3)
                                  | Inr calc_result \<Rightarrow> Done (RT_success (Some calc_result), s3))
                            | (None, _) \<Rightarrow> HostException ''AttributeError''
                            | (Some l, None) \<Rightarrow> Unmodelled ''None as an operand''))))"

definition visit_UnaryOpNode ::
  "visitor \<Rightarrow> Token \<Rightarrow> node \<Rightarrow> Context \<Rightarrow> Store \<Rightarrow> (RTResult \<times> Store) outcome" where
  "visit_UnaryOpNode vis operator_token operand ctx s =
     obind (vis operand ctx s) (\<lambda>(res, s1).
       case RT_register RTResult_init res of
         (number, r1) \<Rightarrow>
           if should_return r1 then Done (r1, s1)
           else (case number of
                   None \<Rightarrow> HostException ''AttributeError''
                 | Some v \<Rightarrow>
                     if ttype operator_token = TOKEN_TYPE_MINUS
                     then obind (apply_binop Op_multiplied_by v (Number None (PInt (- 1))) s1)
                            (\<lambda>(x, s2).
                               case x of
                                 Inl error \<Rightarrow> Done (RT_failure error, s2)
                               | Inr y \<Rightarrow> Done (RT_success (Some y), s2))
                     else if matches operator_token TOKEN_TYPE_KEYWORD ''NOT''
                     then obind (notted v) (\<lambda>x.
                            case x of
                              Inl error \<Rightarrow> Done (RT_failure error, s1)
                            | Inr y \<Rightarrow> Done (RT_success (Some y), s1))
                     else Done (RT_success (Some v), s1)))"

text \<open>
  \<open>visit_IfNode\<close>: the loop over \<open>node.cases\<close>, then the \<open>else_case\<close>.
\<close>

fun visit_IfNode_cases ::
  "visitor \<Rightarrow> (node \<times> node \<times> bool) list \<Rightarrow> (node \<times> bool) option \<Rightarrow> Context \<Rightarrow> RTResult
     \<Rightarrow> Store \<Rightarrow> (RTResult \<times> Store) outcome" where
  "visit_IfNode_cases vis [] else_case ctx r s =
     (case else_case of
        Some (expr_node, should_return_none) \<Rightarrow>
          obind (vis expr_node ctx s) (\<lambda>(res, s1).
            case RT_register r res of
              (expr_value, r1) \<Rightarrow>
                if should_return r1 then Done (r1, s1)
                else Done (RT_success
                       (if should_return_none then Some Number_none else expr_value), s1))
      | None \<Rightarrow> Done (RT_success (Some Number_none), s))"
| "visit_IfNode_cases vis ((condition, expr_node, should_return_none) # cases) else_case ctx r s =
     obind (vis condition ctx s) (\<lambda>(cres, s1).
       case RT_register r cres of
         (condition_value, r1) \<Rightarrow>
           if should_return r1 then Done (r1, s1)
           else (case condition_value of
                   None \<Rightarrow> HostException ''AttributeError''
                 | Some cv \<Rightarrow>
                     if is_true cv
                     then obind (vis expr_node ctx s1) (\<lambda>(res, s2).
                            case RT_register r1 res of
                              (expr_value, r2) \<Rightarrow>
                                if should_return r2 then Done (r2, s2)
                                else Done (RT_success
                                       (if should_return_none then Some Number_none
                                        else expr_value), s2))
                     else visit_IfNode_cases vis cases else_case ctx r1 s1))"

definition visit_IfNode ::
  "visitor \<Rightarrow> (node \<times> node \<times> bool) list \<Rightarrow> (node \<times> bool) option \<Rightarrow> Context \<Rightarrow> Store
     \<Rightarrow> (RTResult \<times> Store) outcome" where
  "visit_IfNode vis cases else_case ctx s =
     visit_IfNode_cases vis cases else_case ctx RTResult_init s"

text \<open>
  The attribute \<open>value\<close> of the bounds of a \<open>FOR\<close>. The model follows the loop for
  \<open>int\<close> bounds; \<open>List\<close> and the functions have no attribute \<open>value\<close>.
\<close>

definition int_payload :: "Value option \<Rightarrow> int outcome" where
  "int_payload v =
     (case v of
        Some (Number c (PInt i)) \<Rightarrow> Done i
      | Some (Number c (PFloat f)) \<Rightarrow> Unmodelled ''float as a bound''
      | Some (String c str) \<Rightarrow> Unmodelled ''string as a bound''
      | _ \<Rightarrow> HostException ''AttributeError'')"

text \<open>
  The \<open>while True\<close> of \<open>visit_ForNode\<close>, one round per unit of the budget: \<open>Inl\<close> is
  \<open>return result\<close>, \<open>Inr\<close> is the end of the loop (by the test or by \<open>break\<close>).
\<close>

fun for_loop ::
  "nat \<Rightarrow> visitor \<Rightarrow> string \<Rightarrow> node \<Rightarrow> Context \<Rightarrow> int \<Rightarrow> int \<Rightarrow> int \<Rightarrow> Value list \<Rightarrow> RTResult
     \<Rightarrow> Store \<Rightarrow> ((RTResult + Value list) \<times> Store) outcome" where
  "for_loop 0 vis var_name body_node ctx end_value step_value i elements r s = OutOfFuel"
| "for_loop (Suc k) vis var_name body_node ctx end_value step_value i elements r s =
     (if (if step_value \<ge> 0 then i < end_value else i > end_value)
      then obind (vis body_node ctx
                    (SymbolTable_set s (symbol_table ctx) var_name (Number None (PInt i))))
             (\<lambda>(res, s1).
                case RT_register r res of
                  (v, r1) \<Rightarrow>
                    if should_return r1 \<and> loop_should_continue r1 = False
                       \<and> loop_should_break r1 = False
                    then Done (Inl r1, s1)
                    else if loop_should_continue r1
                    then for_loop k vis var_name body_node ctx end_value step_value
                           (i + step_value) elements r1 s1
                    else if loop_should_break r1
                    then Done (Inr elements, s1)
                    else (case v of
                            Some x \<Rightarrow>
                              for_loop k vis var_name body_node ctx end_value step_value
                                (i + step_value) (elements @ [x]) r1 s1
                          | None \<Rightarrow> Unmodelled ''None as an element''))
      else Done (Inr elements, s))"

definition visit_ForNode ::
  "nat \<Rightarrow> visitor \<Rightarrow> Token \<Rightarrow> node \<Rightarrow> node \<Rightarrow> node option \<Rightarrow> node \<Rightarrow> bool \<Rightarrow> Context \<Rightarrow> Store
     \<Rightarrow> (RTResult \<times> Store) outcome" where
  "visit_ForNode k vis var_name_token start_value_node end_value_node step_value_node
                 body_node should_return_none ctx s =
     obind (vis start_value_node ctx s) (\<lambda>(res, s1).
       case RT_register RTResult_init res of
         (start_value, r1) \<Rightarrow>
           if should_return r1 then Done (r1, s1)
           else obind (vis end_value_node ctx s1) (\<lambda>(res2, s2).
             case RT_register r1 res2 of
               (end_value, r2) \<Rightarrow>
                 if should_return r2 then Done (r2, s2)
                 else obind
                   (case step_value_node of
                      Some step_node \<Rightarrow>
                        obind (vis step_node ctx s2) (\<lambda>(res3, s3).
                          case RT_register r2 res3 of
                            (step_value, r3) \<Rightarrow>
                              Done (if should_return r3 then Inl r3
                                    else Inr (step_value, r3), s3))
                    | None \<Rightarrow> Done (Inr (Some (Number None (PInt 1)), r2), s2))
                   (\<lambda>(x, s3).
                      case x of
                        Inl r3 \<Rightarrow> Done (r3, s3)
                      | Inr (step_value, r3) \<Rightarrow>
                          obind (int_payload start_value) (\<lambda>i.
                          obind (int_payload step_value) (\<lambda>step.
                          obind (int_payload end_value) (\<lambda>end_v.
                            case var_name_of var_name_token of
                              None \<Rightarrow> Unmodelled ''name that is not a string''
                            | Some var_name \<Rightarrow>
                                obind (for_loop k vis var_name body_node ctx end_v step i [] r3 s3)
                                  (\<lambda>(y, s4).
                                     case y of
                                       Inl r \<Rightarrow> Done (r, s4)
                                     | Inr elements \<Rightarrow>
                                         if should_return_none
                                         then Done (RT_success (Some Number_none), s4)
                                         else (case new_seq s4 elements of
                                                 (ref, s5) \<Rightarrow>
                                                   Done (RT_success
                                                     (Some (List (Some ctx) ref)), s5)))))))))"

fun while_loop ::
  "nat \<Rightarrow> visitor \<Rightarrow> node \<Rightarrow> node \<Rightarrow> Context \<Rightarrow> Value list \<Rightarrow> RTResult \<Rightarrow> Store
     \<Rightarrow> ((RTResult + Value list) \<times> Store) outcome" where
  "while_loop 0 vis condition_node body_node ctx elements r s = OutOfFuel"
| "while_loop (Suc k) vis condition_node body_node ctx elements r s =
     obind (vis condition_node ctx s) (\<lambda>(cres, s1).
       case RT_register r cres of
         (condition, r1) \<Rightarrow>
           if should_return r1 then Done (Inl r1, s1)
           else (case condition of
                   None \<Rightarrow> HostException ''AttributeError''
                 | Some cv \<Rightarrow>
                     if is_true cv
                     then obind (vis body_node ctx s1) (\<lambda>(res, s2).
                            case RT_register r1 res of
                              (v, r2) \<Rightarrow>
                                if should_return r2 \<and> loop_should_continue r2 = False
                                   \<and> loop_should_break r2 = False
                                then Done (Inl r2, s2)
                                else if loop_should_continue r2
                                then while_loop k vis condition_node body_node ctx elements r2 s2
                                else if loop_should_break r2
                                then Done (Inr elements, s2)
                                else (case v of
                                        Some x \<Rightarrow>
                                          while_loop k vis condition_node body_node ctx
                                            (elements @ [x]) r2 s2
                                      | None \<Rightarrow> Unmodelled ''None as an element''))
                     else Done (Inr elements, s1)))"

definition visit_WhileNode ::
  "nat \<Rightarrow> visitor \<Rightarrow> node \<Rightarrow> node \<Rightarrow> bool \<Rightarrow> Context \<Rightarrow> Store \<Rightarrow> (RTResult \<times> Store) outcome" where
  "visit_WhileNode k vis condition_node body_node should_return_none ctx s =
     obind (while_loop k vis condition_node body_node ctx [] RTResult_init s) (\<lambda>(y, s1).
       case y of
         Inl r \<Rightarrow> Done (r, s1)
       | Inr elements \<Rightarrow>
           if should_return_none then Done (RT_success (Some Number_none), s1)
           else (case new_seq s1 elements of
                   (ref, s2) \<Rightarrow> Done (RT_success (Some (List (Some ctx) ref)), s2)))"

text \<open>
  \<open>visit_FuncDefNode\<close>: the function value gets the context of the definition, and a
  named function is bound in the symbol table of that context. The constructor of
  \<open>BaseFunction\<close> sets the name to \<open>name or "<anonymous>"\<close>.
\<close>

definition visit_FuncDefNode ::
  "Token option \<Rightarrow> Token list \<Rightarrow> node \<Rightarrow> bool \<Rightarrow> Context \<Rightarrow> Store \<Rightarrow> (RTResult \<times> Store) outcome" where
  "visit_FuncDefNode var_name_token arg_name_tokens body_node should_auto_return ctx s =
     (case those (map var_name_of arg_name_tokens) of
        None \<Rightarrow> Unmodelled ''name that is not a string''
      | Some arg_names \<Rightarrow>
          (case var_name_token of
             None \<Rightarrow>
               Done (RT_success (Some
                      (Function (Some ctx) ''<anonymous>'' body_node arg_names should_auto_return)),
                     s)
           | Some tok \<Rightarrow>
               (case var_name_of tok of
                  None \<Rightarrow> Unmodelled ''name that is not a string''
                | Some func_name \<Rightarrow>
                    (let func_value =
                           Function (Some ctx)
                             (if func_name = [] then ''<anonymous>'' else func_name)
                             body_node arg_names should_auto_return
                     in Done (RT_success (Some func_value),
                              SymbolTable_set s (symbol_table ctx) func_name func_value)))))"

definition visit_CallNode ::
  "visitor \<Rightarrow> node \<Rightarrow> node list \<Rightarrow> Context \<Rightarrow> Store \<Rightarrow> (RTResult \<times> Store) outcome" where
  "visit_CallNode vis node_to_call arg_nodes ctx s =
     obind (vis node_to_call ctx s) (\<lambda>(res, s1).
       case RT_register RTResult_init res of
         (callee, r1) \<Rightarrow>
           if should_return r1 then Done (r1, s1)
           else (case callee of
                   None \<Rightarrow> HostException ''AttributeError''
                 | Some fv \<Rightarrow>
                     obind (visit_elements vis arg_nodes ctx r1 [] s1) (\<lambda>(x, s2).
                       case x of
                         Inl r \<Rightarrow> Done (r, s2)
                       | Inr (args, r2) \<Rightarrow>
                           obind (execute vis (copy fv) args s2) (\<lambda>(eres, s3).
                             case RT_register r2 eres of
                               (return_value, r3) \<Rightarrow>
                                 if should_return r3 then Done (r3, s3)
                                 else (case return_value of
                                         None \<Rightarrow> HostException ''AttributeError''
                                       | Some rv \<Rightarrow>
                                           Done (RT_success
                                             (Some (set_context (copy rv) (Some ctx))), s3))))))"

definition visit_ReturnNode ::
  "visitor \<Rightarrow> node option \<Rightarrow> Context \<Rightarrow> Store \<Rightarrow> (RTResult \<times> Store) outcome" where
  "visit_ReturnNode vis node_to_return ctx s =
     (case node_to_return of
        Some n \<Rightarrow>
          obind (vis n ctx s) (\<lambda>(res, s1).
            case RT_register RTResult_init res of
              (v, r1) \<Rightarrow>
                if should_return r1 then Done (r1, s1)
                else Done (RT_success_return v, s1))
      | None \<Rightarrow> Done (RT_success_return (Some Number_none), s))"

definition visit_ContinueNode :: "Context \<Rightarrow> Store \<Rightarrow> (RTResult \<times> Store) outcome" where
  "visit_ContinueNode ctx s = Done (RT_success_continue, s)"

definition visit_BreakNode :: "Context \<Rightarrow> Store \<Rightarrow> (RTResult \<times> Store) outcome" where
  "visit_BreakNode ctx s = Done (RT_success_break, s)"

section \<open>run and IMPORT\<close>

text \<open>
  The process-wide \<open>global_symbol_table\<close> is the table 0 of the store, which has no
  parent; \<open>initial_store\<close> is the store at the start of the process, with the built-in
  names, for the given files.
\<close>

definition global_symbol_table :: "nat list" where
  "global_symbol_table = [0]"

definition global_symbols :: "(string \<times> Value) list" where
  "global_symbols =
     [(''NONE'', Number_none), (''FALSE'', Number_false), (''TRUE'', Number_true),
      (''MATH_PI'', Number_math_PI),
      (''PRINT'', BuiltInFunction None ''print''),
      (''PRINT_RET'', BuiltInFunction None ''print_ret''),
      (''INPUT'', BuiltInFunction None ''input''),
      (''INPUT_INT'', BuiltInFunction None ''input_int''),
      (''CLEAR'', BuiltInFunction None ''clear''),
      (''CLS'', BuiltInFunction None ''clear''),
      (''IS_NUM'', BuiltInFunction None ''is_number''),
      (''IS_STR'', BuiltInFunction None ''is_string''),
      (''IS_LIST'', BuiltInFunction None ''is_list''),
      (''IS_FUN'', BuiltInFunction None ''is_function''),
      (''APPEND'', BuiltInFunction None ''append''),
      (''POP'', BuiltInFunction None ''pop''),
      (''EXTEND'', BuiltInFunction None ''extend''),
      (''LEN'', BuiltInFunction None ''len''),
      (''RUN'', BuiltInFunction None ''run'')]"

definition initial_store :: "(string \<Rightarrow> string option) \<Rightarrow> Store" where
  "initial_store fs =
     \<lparr>tables = (\<lambda>t. if t = 0 then map_of global_symbols else Map.empty), ntables = 1,
      seqs = (\<lambda>r. []), nseqs = 0, files = fs\<rparr>"

text \<open>
  The two components of the tuple that \<open>run\<close> returns. The first is \<open>None\<close>, the
  \<open>RTResult\<close> itself (\<open>return_result=True\<close>) or \<open>result.value\<close>; the second is \<open>None\<close>,
  the error of the lexer or of the parser, or \<open>result.error\<close>.
\<close>

datatype run_first = Nothing | Result RTResult | Val Value

datatype run_error = Static Error | Runtime RTError

text \<open>
  \<open>run\<close>, with the recursion budget \<open>n\<close> of the parser. The new context
  \<open>Context("<program>", context, entry_pos)\<close> takes \<open>global_symbol_table\<close> when it has
  no parent, and the symbol table of its parent otherwise.
\<close>

definition run ::
  "visitor \<Rightarrow> nat \<Rightarrow> string \<Rightarrow> string \<Rightarrow> Context option \<Rightarrow> bool \<Rightarrow> Store
     \<Rightarrow> ((run_first \<times> run_error option) \<times> Store) outcome" where
  "run vis n fname source context return_result s =
     obind (make_tokens (Lexer_init fname source)) (\<lambda>lexed.
       case lexed of
         Inl error \<Rightarrow> Done ((Nothing, Some (Static error)), s)
       | Inr toks \<Rightarrow>
           obind (Parser_parse n toks) (\<lambda>(ast, ps).
             case error_pr ast of
               Some error \<Rightarrow> Done ((Nothing, Some (Static error)), s)
             | None \<Rightarrow>
                 (case node_pr ast of
                    Some (PNode root_node) \<Rightarrow>
                      obind (vis root_node
                               (Context ''<program>'' context
                                  (case context of
                                     None \<Rightarrow> global_symbol_table
                                   | Some parent_context \<Rightarrow> symbol_table parent_context))
                               s)
                        (\<lambda>(result, s1).
                           if return_result then Done ((Result result, None), s1)
                           else Done ((case value_rt result of
                                         None \<Rightarrow> Nothing
                                       | Some v \<Rightarrow> Val v,
                                       case error_rt result of
                                         None \<Rightarrow> None
                                       | Some e \<Rightarrow> Some (Runtime e)), s1))
                  | _ \<Rightarrow> Unmodelled ''no node'')))"

text \<open>
  \<open>filepath.value.split("/")[-1]\<close>.
\<close>

definition last_component :: "string \<Rightarrow> string" where
  "last_component path = rev (takeWhile (\<lambda>ch. ch \<noteq> CHR ''/'') (rev path))"

text \<open>
  \<open>visit_ImportNode\<close>. The files that can be opened are those of the store; a path
  that is not there raises \<open>FileNotFoundError\<close>, the one exception that is caught.
  The result of the string node is registered without a test. \<open>run\<close> is called with
  the current context and \<open>return_result=True\<close>.
\<close>

definition visit_ImportNode ::
  "visitor \<Rightarrow> nat \<Rightarrow> node \<Rightarrow> Context \<Rightarrow> Store \<Rightarrow> (RTResult \<times> Store) outcome" where
  "visit_ImportNode vis n string_node ctx s =
     obind (vis string_node ctx s) (\<lambda>(res, s1).
       case RT_register RTResult_init res of
         (filepath, r1) \<Rightarrow>
           (case filepath of
              Some (String c path) \<Rightarrow>
                (case files s1 path of
                   None \<Rightarrow>
                     Done (RT_failure (RTError
                            (''Can'' @ [CHR 0x27] @ ''t find file '' @ [CHR 0x27] @ path
                             @ [CHR 0x27]) (Some ctx)), s1)
                 | Some code \<Rightarrow>
                     obind (run vis n (last_component path) code (Some ctx) True s1)
                       (\<lambda>((run_result, error), s2).
                          case error of
                            Some (Static e) \<Rightarrow>
                              Done (RT_failure
                                     (RTError_import (last_component path) e (Some ctx)), s2)
                          | Some (Runtime e) \<Rightarrow> Unmodelled ''text of a runtime error''
                          | None \<Rightarrow>
                              (case run_result of
                                 Result rr \<Rightarrow>
                                   (case RT_register r1 rr of
                                      (_, r2) \<Rightarrow>
                                        (case error_rt r2 of
                                           Some e \<Rightarrow> Done (r2, s2)
                                         | None \<Rightarrow> Done (RT_success (Some Number_none), s2)))
                               | _ \<Rightarrow> HostException ''AttributeError'')))
            | Some (Number c n) \<Rightarrow> Unmodelled ''open of a number''
            | _ \<Rightarrow> HostException ''AttributeError''))"

text \<open>
  \<open>Interpreter.visit\<close>: the dispatch on the class of the node. The budget \<open>n\<close> bounds
  the depth of the recursion, the rounds of each loop and the parser of an import.
\<close>

primrec visit :: "nat \<Rightarrow> visitor" where
  "visit 0 = (\<lambda>node ctx s. OutOfFuel)"
| "visit (Suc n) = (\<lambda>node ctx s.
     case node of
       NumberNode token \<Rightarrow> visit_NumberNode token ctx s
     | StringNode token \<Rightarrow> visit_StringNode token ctx s
     | ListNode element_nodes p1 p2 \<Rightarrow> visit_ListNode (visit n) element_nodes ctx s
     | VarAccessNode var_name_token \<Rightarrow> visit_VarAccessNode var_name_token ctx s
     | VarAssignNode var_name_token value_node \<Rightarrow>
         visit_VarAssignNode (visit n) var_name_token value_node ctx s
     | BinOpNode left_node operator_token right_node \<Rightarrow>
         visit_BinOpNode (visit n) left_node operator_token right_node ctx s
     | UnaryOpNode operator_token operand \<Rightarrow>
         visit_UnaryOpNode (visit n) operator_token operand ctx s
     | IfNode cases else_case \<Rightarrow> visit_IfNode (visit n) cases else_case ctx s
     | ForNode var_name_token start_value_node end_value_node step_value_node body_node
               should_return_none \<Rightarrow>
         visit_ForNode n (visit n) var_name_token start_value_node end_value_node
           step_value_node body_node should_return_none ctx s
     | WhileNode condition_node body_node should_return_none \<Rightarrow>
         visit_WhileNode n (visit n) condition_node body_node should_return_none ctx s
     | FuncDefNode var_name_token arg_name_tokens body_node should_auto_return \<Rightarrow>
         visit_FuncDefNode var_name_token arg_name_tokens body_node should_auto_return ctx s
     | CallNode node_to_call arg_nodes \<Rightarrow> visit_CallNode (visit n) node_to_call arg_nodes ctx s
     | ReturnNode node_to_return p1 p2 \<Rightarrow> visit_ReturnNode (visit n) node_to_return ctx s
     | ContinueNode p1 p2 \<Rightarrow> visit_ContinueNode ctx s
     | BreakNode p1 p2 \<Rightarrow> visit_BreakNode ctx s
     | ImportNode string_node p1 p2 \<Rightarrow> visit_ImportNode (visit n) n string_node ctx s)"

text \<open>
  The top-level call \<open>run(filename, text)\<close>, from the start of the process.
\<close>

definition run_program ::
  "nat \<Rightarrow> string \<Rightarrow> string \<Rightarrow> Store \<Rightarrow> ((run_first \<times> run_error option) \<times> Store) outcome" where
  "run_program n fname source s = run (visit n) n fname source None False s"

section \<open>Notions used in the statements about the evaluator\<close>

text \<open>
  A position, the context of a top-level program, and a store in which the global
  variable \<open>a\<close> is bound to a list with the one element 1.
\<close>

definition pos0 :: Position where
  "pos0 = Position 0 0 0 ''f'' []"

definition program_context :: Context where
  "program_context = Context ''<program>'' None global_symbol_table"

definition list_a_store :: Store where
  "list_a_store =
     SymbolTable_set (snd (new_seq (initial_store Map.empty) [Number None (PInt 1)]))
       global_symbol_table ''a'' (List None 0)"









text \<open>
  In the words of the claim about the value of \<open>run\<close>: the values of a list of statements
  evaluated in order, each in the store that the one before it left (\<open>None\<close> when a
  statement stops with a signal or gives no value), and the top-level statements of a
  source text, as the parser delivers them.
\<close>

fun values_in_order :: "visitor \<Rightarrow> Context \<Rightarrow> node list \<Rightarrow> Store \<Rightarrow> (Value list \<times> Store) option" where
  "values_in_order vis ctx [] s = Some ([], s)"
| "values_in_order vis ctx (n # ns) s =
     (case vis n ctx s of
        Done (res, s1) \<Rightarrow>
          if should_return res then None
          else (case value_rt res of
                  None \<Rightarrow> None
                | Some v \<Rightarrow>
                    (case values_in_order vis ctx ns s1 of
                       None \<Rightarrow> None
                     | Some (vs, s2) \<Rightarrow> Some (v # vs, s2)))
      | _ \<Rightarrow> None)"

definition top_level_statements :: "nat \<Rightarrow> string \<Rightarrow> string \<Rightarrow> node list option" where
  "top_level_statements n fname source =
     (case make_tokens (Lexer_init fname source) of
        Done (Inr toks) \<Rightarrow>
          (case Parser_parse n toks of
             Done (ast, ps) \<Rightarrow>
               (case (error_pr ast, node_pr ast) of
                  (None, Some (PNode (ListNode stmts p1 p2))) \<Rightarrow> Some stmts
                | _ \<Rightarrow> None)
           | _ \<Rightarrow> None)
      | _ \<Rightarrow> None)"

section \<open>Verified properties\<close>

subsection \<open>Evaluating the fuelled loops at numerals\<close>

lemma lexer_fuel_numeral:
  "exponent_digits_loop (numeral k) = exponent_digits_loop (Suc (pred_numeral k))"
  "make_number_loop (numeral k) = make_number_loop (Suc (pred_numeral k))"
  "make_tokens_loop (numeral k) = make_tokens_loop (Suc (pred_numeral k))"
  by (simp_all add: numeral_eq_Suc)

lemmas lexer_number_defs =
  make_tokens_def make_number_def make_exponent_number_def Lexer_init_def Lexer_advance_def
  Position_advance_def lexer_fuel_def NUMBER_CHARS_def DIGITS_def float_of_exponent_str_def
  decimal_value_def int_of_digits_def float_of_rat_def log10_ge_308_def
  log10_le_minus_308_def Let_def

subsection \<open>Number literals at the ends of the range\<close>

text \<open>
  The literal \<open>1e-307\<close> lies inside the range and gives a \<open>FLOAT\<close> token; the literal
  \<open>1e-308\<close> gives the underflow error.
\<close>

lemma make_number_inside_range:
  "\<exists>tok lx. make_number (Lexer_init fn ''1e-307'') = Done (Inr tok, lx)
     \<and> ttype tok = TOKEN_TYPE_FLOAT"
  by (simp add: lexer_fuel_numeral lexer_number_defs new_Token_def)

lemma make_number_underflow_error:
  "\<exists>e lx. make_number (Lexer_init fn ''1e-308'') = Done (Inl e, lx)
     \<and> details e = ''exponent_underflow''"
  by (simp add: lexer_fuel_numeral lexer_number_defs InvalidSyntaxError_def ERRORS_def)

text \<open>
  C4. The claim: a literal with \<open>log10(v) >= 308\<close> gives the overflow error, an exponent
  literal with effective exponent \<open><= -308\<close> gives the underflow error, every literal in
  between gives a number token. At the exponent literal \<open>1e-400\<close>, whose exponent is
  below \<open>-308\<close>, and at the exponent literal \<open>0e0\<close>, whose value is zero, the lexer
  returns neither an error nor a token: the host float is zero, the local \<open>thelog10\<close>
  of \<open>make_exponent_number\<close> is never assigned, and reading it raises
  \<open>UnboundLocalError\<close>, which no handler catches.
\<close>

theorem C4_exponent_literal_with_zero_float_raises:
  "make_tokens (Lexer_init fn ''1e-400'') = HostException ''UnboundLocalError''
   \<and> make_tokens (Lexer_init fn ''0e0'') = HostException ''UnboundLocalError''"
  by (simp add: lexer_fuel_numeral lexer_number_defs)

lemma lexer_fuel_numeral2:
  "make_identifier_loop (numeral k) = make_identifier_loop (Suc (pred_numeral k))"
  "make_string_loop (numeral k) = make_string_loop (Suc (pred_numeral k))"
  "skip_comment_loop (numeral k) = skip_comment_loop (Suc (pred_numeral k))"
  by (simp_all add: numeral_eq_Suc)

lemmas lexer_defs =
  tokens_of_def make_tokens_def make_number_def make_exponent_number_def Lexer_init_def
  Lexer_advance_def Position_advance_def lexer_fuel_def NUMBER_CHARS_def DIGITS_def LETTERS_def
  LETTERS_DIGITS_def float_of_exponent_str_def KEYWORDS_def decimal_value_def int_of_digits_def
  float_of_rat_def log10_ge_308_def log10_le_minus_308_def Let_def make_identifier_def
  make_string_def make_two_char_def make_minus_or_arrow_def make_equals_def make_less_than_def
  make_greater_than_def make_not_equals_def skip_comment_def one_char_token_def
  single_char_type_def new_Token_def

subsection \<open>Sequencing\<close>

lemma obind_simps [simp]:
  "obind (Done x) f = f x"
  "obind (HostException e) f = HostException e"
  "obind OutOfFuel f = OutOfFuel"
  "obind (Unmodelled e) f = Unmodelled e"
  by (simp_all add: obind_def)

subsection \<open>Anonymous functions with parameters\<close>

text \<open>
  In the state where the tokens \<open>FUN\<close>, \<open>(\<close> and an identifier follow, \<open>func_def\<close>
  passes \<open>var_name_token = None\<close> to \<open>parse_params_and_arrow\<close>, which reads
  \<open>var_name_token.value\<close>.
\<close>

lemma func_def_anonymous_with_parameter:
  assumes "matches t0 TOKEN_TYPE_KEYWORD ''FUN''" "ttype t1 = TOKEN_TYPE_LPAREN"
    "ttype t2 = TOKEN_TYPE_IDENTIFIER"
  shows "func_def P inf0 inl0 \<lparr>tokens = t0 # t1 # t2 # rest, token_index = 0, current_token = t0\<rparr>
         = HostException ''AttributeError''"
  using assms
  by (simp add: func_def_def func_def_params_def parse_params_and_arrow_def advance_past_def
      Parser_advance_def update_current_tok_def)

lemma bin_op_HostException:
  "P func_a inf0 inl0 ps = HostException e \<Longrightarrow> bin_op P inf0 inl0 func_a os fb ps = HostException e"
  by (simp add: bin_op_def)

text \<open>
  From \<open>statement\<close> down to \<open>atom\<close>, a state at the keyword \<open>FUN\<close> reaches \<open>func_def\<close>
  without consuming a token, and an exception of \<open>func_def\<close> passes through every caller.
\<close>

lemma keyword_FUN_chain:
  assumes m: "matches (current_token ps) TOKEN_TYPE_KEYWORD ''FUN''"
    and f: "\<And>inl0. func_def (parse_nt k) True inl0 ps = HostException e"
  shows "parse_nt (10 + k) NT_statement inf0 inl0 ps = HostException e"
proof -
  have tt: "ttype (current_token ps) = TOKEN_TYPE_KEYWORD"
    and tv: "tvalue (current_token ps) = Some (StrVal ''FUN'')"
    using m by (simp_all add: matches_def)
  have a: "parse_nt (Suc k) NT_func_def True inl0 ps = HostException e" for inl0
    by (simp add: f)
  have b: "parse_nt (Suc (Suc k)) NT_atom inf0 inl0 ps = HostException e" for inf0 inl0
    using a by (simp add: atom_def atom_sub_def tt tv matches_def)
  have c: "parse_nt (Suc (Suc (Suc k))) NT_call inf0 inl0 ps = HostException e" for inf0 inl0
    using b by (simp add: call_def)
  have d: "parse_nt (Suc (Suc (Suc (Suc k)))) NT_power inf0 inl0 ps = HostException e" for inf0 inl0
    using c by (simp add: power_p_def bin_op_HostException)
  have e: "parse_nt (Suc (Suc (Suc (Suc (Suc k))))) NT_factor inf0 inl0 ps = HostException e" for inf0 inl0
    using d by (simp add: factor_def tt)
  have f: "parse_nt (Suc (Suc (Suc (Suc (Suc (Suc k)))))) NT_term inf0 inl0 ps = HostException e" for inf0 inl0
    using e by (simp add: term_p_def bin_op_HostException)
  have g: "parse_nt (Suc (Suc (Suc (Suc (Suc (Suc (Suc k))))))) NT_arith_expr inf0 inl0 ps = HostException e" for inf0 inl0
    using f by (simp add: arith_expr_def bin_op_HostException)
  have h: "parse_nt (Suc (Suc (Suc (Suc (Suc (Suc (Suc (Suc k)))))))) NT_comp_expr inf0 inl0 ps = HostException e" for inf0 inl0
    using g by (simp add: comp_expr_def bin_op_HostException tt tv matches_def)
  have i: "parse_nt (Suc (Suc (Suc (Suc (Suc (Suc (Suc (Suc (Suc k))))))))) NT_expr inf0 inl0 ps = HostException e" for inf0 inl0
    using h by (simp add: expr_def bin_op_HostException tt tv matches_def)
  have j: "parse_nt (Suc (Suc (Suc (Suc (Suc (Suc (Suc (Suc (Suc (Suc k)))))))))) NT_statement inf0 inl0 ps = HostException e"
    using i by (simp add: statement_def tt tv matches_def)
  have "10 + k = Suc (Suc (Suc (Suc (Suc (Suc (Suc (Suc (Suc (Suc k)))))))))" by simp
  then show ?thesis using j by metis
qed

text \<open>
  C3. The claim: parsing an anonymous function definition with at least one parameter,
  such as \<open>FUN (a, b) -> a + b\<close>, ends normally with a function-definition node without
  a name. The code: for every token list that begins with \<open>FUN\<close>, \<open>(\<close> and an
  identifier, and for every budget that reaches \<open>func_def\<close>, \<open>Parser.parse\<close> ends with
  the host exception \<open>AttributeError\<close>.
\<close>

theorem C3_anonymous_function_with_parameter_raises:
  assumes "matches t0 TOKEN_TYPE_KEYWORD ''FUN''" "ttype t1 = TOKEN_TYPE_LPAREN"
    "ttype t2 = TOKEN_TYPE_IDENTIFIER"
  shows "Parser_parse (11 + m) (t0 # t1 # t2 # rest) = HostException ''AttributeError''"
proof -
  let ?ps = "\<lparr>tokens = t0 # t1 # t2 # rest, token_index = 0, current_token = t0\<rparr>"
  have m: "matches (current_token ?ps) TOKEN_TYPE_KEYWORD ''FUN''" using assms by simp
  have st: "parse_nt (10 + m) NT_statement inf0 inl0 ?ps = HostException ''AttributeError''" for inf0 inl0
    by (rule keyword_FUN_chain[OF m]) (rule func_def_anonymous_with_parameter[OF assms])
  have tt: "ttype t0 = TOKEN_TYPE_KEYWORD" using assms(1) by (simp add: matches_def)
  have eq: "11 + m = Suc (10 + m)" by simp
  have s1: "statements (parse_nt (10 + m)) False False ?ps = HostException ''AttributeError''"
    by (simp add: statements_def parser_fuel_def tt st)
  have "parse_nt (Suc (10 + m)) NT_statements False False ?ps =
        statements (parse_nt (10 + m)) False False ?ps"
    by (simp only: parse_nt.simps nonterm.simps)
  with s1 have "parse_nt (11 + m) NT_statements False False ?ps = HostException ''AttributeError''"
    by (simp only: eq)
  then show ?thesis
    by (simp add: Parser_parse_def Parser_init_def parse_def)
qed


text \<open>The tokens of the source text \<open>FUN (a, b) -> a + b\<close>.\<close>

lemma anonymous_src_tokens:
  "\<exists>t0 t1 t2 rest. tokens_of ''f'' ''FUN (a, b) -> a + b'' = t0 # t1 # t2 # rest
     \<and> matches t0 TOKEN_TYPE_KEYWORD ''FUN'' \<and> ttype t1 = TOKEN_TYPE_LPAREN
     \<and> ttype t2 = TOKEN_TYPE_IDENTIFIER"
  by (simp add: lexer_fuel_numeral lexer_fuel_numeral2 lexer_defs matches_def)

theorem C3_witness:
  "matches (tokens_of ''f'' ''FUN (a, b) -> a + b'' ! 0) TOKEN_TYPE_KEYWORD ''FUN''
   \<and> ttype (tokens_of ''f'' ''FUN (a, b) -> a + b'' ! 1) = TOKEN_TYPE_LPAREN
   \<and> ttype (tokens_of ''f'' ''FUN (a, b) -> a + b'' ! 2) = TOKEN_TYPE_IDENTIFIER
   \<and> Parser_parse 11 (tokens_of ''f'' ''FUN (a, b) -> a + b'') = HostException ''AttributeError''"
proof -
  obtain t0 t1 t2 rest where
    toks: "tokens_of ''f'' ''FUN (a, b) -> a + b'' = t0 # t1 # t2 # rest"
    and h: "matches t0 TOKEN_TYPE_KEYWORD ''FUN''" "ttype t1 = TOKEN_TYPE_LPAREN"
      "ttype t2 = TOKEN_TYPE_IDENTIFIER"
    using anonymous_src_tokens by blast
  show ?thesis
    using C3_anonymous_function_with_parameter_raises [OF h, of 0 rest] h
    by (simp add: toks)
qed

subsection \<open>Parsing one-token expressions\<close>

lemma parse_nt_Suc:
  "parse_nt (Suc n) NT_statements = statements (parse_nt n)"
  "parse_nt (Suc n) NT_statement = statement (parse_nt n)"
  "parse_nt (Suc n) NT_expr = expr (parse_nt n)"
  "parse_nt (Suc n) NT_comp_expr = comp_expr (parse_nt n)"
  "parse_nt (Suc n) NT_arith_expr = arith_expr (parse_nt n)"
  "parse_nt (Suc n) NT_term = term_p (parse_nt n)"
  "parse_nt (Suc n) NT_factor = factor (parse_nt n)"
  "parse_nt (Suc n) NT_power = power_p (parse_nt n)"
  "parse_nt (Suc n) NT_call = call (parse_nt n)"
  "parse_nt (Suc n) NT_atom = atom (parse_nt n)"
  by (simp_all add: fun_eq_iff)

declare parse_nt.simps [simp del]

lemma bin_op_loop_stop:
  "\<not> token_in_ops (current_token ps) os \<Longrightarrow>
   bin_op_loop (Suc k) P i l os fb left r ps = Done (success r left, ps)"
  by simp

text \<open>A leaf (number or identifier) as an operand of \<open>term\<close>.\<close>

lemma leaf_atom:
  assumes "is_leaf (current_token ps)"
  shows "atom P i l ps = Done (leaf_result (leaf_node (current_token ps)), Parser_advance ps)"
  using assms by (auto simp add: atom_def advance_past_def leaf_result_def success_def
      register_advancement_def ParseResult_init_def is_leaf_def leaf_node_def)

lemma ends_term_ops:
  assumes "ends_term tok"
  shows "\<not> token_in_ops tok (TypeOps [TOKEN_TYPE_MULTIPLY, TOKEN_TYPE_DIVIDE, TOKEN_TYPE_MODULUS])"
    and "\<not> token_in_ops tok (TypeOps [TOKEN_TYPE_POWER])"
    and "ttype tok \<noteq> TOKEN_TYPE_LPAREN"
  using assms by (auto simp add: token_in_ops_def ends_term_def)

lemma ends_expr_ops:
  assumes "ends_expr tok"
  shows "\<not> token_in_ops tok (PairOps [(TOKEN_TYPE_KEYWORD, ''AND''), (TOKEN_TYPE_KEYWORD, ''OR'')])"
    and "\<not> token_in_ops tok (TypeOps COMPARISONS_TOKEN)"
    and "\<not> token_in_ops tok (TypeOps [TOKEN_TYPE_PLUS, TOKEN_TYPE_MINUS])"
    and "ends_term tok"
  using assms
  by (auto simp add: token_in_ops_def ends_expr_def matches_def split: option.splits tokval.splits)

lemma leaf_term:
  assumes lf: "is_leaf (current_token ps)" and nx: "ends_term (current_token (Parser_advance ps))"
  shows "parse_nt (Suc (Suc (Suc (Suc (Suc k))))) NT_term i l ps =
         Done (leaf_result (leaf_node (current_token ps)), Parser_advance ps)"
proof -
  let ?R = "Done (leaf_result (leaf_node (current_token ps)), Parser_advance ps)"
  have sg: "ttype (current_token ps) \<noteq> TOKEN_TYPE_PLUS" "ttype (current_token ps) \<noteq> TOKEN_TYPE_MINUS"
    using lf by (auto simp add: is_leaf_def)
  have a: "parse_nt (Suc k) NT_atom i l ps = ?R" for i l
    unfolding parse_nt_Suc by (simp add: leaf_atom [OF lf])
  have b: "parse_nt (Suc (Suc k)) NT_call i l ps = ?R" for i l
    unfolding parse_nt_Suc by (simp add: call_def a ends_term_ops [OF nx] register_def
        ParseResult_init_def success_def leaf_result_def)
  have c: "parse_nt (Suc (Suc (Suc k))) NT_power i l ps = ?R" for i l
    unfolding parse_nt_Suc by (simp add: power_p_def bin_op_def b ends_term_ops [OF nx] register_def
        ParseResult_init_def success_def leaf_result_def parser_fuel_def)
  have d: "parse_nt (Suc (Suc (Suc (Suc k)))) NT_factor i l ps = ?R" for i l
    using sg unfolding parse_nt_Suc by (simp add: factor_def c)
  show ?thesis
    unfolding parse_nt_Suc by (simp add: term_p_def bin_op_def d ends_term_ops [OF nx] register_def
        ParseResult_init_def success_def leaf_result_def parser_fuel_def)
qed

lemma leaf_statement:
  assumes lf: "is_leaf (current_token ps)" and nx: "ends_expr (current_token (Parser_advance ps))"
  shows "parse_nt (Suc (Suc (Suc (Suc (Suc (Suc (Suc (Suc (Suc k))))))))) NT_statement i l ps =
         Done (leaf_result (leaf_node (current_token ps)), Parser_advance ps)"
    and "parse_nt (Suc (Suc (Suc (Suc (Suc (Suc (Suc (Suc k)))))))) NT_expr i l ps =
         Done (leaf_result (leaf_node (current_token ps)), Parser_advance ps)"
proof -
  let ?R = "Done (leaf_result (leaf_node (current_token ps)), Parser_advance ps)"
  have kw: "ttype (current_token ps) \<noteq> TOKEN_TYPE_KEYWORD"
    using lf by (auto simp add: is_leaf_def)
  have nt: "ends_term (current_token (Parser_advance ps))"
    by (rule ends_expr_ops [OF nx])
  have e: "parse_nt (Suc (Suc (Suc (Suc (Suc k))))) NT_term i l ps = ?R" for i l k
    by (rule leaf_term [OF lf nt])
  have f: "parse_nt (Suc (Suc (Suc (Suc (Suc (Suc k)))))) NT_arith_expr i l ps = ?R" for i l k
    unfolding parse_nt_Suc by (simp add: arith_expr_def bin_op_def e ends_expr_ops [OF nx] register_def
        ParseResult_init_def success_def leaf_result_def parser_fuel_def)
  have g: "parse_nt (Suc (Suc (Suc (Suc (Suc (Suc (Suc k))))))) NT_comp_expr i l ps = ?R" for i l k
    using kw unfolding parse_nt_Suc by (simp add: comp_expr_def bin_op_def f ends_expr_ops [OF nx]
        register_def ParseResult_init_def success_def leaf_result_def parser_fuel_def matches_def)
  show h: "parse_nt (Suc (Suc (Suc (Suc (Suc (Suc (Suc (Suc k)))))))) NT_expr i l ps = ?R" for i l k
    using kw unfolding parse_nt_Suc by (simp add: expr_def bin_op_def g ends_expr_ops [OF nx]
        register_def ParseResult_init_def success_def leaf_result_def parser_fuel_def matches_def)
  show "parse_nt (Suc (Suc (Suc (Suc (Suc (Suc (Suc (Suc (Suc k))))))))) NT_statement i l ps = ?R"
    using kw unfolding parse_nt_Suc by (simp add: statement_def h register_def
        ParseResult_init_def success_def leaf_result_def matches_def)
qed

text \<open>An operand that cannot start: \<open>term\<close> fails without consuming a token.\<close>

lemma no_atom_term:
  assumes bad: "no_atom (current_token ps)"
  shows "parse_nt (Suc (Suc (Suc (Suc (Suc k))))) NT_term i l ps =
         Done (failed_result (atom_error (current_token ps)) 0, ps)"
proof -
  let ?R = "Done (failed_result (atom_error (current_token ps)) 0, ps)"
  have ty: "ttype (current_token ps) \<noteq> TOKEN_TYPE_INT" "ttype (current_token ps) \<noteq> TOKEN_TYPE_FLOAT"
    "ttype (current_token ps) \<noteq> TOKEN_TYPE_STRING" "ttype (current_token ps) \<noteq> TOKEN_TYPE_IDENTIFIER"
    "ttype (current_token ps) \<noteq> TOKEN_TYPE_LPAREN" "ttype (current_token ps) \<noteq> TOKEN_TYPE_LSQUARE"
    "ttype (current_token ps) \<noteq> TOKEN_TYPE_KEYWORD" "ttype (current_token ps) \<noteq> TOKEN_TYPE_PLUS"
    "ttype (current_token ps) \<noteq> TOKEN_TYPE_MINUS"
    using bad by (auto simp add: no_atom_def)
  have a: "parse_nt (Suc k) NT_atom i l ps = ?R" for i l
    unfolding parse_nt_Suc
    by (simp add: atom_def ty matches_def failure_def ParseResult_init_def failed_result_def
        atom_error_def Let_def)
  have b: "parse_nt (Suc (Suc k)) NT_call i l ps = ?R" for i l
    unfolding parse_nt_Suc
    by (simp add: call_def a register_def ParseResult_init_def failed_result_def)
  have c: "parse_nt (Suc (Suc (Suc k))) NT_power i l ps = ?R" for i l
    unfolding parse_nt_Suc
    by (simp add: power_p_def bin_op_def b register_def ParseResult_init_def failed_result_def)
  have d: "parse_nt (Suc (Suc (Suc (Suc k)))) NT_factor i l ps = ?R" for i l
    unfolding parse_nt_Suc by (simp add: factor_def c ty)
  show ?thesis
    unfolding parse_nt_Suc
    by (simp add: term_p_def bin_op_def d register_def ParseResult_init_def failed_result_def)
qed

text \<open>
  A statement \<open>leaf + ...\<close> whose right operand cannot start fails after two tokens, and
  keeps the error of \<open>atom\<close> through every caller (\<open>failure\<close> does not replace an error
  after an advance).
\<close>

lemma leaf_plus_no_atom_statement:
  assumes lf: "is_leaf (current_token ps)"
    and pl: "ttype (current_token (Parser_advance ps)) = TOKEN_TYPE_PLUS"
    and bad: "no_atom (current_token (Parser_advance (Parser_advance ps)))"
  shows "parse_nt (Suc (Suc (Suc (Suc (Suc (Suc (Suc (Suc (Suc k))))))))) NT_statement i l ps =
         Done (failed_result (atom_error (current_token (Parser_advance (Parser_advance ps)))) 2,
               Parser_advance (Parser_advance ps))"
proof -
  let ?ps2 = "Parser_advance (Parser_advance ps)"
  let ?E = "atom_error (current_token ?ps2)"
  let ?R = "Done (failed_result ?E 2, ?ps2)"
  have kw: "ttype (current_token ps) \<noteq> TOKEN_TYPE_KEYWORD"
    using lf by (auto simp add: is_leaf_def)
  have nt: "ends_term (current_token (Parser_advance ps))"
    using pl by (simp add: ends_term_def)
  have inop: "token_in_ops (current_token (Parser_advance ps)) (TypeOps [TOKEN_TYPE_PLUS, TOKEN_TYPE_MINUS])"
    using pl by (simp add: token_in_ops_def)
  have e: "parse_nt (Suc (Suc (Suc (Suc (Suc k))))) NT_term i l ps =
           Done (leaf_result (leaf_node (current_token ps)), Parser_advance ps)" for i l k
    by (rule leaf_term [OF lf nt])
  have e2: "parse_nt (Suc (Suc (Suc (Suc (Suc k))))) NT_term i l ?ps2 = Done (failed_result ?E 0, ?ps2)"
    for i l k
    by (rule no_atom_term [OF bad])
  have f: "parse_nt (Suc (Suc (Suc (Suc (Suc (Suc k)))))) NT_arith_expr i l ps =
           Done (\<lparr>error_pr = Some ?E, node_pr = None, last_registered_advance_count = 0,
                  advance_count = 2, to_reverse_count = 0\<rparr>, ?ps2)" for i l k
    unfolding parse_nt_Suc
    by (simp add: arith_expr_def bin_op_def e e2 inop register_def ParseResult_init_def
        leaf_result_def failed_result_def parser_fuel_def advance_past_def
        register_advancement_def)
  have g: "parse_nt (Suc (Suc (Suc (Suc (Suc (Suc (Suc k))))))) NT_comp_expr i l ps = ?R" for i l k
    using kw unfolding parse_nt_Suc
    by (simp add: comp_expr_def bin_op_def f register_def ParseResult_init_def failed_result_def
        matches_def fail_here_def failure_def)
  have h: "parse_nt (Suc (Suc (Suc (Suc (Suc (Suc (Suc (Suc k)))))))) NT_expr i l ps = ?R" for i l k
    using kw unfolding parse_nt_Suc
    by (simp add: expr_def bin_op_def g register_def ParseResult_init_def failed_result_def
        matches_def fail_here_def failure_def)
  show ?thesis
    using kw unfolding parse_nt_Suc
    by (simp add: statement_def h register_def ParseResult_init_def failed_result_def
        matches_def fail_here_def failure_def)
qed

lemma newlines_loop_keeps_error:
  "newlines_loop k r ps c = Done (r', ps', c') \<Longrightarrow> error_pr r' = error_pr r"
  by (induction k arbitrary: r ps c) (auto simp add: register_advancement_def split: if_splits)

lemma try_register_discards:
  "error_pr res \<noteq> None \<Longrightarrow> try_register r res = (None, r\<lparr>to_reverse_count := advance_count res\<rparr>)"
  by (simp add: try_register_def)

text \<open>
  C1, as amended. The claim says that a further statement that fails after consuming at
  least one token makes its own error the error of the whole parse. In the code,
  \<open>try_register\<close> never keeps the error of the attempt: whenever the attempt after one
  or more newlines fails, with whatever advance count, the loop of
  \<open>parse_any_additional_statements\<close> moves the parser back by that count, passes
  newlines once more and returns the statements collected so far, and the error field of
  the result is the one it had before the attempt.
\<close>

theorem C1_failed_attempt_is_abandoned:
  assumes nl: "newlines_loop (parser_fuel ps) r ps 0 = Done (r1, ps1, c)"
    and c: "c \<noteq> 0"
    and att: "P NT_statement inf0 inl0 ps1 = Done (res, ps2)"
    and err: "error_pr res \<noteq> None"
    and nl2: "newlines_loop (parser_fuel (reverse ps2 (advance_count res)))
                (r1\<lparr>to_reverse_count := advance_count res\<rparr>)
                (reverse ps2 (advance_count res)) 0 = Done (r3, ps4, c2)"
  shows "parse_any_additional_statements_loop (Suc (Suc k)) P inf0 inl0 True stmts r ps
           = Done (stmts, r3, ps4)
         \<and> error_pr r3 = error_pr r"
proof -
  have "error_pr r3 = error_pr r"
    using newlines_loop_keeps_error [OF nl] newlines_loop_keeps_error [OF nl2] by simp
  moreover have "parse_any_additional_statements_loop (Suc (Suc k)) P inf0 inl0 True stmts r ps
           = Done (stmts, r3, ps4)"
    using c err by (simp add: nl att nl2 try_register_discards obind_simps)
  ultimately show ?thesis by simp
qed

lemma numeral_newlines_loop:
  "newlines_loop (numeral n) = newlines_loop (Suc (pred_numeral n))"
  "parse_any_additional_statements_loop (numeral n) = parse_any_additional_statements_loop (Suc (pred_numeral n))"
  by (simp_all add: numeral_eq_Suc)

text \<open>
  Five tokens: a leaf, a newline, a leaf, \<open>+\<close>, and a token that cannot start an operand
  (as in the source text \<open>1\<close>, newline, \<open>1 +\<close>).
\<close>

lemma second_statement_fails:
  assumes t0: "is_leaf t0" and t1: "ttype t1 = TOKEN_TYPE_NEWLINE" and t2: "is_leaf t2"
    and t3: "ttype t3 = TOKEN_TYPE_PLUS" and t4: "no_atom t4"
  shows "parse_nt (Suc (Suc (Suc (Suc (Suc (Suc (Suc (Suc (Suc k))))))))) NT_statement False False
           \<lparr>tokens = [t0, t1, t2, t3, t4], token_index = 2, current_token = t2\<rparr>
         = Done (failed_result (atom_error t4) 2,
                 \<lparr>tokens = [t0, t1, t2, t3, t4], token_index = 4, current_token = t4\<rparr>)"
    and "Parser_parse (Suc (Suc (Suc (Suc (Suc (Suc (Suc (Suc (Suc (Suc k))))))))))
           [t0, t1, t2, t3, t4]
         = Done (\<lparr>error_pr = Some (InvalidSyntaxError (pos_start t2) (pos_end t2)
                                       (ERRORS ''tokens_out_of_place'')),
                  node_pr = Some (PNode (ListNode [leaf_node t0] (pos_start t0) (pos_end t2))),
                  last_registered_advance_count = 1, advance_count = 2, to_reverse_count = 2\<rparr>,
                 \<lparr>tokens = [t0, t1, t2, t3, t4], token_index = 2, current_token = t2\<rparr>)"
proof -
  let ?T = "[t0, t1, t2, t3, t4]"
  let ?st0 = "\<lparr>tokens = ?T, token_index = 0, current_token = t0\<rparr>"
  let ?st1 = "\<lparr>tokens = ?T, token_index = 1, current_token = t1\<rparr>"
  let ?st2 = "\<lparr>tokens = ?T, token_index = 2, current_token = t2\<rparr>"
  let ?st3 = "\<lparr>tokens = ?T, token_index = 3, current_token = t3\<rparr>"
  let ?st4 = "\<lparr>tokens = ?T, token_index = 4, current_token = t4\<rparr>"
  let ?P = "parse_nt (Suc (Suc (Suc (Suc (Suc (Suc (Suc (Suc (Suc k)))))))))"
  have adv: "Parser_advance ?st0 = ?st1" "Parser_advance ?st1 = ?st2" "Parser_advance ?st2 = ?st3"
    "Parser_advance ?st3 = ?st4"
    by (simp_all add: Parser_advance_def update_current_tok_def)
  have rev: "reverse ?st4 2 = ?st2"
    by (simp add: reverse_def update_current_tok_def)
  have nl0: "ttype t0 \<noteq> TOKEN_TYPE_NEWLINE" "ttype t2 \<noteq> TOKEN_TYPE_NEWLINE"
    "ttype t2 \<noteq> TOKEN_TYPE_EOF"
    using t0 t2 by (auto simp add: is_leaf_def)
  have e1: "ends_expr t1"
    using t1 by (simp add: ends_expr_def ends_term_def COMPARISONS_TOKEN_def matches_def)
  have s0: "?P NT_statement i l ?st0 = Done (leaf_result (leaf_node t0), ?st1)" for i l
    using leaf_statement(1) [of ?st0 k i l] t0 e1 by (simp add: adv)
  show s2: "?P NT_statement False False ?st2 = Done (failed_result (atom_error t4) 2, ?st4)"
    using leaf_plus_no_atom_statement [of ?st2 k False False] t2 t3 t4 by (simp add: adv)
  have add: "parse_any_additional_statements ?P False False [leaf_node t0]
               \<lparr>error_pr = None, node_pr = None, last_registered_advance_count = 1,
                  advance_count = 1, to_reverse_count = 0\<rparr> ?st1
             = Done ([leaf_node t0],
                  \<lparr>error_pr = None, node_pr = None, last_registered_advance_count = 1,
                     advance_count = 2, to_reverse_count = 2\<rparr>, ?st2)"
    by (simp add: parse_any_additional_statements_def parser_fuel_def numeral_newlines_loop
        t1 nl0 adv s2 rev obind_simps register_advancement_def try_register_def failed_result_def)
  have sts: "statements ?P False False ?st0
             = Done (\<lparr>error_pr = None,
                  node_pr = Some (PNode (ListNode [leaf_node t0] (pos_start t0) (pos_end t2))),
                  last_registered_advance_count = 1, advance_count = 2, to_reverse_count = 2\<rparr>,
                 ?st2)"
    by (simp add: statements_def parser_fuel_def nl0 s0 obind_simps register_def
        ParseResult_init_def leaf_result_def add success_def)
  show "Parser_parse (Suc (Suc (Suc (Suc (Suc (Suc (Suc (Suc (Suc (Suc k)))))))))) ?T
        = Done (\<lparr>error_pr = Some (InvalidSyntaxError (pos_start t2) (pos_end t2)
                                       (ERRORS ''tokens_out_of_place'')),
                  node_pr = Some (PNode (ListNode [leaf_node t0] (pos_start t0) (pos_end t2))),
                  last_registered_advance_count = 1, advance_count = 2, to_reverse_count = 2\<rparr>,
                 ?st2)"
    unfolding Parser_parse_def parse_def Parser_init_def
    by (simp add: parse_nt_Suc sts obind_simps nl0 fail_here_def failure_def)
qed

lemma two_lines_tokens_shape:
  "\<exists>t0 t1 t2 t3 t4. two_lines_tokens = [t0, t1, t2, t3, t4]
     \<and> is_leaf t0 \<and> ttype t1 = TOKEN_TYPE_NEWLINE \<and> is_leaf t2
     \<and> ttype t3 = TOKEN_TYPE_PLUS \<and> no_atom t4"
  by (simp add: two_lines_tokens_def two_lines_src_def lexer_fuel_numeral lexer_fuel_numeral2
      lexer_defs is_leaf_def no_atom_def)

text \<open>
  C1, counterexample. For the source text \<open>1\<close>, newline, \<open>1 +\<close> the attempt to parse the
  second statement fails after consuming two tokens, with the error of \<open>atom\<close> at
  the end of the input. The whole parse reports another error: \<open>tokens_out_of_place\<close>
  at the first token of the abandoned statement.
\<close>

theorem C1_counterexample:
  "parse_nt 9 NT_statement False False (state_at two_lines_tokens 2)
     = Done (failed_result (atom_error (two_lines_tokens ! 4)) 2, state_at two_lines_tokens 4)
   \<and> advance_count (failed_result (atom_error (two_lines_tokens ! 4)) 2) = 2
   \<and> error_pr (failed_result (atom_error (two_lines_tokens ! 4)) 2)
       = Some (atom_error (two_lines_tokens ! 4))
   \<and> Parser_parse 10 two_lines_tokens
     = Done (\<lparr>error_pr = Some (InvalidSyntaxError (pos_start (two_lines_tokens ! 2))
                                  (pos_end (two_lines_tokens ! 2)) (ERRORS ''tokens_out_of_place'')),
              node_pr = Some (PNode (ListNode [leaf_node (two_lines_tokens ! 0)]
                                       (pos_start (two_lines_tokens ! 0))
                                       (pos_end (two_lines_tokens ! 2)))),
              last_registered_advance_count = 1, advance_count = 2, to_reverse_count = 2\<rparr>,
             state_at two_lines_tokens 2)
   \<and> InvalidSyntaxError (pos_start (two_lines_tokens ! 2)) (pos_end (two_lines_tokens ! 2))
         (ERRORS ''tokens_out_of_place'')
       \<noteq> atom_error (two_lines_tokens ! 4)"
proof -
  obtain t0 t1 t2 t3 t4 where T: "two_lines_tokens = [t0, t1, t2, t3, t4]"
    and h: "is_leaf t0" "ttype t1 = TOKEN_TYPE_NEWLINE" "is_leaf t2"
      "ttype t3 = TOKEN_TYPE_PLUS" "no_atom t4"
    using two_lines_tokens_shape by blast
  have n9: "9 = Suc (Suc (Suc (Suc (Suc (Suc (Suc (Suc (Suc 0))))))))"
    and n10: "10 = Suc (Suc (Suc (Suc (Suc (Suc (Suc (Suc (Suc (Suc 0)))))))))"
    by simp_all
  show ?thesis
    unfolding n9 n10
    using second_statement_fails [OF h, of 0]
    by (simp add: T state_at_def failed_result_def atom_error_def InvalidSyntaxError_def ERRORS_def)
qed

text \<open>C1, witness: the amended statement at the second line of the same source text.\<close>

theorem C1_failed_attempt_is_abandoned_witness:
  "newlines_loop (parser_fuel (state_at two_lines_tokens 1))
     \<lparr>error_pr = None, node_pr = None, last_registered_advance_count = 1,
        advance_count = 1, to_reverse_count = 0\<rparr> (state_at two_lines_tokens 1) 0
     = Done (\<lparr>error_pr = None, node_pr = None, last_registered_advance_count = 1,
               advance_count = 2, to_reverse_count = 0\<rparr>, state_at two_lines_tokens 2, 1)
   \<and> (1::int) \<noteq> 0
   \<and> parse_nt 9 NT_statement False False (state_at two_lines_tokens 2)
     = Done (failed_result (atom_error (two_lines_tokens ! 4)) 2, state_at two_lines_tokens 4)
   \<and> error_pr (failed_result (atom_error (two_lines_tokens ! 4)) 2) \<noteq> None
   \<and> parse_any_additional_statements_loop 2 (parse_nt 9) False False True
       [leaf_node (two_lines_tokens ! 0)]
       \<lparr>error_pr = None, node_pr = None, last_registered_advance_count = 1,
          advance_count = 1, to_reverse_count = 0\<rparr> (state_at two_lines_tokens 1)
     = Done ([leaf_node (two_lines_tokens ! 0)],
             \<lparr>error_pr = None, node_pr = None, last_registered_advance_count = 1,
                advance_count = 2, to_reverse_count = 2\<rparr>, state_at two_lines_tokens 2)"
proof -
  obtain t0 t1 t2 t3 t4 where T: "two_lines_tokens = [t0, t1, t2, t3, t4]"
    and h: "is_leaf t0" "ttype t1 = TOKEN_TYPE_NEWLINE" "is_leaf t2"
      "ttype t3 = TOKEN_TYPE_PLUS" "no_atom t4"
    using two_lines_tokens_shape by blast
  let ?r0 = "\<lparr>error_pr = None, node_pr = None, last_registered_advance_count = 1,
                advance_count = 1, to_reverse_count = 0\<rparr>"
  let ?r1 = "\<lparr>error_pr = None, node_pr = None, last_registered_advance_count = 1,
                advance_count = 2, to_reverse_count = 0\<rparr>"
  let ?res = "failed_result (atom_error (two_lines_tokens ! 4)) 2"
  have nl2: "ttype t2 \<noteq> TOKEN_TYPE_NEWLINE"
    using h(3) by (auto simp add: is_leaf_def)
  have n9: "9 = Suc (Suc (Suc (Suc (Suc (Suc (Suc (Suc (Suc 0))))))))" by simp
  have a: "newlines_loop (parser_fuel (state_at two_lines_tokens 1)) ?r0
             (state_at two_lines_tokens 1) 0 = Done (?r1, state_at two_lines_tokens 2, 1)"
    by (simp add: T state_at_def parser_fuel_def numeral_newlines_loop h nl2
        register_advancement_def Parser_advance_def update_current_tok_def)
  have b: "(1::int) \<noteq> 0" by simp
  have c: "parse_nt 9 NT_statement False False (state_at two_lines_tokens 2)
           = Done (?res, state_at two_lines_tokens 4)"
    unfolding n9 using second_statement_fails(1) [OF h, of 0] by (simp add: T state_at_def)
  have d: "error_pr ?res \<noteq> None" by (simp add: failed_result_def)
  have e: "newlines_loop (parser_fuel (reverse (state_at two_lines_tokens 4) (advance_count ?res)))
             (?r1\<lparr>to_reverse_count := advance_count ?res\<rparr>)
             (reverse (state_at two_lines_tokens 4) (advance_count ?res)) 0
           = Done (?r1\<lparr>to_reverse_count := 2\<rparr>, state_at two_lines_tokens 2, 0)"
    by (simp add: T state_at_def parser_fuel_def numeral_newlines_loop nl2 failed_result_def
        reverse_def update_current_tok_def)
  have n2: "2 = Suc (Suc 0)" by simp
  show ?thesis
    using C1_failed_attempt_is_abandoned
      [where ps = "state_at two_lines_tokens 1" and r = ?r0 and ?r1.0 = ?r1
         and ?ps1.0 = "state_at two_lines_tokens 2" and c = 1 and P = "parse_nt 9"
         and ?inf0.0 = False and ?inl0.0 = False and res = ?res
         and ?ps2.0 = "state_at two_lines_tokens 4"
         and ?r3.0 = "?r1\<lparr>to_reverse_count := 2\<rparr>"
         and ?ps4.0 = "state_at two_lines_tokens 2" and ?c2.0 = 0 and k = 0
         and stmts = "[leaf_node (two_lines_tokens ! 0)]", OF a b c d e]
      a c d
    by (simp add: n2)
qed

subsection \<open>The evaluator: strings times numbers\<close>


lemma visit_Suc:
  "visit (Suc n) node ctx s =
     (case node of
       NumberNode token \<Rightarrow> visit_NumberNode token ctx s
     | StringNode token \<Rightarrow> visit_StringNode token ctx s
     | ListNode element_nodes p1 p2 \<Rightarrow> visit_ListNode (visit n) element_nodes ctx s
     | VarAccessNode var_name_token \<Rightarrow> visit_VarAccessNode var_name_token ctx s
     | VarAssignNode var_name_token value_node \<Rightarrow>
         visit_VarAssignNode (visit n) var_name_token value_node ctx s
     | BinOpNode left_node operator_token right_node \<Rightarrow>
         visit_BinOpNode (visit n) left_node operator_token right_node ctx s
     | UnaryOpNode operator_token operand \<Rightarrow>
         visit_UnaryOpNode (visit n) operator_token operand ctx s
     | IfNode cases else_case \<Rightarrow> visit_IfNode (visit n) cases else_case ctx s
     | ForNode var_name_token start_value_node end_value_node step_value_node body_node
               should_return_none \<Rightarrow>
         visit_ForNode n (visit n) var_name_token start_value_node end_value_node
           step_value_node body_node should_return_none ctx s
     | WhileNode condition_node body_node should_return_none \<Rightarrow>
         visit_WhileNode n (visit n) condition_node body_node should_return_none ctx s
     | FuncDefNode var_name_token arg_name_tokens body_node should_auto_return \<Rightarrow>
         visit_FuncDefNode var_name_token arg_name_tokens body_node should_auto_return ctx s
     | CallNode node_to_call arg_nodes \<Rightarrow> visit_CallNode (visit n) node_to_call arg_nodes ctx s
     | ReturnNode node_to_return p1 p2 \<Rightarrow> visit_ReturnNode (visit n) node_to_return ctx s
     | ContinueNode p1 p2 \<Rightarrow> visit_ContinueNode ctx s
     | BreakNode p1 p2 \<Rightarrow> visit_BreakNode ctx s
     | ImportNode string_node p1 p2 \<Rightarrow> visit_ImportNode (visit n) n string_node ctx s)"
  by simp

declare visit.simps [simp del]

lemmas rt_result_defs =
  RTResult_init_def RT_register_def RT_success_def RT_success_return_def
  RT_success_continue_def RT_success_break_def RT_failure_def should_return_def

lemma string_times_number:
  "apply_binop Op_multiplied_by (String c str) (Number c2 n) s
     = Done (Inl (illegal_operation (String c str)), s)"
  by (simp add: apply_binop_def String_op_def)

lemma dead_method:
  "String_multplied_by c str (Number c2 (PInt i))
     = Done (Inr (String c (concat (replicate (nat i) str))))"
  by (simp add: String_multplied_by_def)

text \<open>
  Claim C2. It says that a \<open>String\<close> times a \<open>Number\<close> gives the repeated string.
  The method of the repetition is spelt \<open>multplied_by\<close>, and \<open>visit_BinOpNode\<close> calls
  \<open>multiplied_by\<close>, which for a \<open>String\<close> is the default of \<open>Value\<close>: for every string
  and every number the operator gives the error \<open>Illegal operation\<close>, and so does the
  evaluation of a string literal times an integer literal, in every context and store.
\<close>

theorem C2_string_times_number_is_illegal_operation:
  "apply_binop Op_multiplied_by (String c str) (Number c2 n) s
     = Done (Inl (RTError ''Illegal operation'' c), s)
   \<and> visit (Suc (Suc k))
       (BinOpNode (StringNode (Token TOKEN_TYPE_STRING (Some (StrVal str)) p1 p2))
                  (Token TOKEN_TYPE_MULTIPLY v p3 p4)
                  (NumberNode (Token TOKEN_TYPE_INT (Some (IntVal i)) p5 p6))) ctx s
     = Done (RT_failure (RTError ''Illegal operation'' (Some ctx)), s)"
  by (simp add: visit_Suc visit_BinOpNode_def visit_StringNode_def visit_NumberNode_def
      var_name_of_def number_of_token_def binop_of_token_def apply_binop_def String_op_def
      illegal_operation_def rt_result_defs)

subsection \<open>The evaluator: lists share their backing sequence\<close>

lemma SymbolTable_get_seqs [simp]:
  "SymbolTable_get (s\<lparr>seqs := q\<rparr>) st name = SymbolTable_get s st name"
  by (induction st) (simp_all split: option.splits)

text \<open>
  Claim C8. When a variable is bound to a list with the backing sequence \<open>r\<close>: the
  operator \<open>+\<close> on a list of that sequence returns a list of the same sequence \<open>r\<close>, and
  the store afterwards has the operand appended to \<open>r\<close> and no new sequence; the operator
  \<open>-\<close> with a valid index removes the element from \<open>r\<close> in the same way; the evaluation of
  the expression \<open>name + j\<close> does so through the variable; and the variable, read afterwards,
  is a list of the sequence \<open>r\<close>, which now holds the appended element.
\<close>

theorem C8_list_plus_appends_to_the_shared_sequence:
  assumes "SymbolTable_get s (symbol_table ctx) name = Some (List c r)"
    and "var_name_of tok = Some name"
    and "ttype op_tok = TOKEN_TYPE_PLUS"
  shows "apply_binop Op_added_to (List c2 r) x s
           = Done (Inr (List c2 r), s\<lparr>seqs := (seqs s)(r := seqs s r @ [x])\<rparr>)
       \<and> apply_binop Op_subtracted_by (List c2 r) (Number c3 (PInt i)) s
           = (case py_index (length (seqs s r)) i of
                Some k \<Rightarrow>
                  Done (Inr (List c2 r),
                        s\<lparr>seqs := (seqs s)(r := take k (seqs s r) @ drop (Suc k) (seqs s r))\<rparr>)
              | None \<Rightarrow> Done (Inl (RTError (ERRORS ''list_index_error'') c2), s))
       \<and> visit (Suc (Suc k))
            (BinOpNode (VarAccessNode tok) op_tok
               (NumberNode (Token TOKEN_TYPE_INT (Some (IntVal j)) p1 p2))) ctx s
           = Done (RT_success (Some (List (Some ctx) r)),
                   s\<lparr>seqs := (seqs s)(r := seqs s r @ [Number (Some ctx) (PInt j)])\<rparr>)
       \<and> visit (Suc k) (VarAccessNode tok) ctx
            (s\<lparr>seqs := (seqs s)(r := seqs s r @ [Number (Some ctx) (PInt j)])\<rparr>)
           = Done (RT_success (Some (List (Some ctx) r)),
                   s\<lparr>seqs := (seqs s)(r := seqs s r @ [Number (Some ctx) (PInt j)])\<rparr>)"
  using assms
  by (simp add: visit_Suc visit_BinOpNode_def visit_VarAccessNode_def visit_NumberNode_def
      number_of_token_def binop_of_token_def apply_binop_def List_op_def
      rt_result_defs split: option.splits)

theorem C8_list_plus_appends_to_the_shared_sequence_witness:
  "SymbolTable_get list_a_store (symbol_table program_context) ''a'' = Some (List None 0)
   \<and> seqs list_a_store 0 = [Number None (PInt 1)]
   \<and> visit (Suc (Suc 0))
        (BinOpNode (VarAccessNode (Token TOKEN_TYPE_IDENTIFIER (Some (StrVal ''a'')) pos0 pos0))
           (Token TOKEN_TYPE_PLUS None pos0 pos0)
           (NumberNode (Token TOKEN_TYPE_INT (Some (IntVal 2)) pos0 pos0))) program_context list_a_store
       = Done (RT_success (Some (List (Some program_context) 0)),
               list_a_store\<lparr>seqs := (seqs list_a_store)
                  (0 := [Number None (PInt 1), Number (Some program_context) (PInt 2)])\<rparr>)"
  using C8_list_plus_appends_to_the_shared_sequence
    [of list_a_store program_context "''a''" None 0
        "Token TOKEN_TYPE_IDENTIFIER (Some (StrVal ''a'')) pos0 pos0"
        "Token TOKEN_TYPE_PLUS None pos0 pos0" None "Number None (PInt 0)" None 0 0 2 pos0 pos0]
  by (simp add: list_a_store_def program_context_def global_symbol_table_def
      SymbolTable_set_def new_seq_def initial_store_def var_name_of_def)

subsection \<open>The evaluator: the context of a function\<close>





subsection \<open>The evaluator: the FOR loop\<close>













subsection \<open>Parsing whole programs of one statement\<close>

text \<open>
  The statement \<open>leaf + leaf\<close>, and the parse of a token list that holds one statement
  followed by the end of the input.
\<close>

lemma leaf_plus_leaf_statement:
  assumes lf: "is_leaf (current_token ps)"
    and pl: "ttype (current_token (Parser_advance ps)) = TOKEN_TYPE_PLUS"
    and lf2: "is_leaf (current_token (Parser_advance (Parser_advance ps)))"
    and nx: "ends_expr (current_token (Parser_advance (Parser_advance (Parser_advance ps))))"
    and len: "tokens ps = tk # tks"
  shows "parse_nt (Suc (Suc (Suc (Suc (Suc (Suc (Suc (Suc (Suc k))))))))) NT_statement i l ps =
         Done (\<lparr>error_pr = None,
                 node_pr = Some (PNode (BinOpNode (leaf_node (current_token ps))
                   (current_token (Parser_advance ps))
                   (leaf_node (current_token (Parser_advance (Parser_advance ps)))))),
                 last_registered_advance_count = 3, advance_count = 3, to_reverse_count = 0\<rparr>,
               Parser_advance (Parser_advance (Parser_advance ps)))"
proof -
  let ?ps1 = "Parser_advance ps"
  let ?ps2 = "Parser_advance (Parser_advance ps)"
  let ?ps3 = "Parser_advance (Parser_advance (Parser_advance ps))"
  let ?B = "BinOpNode (leaf_node (current_token ps)) (current_token ?ps1)
              (leaf_node (current_token ?ps2))"
  let ?R = "Done (\<lparr>error_pr = None, node_pr = Some (PNode ?B),
                   last_registered_advance_count = 3, advance_count = 3, to_reverse_count = 0\<rparr>,
                 ?ps3)"
  have kw: "ttype (current_token ps) \<noteq> TOKEN_TYPE_KEYWORD"
    using lf by (auto simp add: is_leaf_def)
  have nt: "ends_term (current_token ?ps1)"
    using pl by (simp add: ends_term_def)
  have nt2: "ends_term (current_token ?ps3)"
    by (rule ends_expr_ops [OF nx])
  have inop: "token_in_ops (current_token ?ps1) (TypeOps [TOKEN_TYPE_PLUS, TOKEN_TYPE_MINUS])"
    using pl by (simp add: token_in_ops_def)
  have fuel: "parser_fuel ?ps1 = Suc (Suc (Suc (length tks)))"
    using len by (simp add: parser_fuel_def Parser_advance_def update_current_tok_def)
  have e: "parse_nt (Suc (Suc (Suc (Suc (Suc k))))) NT_term i l ps =
           Done (leaf_result (leaf_node (current_token ps)), ?ps1)" for i l k
    by (rule leaf_term [OF lf nt])
  have e2: "parse_nt (Suc (Suc (Suc (Suc (Suc k))))) NT_term i l ?ps2 =
           Done (leaf_result (leaf_node (current_token ?ps2)), ?ps3)" for i l k
    by (rule leaf_term [OF lf2 nt2])
  have f: "parse_nt (Suc (Suc (Suc (Suc (Suc (Suc k)))))) NT_arith_expr i l ps =
           Done (\<lparr>error_pr = None, node_pr = Some (PNode ?B),
                   last_registered_advance_count = 1, advance_count = 3, to_reverse_count = 0\<rparr>,
                 ?ps3)" for i l k
    unfolding parse_nt_Suc
    by (simp add: arith_expr_def bin_op_def e e2 inop fuel ends_expr_ops [OF nx] register_def
        ParseResult_init_def leaf_result_def advance_past_def register_advancement_def
        success_def)
  have g: "parse_nt (Suc (Suc (Suc (Suc (Suc (Suc (Suc k))))))) NT_comp_expr i l ps = ?R" for i l k
    using kw unfolding parse_nt_Suc
    by (simp add: comp_expr_def bin_op_def f ends_expr_ops [OF nx] register_def
        ParseResult_init_def matches_def success_def parser_fuel_def)
  have h: "parse_nt (Suc (Suc (Suc (Suc (Suc (Suc (Suc (Suc k)))))))) NT_expr i l ps = ?R" for i l k
    using kw unfolding parse_nt_Suc
    by (simp add: expr_def bin_op_def g ends_expr_ops [OF nx] register_def
        ParseResult_init_def matches_def success_def parser_fuel_def)
  show ?thesis
    using kw unfolding parse_nt_Suc
    by (simp add: statement_def h register_def ParseResult_init_def matches_def success_def)
qed

lemma one_statement_program:
  assumes st: "parse_nt n NT_statement False False
                 \<lparr>tokens = t0 # ts, token_index = 0, current_token = t0\<rparr> = Done (res, ps1)"
    and nl: "ttype t0 \<noteq> TOKEN_TYPE_NEWLINE"
    and ok: "error_pr res = None"
    and nd: "node_pr res = Some (PNode stn)"
    and eof: "ttype (current_token ps1) = TOKEN_TYPE_EOF"
  shows "Parser_parse (Suc n) (t0 # ts) =
         Done (\<lparr>error_pr = None,
                 node_pr = Some (PNode (ListNode [stn] (pos_start t0)
                                          (pos_end (current_token ps1)))),
                 last_registered_advance_count = advance_count res,
                 advance_count = advance_count res, to_reverse_count = 0\<rparr>, ps1)"
  unfolding Parser_parse_def parse_def Parser_init_def
  using nl ok nd eof
  by (simp add: parse_nt_Suc statements_def parser_fuel_def st register_def ParseResult_init_def
      parse_any_additional_statements_def success_def)

subsection \<open>The value of a program\<close>

lemma should_return_register:
  "should_return (snd (RT_register r res)) = should_return res"
  by (simp add: RT_register_def should_return_def)

lemma visit_elements_values:
  "visit_elements vis ns ctx r els s = Done (Inr (elements, r'), s') \<Longrightarrow>
   \<exists>vs. values_in_order vis ctx ns s = Some (vs, s') \<and> elements = els @ vs"
proof (induction ns arbitrary: r els s)
  case Nil
  then show ?case by simp
next
  case (Cons n ns)
  from Cons.prems obtain res s1 where v: "vis n ctx s = Done (res, s1)"
    by (cases "vis n ctx s") (auto simp add: obind_def)
  from Cons.prems v have nr: "\<not> should_return res"
    using should_return_register [of r res]
    by (auto simp add: split_beta split: if_splits)
  from Cons.prems v nr obtain x where x: "value_rt res = Some x"
    using should_return_register [of r res]
    by (cases "value_rt res") (auto simp add: split_beta RT_register_def)
  from Cons.prems v nr x have
    "visit_elements vis ns ctx (snd (RT_register r res)) (els @ [x]) s1
       = Done (Inr (elements, r'), s')"
    using should_return_register [of r res]
    by (auto simp add: split_beta RT_register_def)
  from Cons.IH [OF this] obtain vs where
    "values_in_order vis ctx ns s1 = Some (vs, s')" "elements = (els @ [x]) @ vs"
    by blast
  then show ?case using v nr x by simp
qed

lemma visit_elements_signal:
  "visit_elements vis ns ctx r els s = Done (Inl r', s') \<Longrightarrow> value_rt r' = value_rt r"
proof (induction ns arbitrary: r els s)
  case Nil
  then show ?case by simp
next
  case (Cons n ns)
  from Cons.prems obtain res s1 where v: "vis n ctx s = Done (res, s1)"
    by (cases "vis n ctx s") (auto simp add: obind_def)
  show ?case
  proof (cases "should_return res")
    case True
    then show ?thesis
      using Cons.prems v should_return_register [of r res]
      by (auto simp add: split_beta RT_register_def)
  next
    case False
    then obtain x where x: "value_rt res = Some x"
      using Cons.prems v should_return_register [of r res]
      by (cases "value_rt res") (auto simp add: split_beta RT_register_def)
    have "visit_elements vis ns ctx (snd (RT_register r res)) (els @ [x]) s1 = Done (Inl r', s')"
      using Cons.prems v False x should_return_register [of r res]
      by (auto simp add: split_beta RT_register_def)
    from Cons.IH [OF this] show ?thesis by (simp add: RT_register_def)
  qed
qed

lemma statements_success_is_list:
  assumes "statements P i l ps = Done (r, ps')" and "error_pr r = None"
  shows "\<exists>stmts p1 p2. node_pr r = Some (PNode (ListNode stmts p1 p2))"
  using assms unfolding statements_def Let_def
  by (auto simp add: obind_def success_def
      split: outcome.splits prod.splits if_splits option.splits pnode.splits)

lemma Parser_parse_success_is_list:
  assumes "Parser_parse n toks = Done (ast, ps)" and "error_pr ast = None"
  shows "\<exists>stmts p1 p2. node_pr ast = Some (PNode (ListNode stmts p1 p2))"
proof (cases n)
  case 0
  then show ?thesis
    using assms(1)
    by (simp add: Parser_parse_def parse_def parse_nt.simps(1) split: option.splits)
next
  case (Suc m)
  from assms(1) obtain ps0 where "parse (parse_nt n) ps0 = Done (ast, ps)"
    by (auto simp add: Parser_parse_def split: option.splits)
  then obtain r ps1 where st: "statements (parse_nt m) False False ps0 = Done (r, ps1)"
    and fin: "(if error_pr r = None \<and> ttype (current_token ps1) \<noteq> TOKEN_TYPE_EOF
               then Done (fail_here r ps1 (ERRORS ''tokens_out_of_place''), ps1)
               else Done (r, ps1)) = Done (ast, ps)"
    unfolding parse_def Suc parse_nt_Suc
    by (cases "statements (parse_nt m) False False ps0") (auto simp add: obind_def)
  have "ast = r"
    using fin assms(2) by (auto simp add: fail_here_def failure_def split: if_splits)
  then show ?thesis
    using statements_success_is_list [OF st] assms(2) by simp
qed

text \<open>
  Claim C10. When the top-level \<open>run\<close> of a source text returns a value and no error,
  the parser has delivered a \<open>ListNode\<close> of the top-level statements, the value is a
  \<open>List\<close> in the context of the program, and its elements in the final store are the
  values of those statements, evaluated in order. The theorem after it runs the source
  text \<open>1 + 2\<close>: the value is a list whose one element is the number 3.
\<close>

theorem C10_run_returns_the_list_of_the_statement_values:
  assumes "run_program n fname source s = Done ((Val v, None), s')"
  shows "\<exists>stmts ref m s1.
           top_level_statements n fname source = Some stmts
         \<and> v = List (Some program_context) ref
         \<and> n = Suc m
         \<and> values_in_order (visit m) program_context stmts s = Some (seqs s' ref, s1)"
proof -
  from assms obtain toks where lx: "make_tokens (Lexer_init fname source) = Done (Inr toks)"
    unfolding run_program_def run_def
    by (cases "make_tokens (Lexer_init fname source)") (auto simp add: obind_def split: sum.splits)
  from assms lx obtain ast ps where pr: "Parser_parse n toks = Done (ast, ps)"
    unfolding run_program_def run_def
    by (cases "Parser_parse n toks") (auto simp add: obind_def)
  from assms lx pr have ok: "error_pr ast = None"
    unfolding run_program_def run_def
    by (cases "error_pr ast") (auto simp add: obind_def)
  from Parser_parse_success_is_list [OF pr ok] obtain stmts p1 p2 where
    nd: "node_pr ast = Some (PNode (ListNode stmts p1 p2))" by blast
  have tl: "top_level_statements n fname source = Some stmts"
    by (simp add: top_level_statements_def lx pr ok nd)
  let ?ctx = "Context ''<program>'' None global_symbol_table"
  from assms lx pr ok nd obtain result where
    vis: "visit n (ListNode stmts p1 p2) ?ctx s = Done (result, s')"
    and val: "value_rt result = Some v"
    unfolding run_program_def run_def
    by (cases "visit n (ListNode stmts p1 p2) ?ctx s")
       (auto simp add: obind_def split: option.splits)
  from vis obtain m where n: "n = Suc m"
    by (cases n) (auto simp add: visit.simps(1))
  from vis have vl: "visit_ListNode (visit m) stmts ?ctx s = Done (result, s')"
    unfolding n visit_Suc by simp
  then obtain x s1 where
    el: "visit_elements (visit m) stmts ?ctx RTResult_init [] s = Done (x, s1)"
    unfolding visit_ListNode_def
    by (cases "visit_elements (visit m) stmts ?ctx RTResult_init [] s") (auto simp add: obind_def)
  show ?thesis
  proof (cases x)
    case (Inl r)
    then have "result = r" using vl el by (simp add: visit_ListNode_def)
    moreover have "value_rt r = None"
      using visit_elements_signal [of "visit m" stmts ?ctx RTResult_init "[]" s r s1] el Inl
      by (simp add: RTResult_init_def)
    ultimately show ?thesis using val by simp
  next
    case (Inr y)
    then obtain elements r where y: "x = Inr (elements, r)" by (cases y) simp
    from visit_elements_values [of "visit m" stmts ?ctx RTResult_init "[]" s elements r s1]
    have vio: "values_in_order (visit m) ?ctx stmts s = Some (elements, s1)"
      using el y by simp
    have res: "result = RT_success (Some (List (Some ?ctx) (nseqs s1)))"
      and st: "s' = s1\<lparr>seqs := (seqs s1)(nseqs s1 := elements), nseqs := Suc (nseqs s1)\<rparr>"
      using vl el y by (simp_all add: visit_ListNode_def new_seq_def)
    have "v = List (Some program_context) (nseqs s1)"
      using res val by (simp add: RT_success_def program_context_def)
    moreover have "seqs s' (nseqs s1) = elements" using st by simp
    ultimately show ?thesis
      using tl n vio by (auto simp add: program_context_def)
  qed
qed

lemma one_plus_two_tokens:
  "\<exists>t0 t1 t2 t3. make_tokens (Lexer_init ''f'' ''1 + 2'') = Done (Inr [t0, t1, t2, t3])
     \<and> ttype t0 = TOKEN_TYPE_INT \<and> tvalue t0 = Some (IntVal 1)
     \<and> ttype t1 = TOKEN_TYPE_PLUS
     \<and> ttype t2 = TOKEN_TYPE_INT \<and> tvalue t2 = Some (IntVal 2)
     \<and> ttype t3 = TOKEN_TYPE_EOF"
  by (simp add: lexer_fuel_numeral lexer_fuel_numeral2 lexer_defs)

lemma leaf_plus_leaf_program:
  assumes t0: "ttype t0 = TOKEN_TYPE_INT" and t1: "ttype t1 = TOKEN_TYPE_PLUS"
    and t2: "ttype t2 = TOKEN_TYPE_INT" and t3: "ttype t3 = TOKEN_TYPE_EOF"
  shows "Parser_parse (Suc (Suc (Suc (Suc (Suc (Suc (Suc (Suc (Suc (Suc k))))))))))
           [t0, t1, t2, t3]
         = Done (\<lparr>error_pr = None,
                  node_pr = Some (PNode (ListNode [BinOpNode (NumberNode t0) t1 (NumberNode t2)]
                                           (pos_start t0) (pos_end t3))),
                  last_registered_advance_count = 3, advance_count = 3, to_reverse_count = 0\<rparr>,
                 \<lparr>tokens = [t0, t1, t2, t3], token_index = 3, current_token = t3\<rparr>)"
proof -
  let ?T = "[t0, t1, t2, t3]"
  let ?st0 = "\<lparr>tokens = ?T, token_index = 0, current_token = t0\<rparr>"
  let ?st1 = "\<lparr>tokens = ?T, token_index = 1, current_token = t1\<rparr>"
  let ?st2 = "\<lparr>tokens = ?T, token_index = 2, current_token = t2\<rparr>"
  let ?st3 = "\<lparr>tokens = ?T, token_index = 3, current_token = t3\<rparr>"
  have adv: "Parser_advance ?st0 = ?st1" "Parser_advance ?st1 = ?st2" "Parser_advance ?st2 = ?st3"
    by (simp_all add: Parser_advance_def update_current_tok_def)
  have e3: "ends_expr t3"
    using t3 by (simp add: ends_expr_def ends_term_def COMPARISONS_TOKEN_def matches_def)
  have st: "parse_nt (Suc (Suc (Suc (Suc (Suc (Suc (Suc (Suc (Suc k))))))))) NT_statement
              False False ?st0
            = Done (\<lparr>error_pr = None,
                     node_pr = Some (PNode (BinOpNode (NumberNode t0) t1 (NumberNode t2))),
                     last_registered_advance_count = 3, advance_count = 3,
                     to_reverse_count = 0\<rparr>, ?st3)"
    using leaf_plus_leaf_statement [of ?st0 t0 "[t1, t2, t3]" k False False] t0 t1 t2 e3
    by (simp add: adv is_leaf_def leaf_node_def)
  show ?thesis
    using one_statement_program [OF st] t0 t3 by simp
qed

lemma run_one_plus_two:
  "run_program (Suc (Suc (Suc (Suc (Suc (Suc (Suc (Suc (Suc (Suc 0)))))))))) ''f'' ''1 + 2''
     (initial_store Map.empty)
   = Done ((Val (List (Some program_context) 0), None),
           (initial_store Map.empty)
             \<lparr>seqs := (seqs (initial_store Map.empty))
                        (0 := [Number (Some program_context) (PInt 3)]),
               nseqs := Suc 0\<rparr>)"
proof -
  obtain t0 t1 t2 t3 where
    lx: "make_tokens (Lexer_init ''f'' ''1 + 2'') = Done (Inr [t0, t1, t2, t3])"
    and h: "ttype t0 = TOKEN_TYPE_INT" "ttype t1 = TOKEN_TYPE_PLUS" "ttype t2 = TOKEN_TYPE_INT"
      "ttype t3 = TOKEN_TYPE_EOF"
    and v: "tvalue t0 = Some (IntVal 1)" "tvalue t2 = Some (IntVal 2)"
    using one_plus_two_tokens by blast
  show ?thesis
    unfolding run_program_def run_def
    by (simp add: lx leaf_plus_leaf_program [OF h] h v visit_Suc visit_ListNode_def
        visit_BinOpNode_def visit_NumberNode_def number_of_token_def binop_of_token_def
        apply_binop_def Number_op_def int_op_def is_zero_def rt_result_defs new_seq_def
        program_context_def initial_store_def)
qed

theorem C10_run_returns_the_list_of_the_statement_values_witness:
  "run_program (Suc (Suc (Suc (Suc (Suc (Suc (Suc (Suc (Suc (Suc 0)))))))))) ''f'' ''1 + 2''
     (initial_store Map.empty)
   = Done ((Val (List (Some program_context) 0), None),
           (initial_store Map.empty)
             \<lparr>seqs := (seqs (initial_store Map.empty))
                        (0 := [Number (Some program_context) (PInt 3)]),
               nseqs := Suc 0\<rparr>)
   \<and> (\<exists>stmts s1.
         top_level_statements (Suc (Suc (Suc (Suc (Suc (Suc (Suc (Suc (Suc (Suc 0))))))))))
           ''f'' ''1 + 2'' = Some stmts
       \<and> values_in_order (visit (Suc (Suc (Suc (Suc (Suc (Suc (Suc (Suc (Suc 0))))))))))
           program_context stmts (initial_store Map.empty)
         = Some ([Number (Some program_context) (PInt 3)], s1))"
  using C10_run_returns_the_list_of_the_statement_values [OF run_one_plus_two] run_one_plus_two
  by auto

end
